theory Spec2Isabelle
  imports Main "HOL-Library.Char_ord" "HOL-Library.List_Lexorder"
begin

section \<open>JavaScript values\<close>

text \<open>
  The parser of \<^verbatim>\<open>index.js\<close> (class \<^verbatim>\<open>UdgerParser\<close>) works on untyped JavaScript
  values: table cells read from the JSON dataset, rows (arrays), and the objects it builds
  with \<^verbatim>\<open>map\<close> and object spreading. An object is kept as the list of its own
  properties in insertion order, which is the order \<^verbatim>\<open>JSON.stringify\<close> prints.
  Numbers are the integers the dataset holds; NaN and fractions are not represented.
\<close>

datatype jsval =
    JUndefined
  | JNull
  | JBool bool
  | JNum int
  | JStr string
  | JArr "jsval list"
  | JObj "(string \<times> jsval) list"

type_synonym obj = "(string \<times> jsval) list"

datatype error = TypeError | HelpError

text \<open>\<^verbatim>\<open>!v\<close> is \<open>\<not> truthy v\<close>.\<close>

fun truthy :: "jsval \<Rightarrow> bool" where
  "truthy JUndefined = False"
| "truthy JNull = False"
| "truthy (JBool b) = b"
| "truthy (JNum n) = (n \<noteq> 0)"
| "truthy (JStr s) = (s \<noteq> [])"
| "truthy (JArr xs) = True"
| "truthy (JObj kvs) = True"

text \<open>\<^verbatim>\<open>a || b\<close>\<close>

definition js_or :: "jsval \<Rightarrow> jsval \<Rightarrow> jsval" where
  "js_or a b = (if truthy a then a else b)"

subsection \<open>Objects: own properties in insertion order\<close>

text \<open>\<^verbatim>\<open>o[k]\<close> on an object: the value, or undefined when there is no such property.\<close>

fun oget :: "obj \<Rightarrow> string \<Rightarrow> jsval" where
  "oget [] k = JUndefined"
| "oget ((k', v) # kvs) k = (if k' = k then v else oget kvs k)"

text \<open>\<^verbatim>\<open>o[k] = v\<close>: an existing property keeps its place, a new one goes last.\<close>

fun oset :: "(string \<times> 'a) list \<Rightarrow> string \<Rightarrow> 'a \<Rightarrow> (string \<times> 'a) list" where
  "oset [] k v = [(k, v)]"
| "oset ((k', v') # kvs) k v = (if k' = k then (k, v) # kvs else (k', v') # oset kvs k v)"

text \<open>\<^verbatim>\<open>delete o[k]\<close>\<close>

definition odelete :: "(string \<times> 'a) list \<Rightarrow> string \<Rightarrow> (string \<times> 'a) list" where
  "odelete kvs k = filter (\<lambda>p. fst p \<noteq> k) kvs"

text \<open>\<^verbatim>\<open>{...a, ...b}\<close>: the properties of \<open>a\<close>, then those of \<open>b\<close> assigned in order.\<close>

definition spread :: "obj \<Rightarrow> obj \<Rightarrow> obj" where
  "spread a b = foldl (\<lambda>acc p. oset acc (fst p) (snd p)) a b"

subsection \<open>Decimal strings and array indices\<close>

definition digit_char :: "nat \<Rightarrow> char" where
  "digit_char n = ''0123456789'' ! n"

function string_of_nat :: "nat \<Rightarrow> string" where
  "string_of_nat n =
     (if n < 10 then [digit_char n] else string_of_nat (n div 10) @ [digit_char (n mod 10)])"
  by pat_completeness auto
termination
  by (relation "measure id") auto

declare string_of_nat.simps [simp del]

definition string_of_int :: "int \<Rightarrow> string" where
  "string_of_int i = (if i < 0 then CHR ''-'' # string_of_nat (nat (- i)) else string_of_nat (nat i))"

definition is_digit :: "char \<Rightarrow> bool" where
  "is_digit c = (c \<in> set ''0123456789'')"

definition digit_val :: "char \<Rightarrow> nat" where
  "digit_val c = of_char c - 48"

definition nat_of_digits :: "string \<Rightarrow> nat" where
  "nat_of_digits s = foldl (\<lambda>a c. 10 * a + digit_val c) 0 s"

text \<open>
  A property name is an array index when it is the canonical decimal form of an integer
  below \<open>2^32 - 1\<close>. Such names address array elements, and \<^verbatim>\<open>Object.keys\<close> lists
  them first, in ascending numeric order.
\<close>

definition array_index :: "string \<Rightarrow> nat option" where
  "array_index s =
     (if s \<noteq> [] \<and> list_all is_digit s \<and> (s = ''0'' \<or> hd s \<noteq> CHR ''0'')
         \<and> nat_of_digits s < 2 ^ 32 - 1
      then Some (nat_of_digits s) else None)"

fun join_comma :: "string list \<Rightarrow> string" where
  "join_comma [] = []"
| "join_comma [s] = s"
| "join_comma (s # ss) = s @ CHR '','' # join_comma ss"

text \<open>String conversion as done by \<^verbatim>\<open>+\<close> with a string operand and by property keys.\<close>

fun to_string :: "jsval \<Rightarrow> string" where
  "to_string JUndefined = ''undefined''"
| "to_string JNull = ''null''"
| "to_string (JBool b) = (if b then ''true'' else ''false'')"
| "to_string (JNum n) = string_of_int n"
| "to_string (JStr s) = s"
| "to_string (JArr xs) =
     join_comma (map (\<lambda>v. case v of JUndefined \<Rightarrow> [] | JNull \<Rightarrow> [] | _ \<Rightarrow> to_string v) xs)"
| "to_string (JObj kvs) = ''[object Object]''"

text \<open>\<^verbatim>\<open>a + b\<close> where \<open>a\<close> is a string\<close>

definition str_plus :: "string \<Rightarrow> jsval \<Rightarrow> string" where
  "str_plus s v = s @ to_string v"

text \<open>
  Equality \<^verbatim>\<open>===\<close> on the scalars of the dataset is equality of values. The loose
  comparison \<^verbatim>\<open>v == n\<close> and the relational \<^verbatim>\<open><=\<close> convert to a number first:
  \<open>None\<close> stands for NaN. A string converts when it is empty or a run of decimal
  digits; other numeric spellings (signs, blanks, hexadecimal) are not covered.
\<close>

fun to_number :: "jsval \<Rightarrow> int option" where
  "to_number JUndefined = None"
| "to_number JNull = Some 0"
| "to_number (JBool b) = Some (if b then 1 else 0)"
| "to_number (JNum n) = Some n"
| "to_number (JStr s) = (if list_all is_digit s then Some (int (nat_of_digits s)) else None)"
| "to_number (JArr xs) = None"
| "to_number (JObj kvs) = None"

text \<open>\<^verbatim>\<open>a <= b\<close>: two strings compare as strings, anything else as numbers.\<close>

definition js_le :: "jsval \<Rightarrow> jsval \<Rightarrow> bool" where
  "js_le a b =
     (case (a, b) of
        (JStr s, JStr t) \<Rightarrow> s \<le> t
      | _ \<Rightarrow> (case (to_number a, to_number b) of (Some m, Some n) \<Rightarrow> m \<le> n | _ \<Rightarrow> False))"

text \<open>\<^verbatim>\<open>a >= b\<close>\<close>

definition js_ge :: "jsval \<Rightarrow> jsval \<Rightarrow> bool" where
  "js_ge a b = js_le b a"

subsection \<open>Property reads\<close>

text \<open>\<^verbatim>\<open>xs[k]\<close> on an array: an element, the length, or undefined.\<close>

definition arr_at :: "jsval list \<Rightarrow> jsval \<Rightarrow> jsval" where
  "arr_at xs k =
     (case k of
        JNum n \<Rightarrow> (if 0 \<le> n \<and> nat n < length xs then xs ! nat n else JUndefined)
      | JStr s \<Rightarrow>
          (case array_index s of
             Some i \<Rightarrow> (if i < length xs then xs ! i else JUndefined)
           | None \<Rightarrow> (if s = ''length'' then JNum (int (length xs)) else JUndefined))
      | _ \<Rightarrow> JUndefined)"

text \<open>
  \<^verbatim>\<open>o[k]\<close> for any receiver: reading a property of undefined or null throws a
  TypeError; a number or a boolean has no such property.
\<close>

fun get_prop :: "jsval \<Rightarrow> jsval \<Rightarrow> error + jsval" where
  "get_prop JUndefined k = Inl TypeError"
| "get_prop JNull k = Inl TypeError"
| "get_prop (JBool b) k = Inr JUndefined"
| "get_prop (JNum n) k = Inr JUndefined"
| "get_prop (JStr s) k =
     Inr (case arr_at (map (\<lambda>c. JStr [c]) s) k of JNum n \<Rightarrow> JNum n | JStr c \<Rightarrow> JStr c | _ \<Rightarrow> JUndefined)"
| "get_prop (JArr xs) k = Inr (arr_at xs k)"
| "get_prop (JObj kvs) k = Inr (oget kvs (to_string k))"

text \<open>Sequencing of steps that may throw.\<close>

definition thenE :: "error + 'a \<Rightarrow> ('a \<Rightarrow> error + 'b) \<Rightarrow> error + 'b" where
  "thenE m f = (case m of Inl e \<Rightarrow> Inl e | Inr x \<Rightarrow> f x)"

section \<open>The dataset\<close>

text \<open>
  \<^verbatim>\<open>convert.js\<close> writes every table as \<^verbatim>\<open>{ columns: {name: index}, data: [[...], ...] }\<close>
  and replaces each foreign id by the position of the row it refers to (a dangling id
  becomes \<^verbatim>\<open>undefined\<close>, which JSON stores as \<^verbatim>\<open>null\<close>). Cells are scalars.
\<close>

record table =
  columns :: "(string \<times> nat) list"
  data :: "jsval list list"

record dataset =
  udger_crawler_list :: table
  udger_crawler_class :: table
  udger_client_regex :: table
  udger_client_list :: table
  udger_client_class :: table
  udger_os_regex :: table
  udger_os_list :: table
  udger_client_os_relation :: table
  udger_deviceclass_regex :: table
  udger_deviceclass_list :: table
  udger_devicename_regex :: table
  udger_devicename_list :: table
  udger_devicename_brand :: table
  udger_ip_list :: table
  udger_ip_class :: table
  udger_datacenter_range :: table
  udger_datacenter_range6 :: table
  udger_datacenter_list :: table

text \<open>\<^verbatim>\<open>columns[key]\<close>\<close>

definition col :: "table \<Rightarrow> string \<Rightarrow> jsval" where
  "col t key = (case map_of (columns t) key of None \<Rightarrow> JUndefined | Some i \<Rightarrow> JNum (int i))"

text \<open>\<^verbatim>\<open>row[columns[key]]\<close> for a row of the table\<close>

definition cell :: "table \<Rightarrow> jsval list \<Rightarrow> string \<Rightarrow> jsval" where
  "cell t row key = arr_at row (col t key)"

text \<open>\<^verbatim>\<open>this.data[table].data[v]\<close>: the row at a foreign index, undefined when there is none\<close>

definition row_at :: "table \<Rightarrow> jsval \<Rightarrow> jsval" where
  "row_at t v = arr_at (map JArr (data t)) v"

text \<open>\<^verbatim>\<open>findBy(table, fn)\<close>: the first row that satisfies \<open>fn\<close>, or undefined\<close>

definition findBy :: "table \<Rightarrow> (jsval list \<Rightarrow> bool) \<Rightarrow> jsval" where
  "findBy t fn = (case find fn (data t) of None \<Rightarrow> JUndefined | Some row \<Rightarrow> JArr row)"

text \<open>\<^verbatim>\<open>filterBy(table, fn)\<close>\<close>

definition filterBy :: "table \<Rightarrow> (jsval list \<Rightarrow> bool) \<Rightarrow> jsval list list" where
  "filterBy t fn = filter fn (data t)"

text \<open>
  \<^verbatim>\<open>map({ table, row, keys, rename })\<close>: the named columns of a row as an object. A
  missing row gives the empty object. \<open>read_keys\<close> is the \<^verbatim>\<open>keys.reduce\<close>,
  \<open>rename_keys\<close> the loop over \<^verbatim>\<open>Object.entries(rename)\<close>.
\<close>

fun read_keys :: "table \<Rightarrow> jsval \<Rightarrow> string list \<Rightarrow> obj \<Rightarrow> error + obj" where
  "read_keys t row [] acc = Inr acc"
| "read_keys t row (key # keys) acc =
     thenE (get_prop row (col t key)) (\<lambda>v. read_keys t row keys (oset acc key v))"

fun rename_keys :: "obj \<Rightarrow> (string \<times> string) list \<Rightarrow> obj" where
  "rename_keys ret [] = ret"
| "rename_keys ret ((k1, k2) # rn) = rename_keys (odelete (oset ret k2 (oget ret k1)) k1) rn"

definition map_row :: "table \<Rightarrow> jsval \<Rightarrow> string list \<Rightarrow> (string \<times> string) list \<Rightarrow> error + obj" where
  "map_row t row keys rename =
     (if \<not> truthy row then Inr []
      else thenE (read_keys t row keys []) (\<lambda>ret. Inr (rename_keys ret rename)))"

text \<open>
  A join as the parser writes it: \<^verbatim>\<open>r = { ...r, ...this.map({ table, row:
  this.data[table].data[fk], keys, rename }) }\<close>.
\<close>

definition join :: "obj \<Rightarrow> table \<Rightarrow> jsval \<Rightarrow> string list \<Rightarrow> (string \<times> string) list \<Rightarrow> error + obj" where
  "join r t fk keys rename = thenE (map_row t (row_at t fk) keys rename) (\<lambda>m. Inr (spread r m))"

section \<open>Nested output built by dotted paths\<close>

text \<open>
  The library \<^verbatim>\<open>dot-prop\<close>: \<^verbatim>\<open>set\<close> walks the path, replacing whatever is not an
  object by a new object on the way, and assigns at the end; \<^verbatim>\<open>delete\<close> walks as far
  as there are objects. The values stored are scalars.
\<close>

fun split_at :: "char \<Rightarrow> string \<Rightarrow> string \<Rightarrow> string list" where
  "split_at d [] cur = [rev cur]"
| "split_at d (c # cs) cur = (if c = d then rev cur # split_at d cs [] else split_at d cs (c # cur))"

definition path_segments :: "string \<Rightarrow> string list" where
  "path_segments p = split_at (CHR ''.'') p []"

fun set_path :: "obj \<Rightarrow> string list \<Rightarrow> jsval \<Rightarrow> obj" where
  "set_path ob [] v = ob"
| "set_path ob [p] v = oset ob p v"
| "set_path ob (p # ps) v =
     oset ob p (JObj (set_path (case oget ob p of JObj c \<Rightarrow> c | _ \<Rightarrow> []) ps v))"

fun delete_path :: "obj \<Rightarrow> string list \<Rightarrow> obj" where
  "delete_path ob [] = ob"
| "delete_path ob [p] = odelete ob p"
| "delete_path ob (p # ps) =
     (case oget ob p of JObj c \<Rightarrow> oset ob p (JObj (delete_path c ps)) | _ \<Rightarrow> ob)"

definition dotProp_set :: "obj \<Rightarrow> string \<Rightarrow> jsval \<Rightarrow> obj" where
  "dotProp_set ob p v = set_path ob (path_segments p) v"

definition dotProp_delete :: "obj \<Rightarrow> string \<Rightarrow> obj" where
  "dotProp_delete ob p = delete_path ob (path_segments p)"

text \<open>\<^verbatim>\<open>src[f] && dotProp.set(j, p, src[f])\<close>, for a list of (path, field) lines\<close>

definition set_truthy :: "obj \<Rightarrow> obj \<Rightarrow> (string \<times> string) list \<Rightarrow> obj" where
  "set_truthy j src lines =
     foldl (\<lambda>acc l. if truthy (oget src (snd l)) then dotProp_set acc (fst l) (oget src (snd l)) else acc)
       j lines"

text \<open>\<^verbatim>\<open>dst[k] = r[f] || ''\<close>, for a list of (key, field) lines\<close>

definition assign_or_empty :: "obj \<Rightarrow> obj \<Rightarrow> (string \<times> string) list \<Rightarrow> obj" where
  "assign_or_empty dst r lines =
     foldl (\<lambda>acc l. oset acc (fst l) (js_or (oget r (snd l)) (JStr []))) dst lines"

section \<open>Collaborators outside the sources\<close>

text \<open>
  \<^verbatim>\<open>utils.js\<close>, the regular-expression engine and the \<^verbatim>\<open>ip-address\<close> library are
  not part of the sources at hand; the parser is modelled for any behaviour of theirs.
  \<^item> \<open>re_match c u\<close> is \<^verbatim>\<open>u.match(utils.phpRegexpToJs(c))\<close>: \<open>None\<close> for
    \<^verbatim>\<open>null\<close>, otherwise the match array (the whole match, then the capture groups, an
    unmatched group being \<open>None\<close>);
  \<^item> \<open>getIpVersion\<close>, \<open>inetPton\<close>, \<open>inetNtop\<close> and \<open>ip2long\<close> are the functions
    of \<^verbatim>\<open>utils\<close> of these names;
  \<^item> \<open>ipInts ip\<close> lists \<^verbatim>\<open>parseInt(h, 16)\<close> for each \<^verbatim>\<open>h\<close> of
    \<^verbatim>\<open>new Address6(ip).canonicalForm().split(':')\<close>.
\<close>

record env =
  re_match :: "jsval \<Rightarrow> string \<Rightarrow> string option list option"
  getIpVersion :: "string \<Rightarrow> jsval"
  inetPton :: "string \<Rightarrow> string"
  inetNtop :: "string \<Rightarrow> string"
  ip2long :: "string \<Rightarrow> jsval"
  ipInts :: "string \<Rightarrow> jsval list"

text \<open>The options object: the truth values of \<^verbatim>\<open>opts.json\<close> and \<^verbatim>\<open>opts.full\<close>.\<close>

record popts =
  json :: bool
  full :: bool

text \<open>\<^verbatim>\<open>e[1]\<close> of a match array, as a value\<close>

definition group1 :: "string option list \<Rightarrow> jsval" where
  "group1 e = (if 1 < length e then (case e ! 1 of None \<Rightarrow> JUndefined | Some g \<Rightarrow> JStr g) else JUndefined)"

text \<open>\<^verbatim>\<open>s.split('.')[0]\<close>\<close>

definition before_dot :: "string \<Rightarrow> string" where
  "before_dot s = takeWhile (\<lambda>c. c \<noteq> CHR ''.'') s"

text \<open>\<^verbatim>\<open>s.trim()\<close>, for the ASCII blanks (tab, line feed, vertical tab, form feed, return, space)\<close>

definition is_blank :: "char \<Rightarrow> bool" where
  "is_blank c = (of_char c \<in> {9, 10, 11, 12, 13, 32 :: nat})"

definition trim :: "string \<Rightarrow> string" where
  "trim s = rev (dropWhile is_blank (rev (dropWhile is_blank s)))"

text \<open>\<^verbatim>\<open>v == n\<close> for an integer \<open>n\<close>: null and undefined are loosely equal only to each other.\<close>

definition loose_eq_num :: "jsval \<Rightarrow> int \<Rightarrow> bool" where
  "loose_eq_num v n = (case v of JUndefined \<Rightarrow> False | JNull \<Rightarrow> False | _ \<Rightarrow> to_number v = Some n)"

text \<open>
  \<^verbatim>\<open>JSON.parse(JSON.stringify(v))\<close>: a property whose value is undefined is dropped,
  an undefined array element becomes null.
\<close>

fun json_copy :: "jsval \<Rightarrow> jsval" where
  "json_copy (JObj kvs) =
     JObj (map (\<lambda>p. (fst p, json_copy (snd p))) (filter (\<lambda>p. snd p \<noteq> JUndefined) kvs))"
| "json_copy (JArr xs) = JArr (map (\<lambda>v. if v = JUndefined then JNull else json_copy v) xs)"
| "json_copy v = v"

definition copy_obj :: "obj \<Rightarrow> obj" where
  "copy_obj ob = (case json_copy (JObj ob) of JObj c \<Rightarrow> c | _ \<Rightarrow> [])"

section \<open>parseUa\<close>

text \<open>
  The local variables of \<^verbatim>\<open>parseUa\<close> that live across its stages. The variable
  \<^verbatim>\<open>r\<close> is shared by all stages: a \<^verbatim>\<open>for (r of ...)\<close> loop leaves in it the last
  row it looked at, a stage that finds something leaves the joined object.
\<close>

record ua_st =
  rua :: obj
  ruaJson :: obj
  r_var :: jsval
  client_id :: jsval
  client_class_id :: jsval
  os_id :: jsval
  deviceclass_id :: jsval

subsection \<open>Crawler found (the branch \<^verbatim>\<open>if (q)\<close> after the search in udger_crawler_list)\<close>

definition crawler_keys :: "string list" where
  "crawler_keys =
     [''id'', ''name'', ''ver'', ''ver_major'', ''last_seen'', ''respect_robotstxt'',
      ''family'', ''family_code'', ''family_homepage'', ''family_icon'',
      ''vendor'', ''vendor_code'', ''vendor_homepage'', ''class_id'']"

text \<open>The two calls of \<^verbatim>\<open>map\<close>: the crawler row, joined with its class.\<close>

definition crawler_join :: "dataset \<Rightarrow> jsval \<Rightarrow> error + obj" where
  "crawler_join D q =
     thenE (map_row (udger_crawler_list D) q crawler_keys [(''id'', ''botid'')]) (\<lambda>r1.
     join r1 (udger_crawler_class D) (oget r1 ''class_id'')
       [''crawler_classification'', ''crawler_classification_code''] [])"

text \<open>The assignments that follow, for the joined object \<open>r\<close>.\<close>

definition crawler_fill :: "popts \<Rightarrow> ua_st \<Rightarrow> obj \<Rightarrow> ua_st" where
  "crawler_fill opts st r =
    (let rua1 = spread (rua st) [(''ua_class'', JStr ''Crawler''), (''ua_class_code'', JStr ''crawler'')];
         rua2 = assign_or_empty rua1 r
           [(''ua'', ''name''), (''ua_version'', ''ver''), (''ua_version_major'', ''ver_major''),
            (''ua_family'', ''family''), (''ua_family_code'', ''family_code''),
            (''ua_family_homepage'', ''family_homepage''), (''ua_family_vendor'', ''vendor''),
            (''ua_family_vendor_code'', ''vendor_code''),
            (''ua_family_vendor_homepage'', ''vendor_homepage''), (''ua_family_icon'', ''family_icon'')];
         rua3 = oset rua2 ''ua_family_info_url''
           (JStr (''https://udger.com/resources/ua-list/bot-detail?bot=''
              @ to_string (js_or (oget r ''family'') (JStr [])) @ ''#id''
              @ to_string (js_or (oget r ''botid'') (JStr []))));
         rua4 = assign_or_empty rua3 r
           [(''crawler_last_seen'', ''last_seen''), (''crawler_category'', ''crawler_classification''),
            (''crawler_category_code'', ''crawler_classification_code''),
            (''crawler_respect_robotstxt'', ''respect_robotstxt'')];
         j1 = set_truthy (ruaJson st) rua4 [(''ua.name'', ''ua'')];
         j2 = (if full opts then
                 let j = dotProp_set (dotProp_set j1 ''ua.class.name'' (JStr ''Crawler''))
                           ''ua.class.code'' (JStr ''crawler'');
                     j = set_truthy j rua4
                       [(''ua.version.current'', ''ua_version''), (''ua.version.major'', ''ua_version_major''),
                        (''ua.family.name'', ''ua_family''), (''ua.family.code'', ''ua_family_code''),
                        (''ua.family.homepage'', ''ua_family_homepage''),
                        (''ua.family.vendor.name'', ''ua_family_vendor''),
                        (''ua.family.vendor.code'', ''ua_family_vendor_code''),
                        (''ua.family.vendor.homepage'', ''ua_family_homepage''),
                        (''ua.family.icon'', ''ua_family_icon'')]
                 in if truthy (oget rua4 ''ua_family'') \<and> truthy (oget r ''botid'')
                    then dotProp_set j ''ua.family.infoUrl'' (oget rua4 ''ua_family_info_url'') else j
               else set_truthy (dotProp_set j1 ''ua.class'' (JStr ''crawler'')) rua4
                      [(''ua.family.code'', ''ua_family_code''),
                       (''ua.family.homepage'', ''ua_family_homepage''),
                       (''ua.family.vendor'', ''ua_family_vendor_code'')]);
         j3 = set_truthy j2 rua4 [(''crawler.lastSeen'', ''crawler_last_seen'')];
         j4 = (if full opts then
                 set_truthy j3 rua4
                   [(''crawler.category.name'', ''crawler_category''),
                    (''crawler.category.code'', ''crawler_category_code''),
                    (''crawler.respectRobotsTxt'', ''crawler_respect_robotstxt'')]
               else set_truthy j3 rua4 [(''crawler.category'', ''crawler_category_code'')])
     in st\<lparr>rua := rua4, ruaJson := j4, r_var := JObj r, client_class_id := JNum 99\<rparr>)"

definition crawler_found :: "dataset \<Rightarrow> popts \<Rightarrow> jsval \<Rightarrow> ua_st \<Rightarrow> error + ua_st" where
  "crawler_found D opts q st = thenE (crawler_join D q) (\<lambda>r. Inr (crawler_fill opts st r))"

subsection \<open>Client found (the body of \<^verbatim>\<open>if (e)\<close> in the loop over udger_client_regex)\<close>

definition client_join :: "dataset \<Rightarrow> jsval \<Rightarrow> error + obj" where
  "client_join D row =
     thenE (map_row (udger_client_regex D) row [''client_id'', ''regstring''] []) (\<lambda>r1.
     thenE (join r1 (udger_client_list D) (oget r1 ''client_id'')
              [''id'', ''class_id'', ''name'', ''name_code'', ''homepage'', ''icon'', ''icon_big'',
               ''engine'', ''vendor'', ''vendor_code'', ''vendor_homepage'', ''uptodate_current_version'']
              [(''id'', ''client_id'')]) (\<lambda>r2.
     join r2 (udger_client_class D) (oget r2 ''class_id'')
       [''id'', ''client_classification'', ''client_classification_code'']
       [(''id'', ''class_id'')]))"

definition client_fill :: "popts \<Rightarrow> string option list \<Rightarrow> ua_st \<Rightarrow> obj \<Rightarrow> ua_st" where
  "client_fill opts e st r =
    (let rua1 = spread (rua st)
           [(''ua_class'', oget r ''client_classification''),
            (''ua_class_code'', oget r ''client_classification_code'')];
         j1 = (if full opts then
                 dotProp_set (dotProp_set (ruaJson st) ''ua.class.name'' (oget rua1 ''ua_class''))
                   ''ua.class.code'' (oget rua1 ''ua_class_code'')
               else dotProp_set (ruaJson st) ''ua.class'' (oget rua1 ''ua_class_code''));
         rua2 = (if truthy (group1 e) then
                   spread rua1
                     [(''ua'', JStr (to_string (oget r ''name'') @ '' '' @ to_string (group1 e))),
                      (''ua_version'', group1 e),
                      (''ua_version_major'', JStr (before_dot (to_string (group1 e))))]
                 else
                   spread rua1
                     [(''ua'', oget r ''name''), (''ua_version'', JStr []), (''ua_version_major'', JStr [])]);
         j2 = (if truthy (oget rua2 ''ua'') then dotProp_set j1 ''ua.name'' (oget rua2 ''ua'')
               else dotProp_delete j1 ''ua.name'');
         j3 = (if full opts then
                 let j = (if truthy (oget rua2 ''ua_version'')
                          then dotProp_set j2 ''ua.version.current'' (oget rua2 ''ua_version'')
                          else dotProp_delete j2 ''ua.version.current'')
                 in (if truthy (oget rua2 ''ua_version_major'')
                     then dotProp_set j ''ua.version.current'' (oget rua2 ''ua_version_major'')
                     else dotProp_delete j ''ua.version.current'')
               else j2);
         rua3 = assign_or_empty rua2 r
           [(''ua_uptodate_current_version'', ''uptodate_current_version''),
            (''ua_family'', ''name''), (''ua_family_code'', ''name_code''),
            (''ua_family_homepage'', ''homepage''), (''ua_family_vendor'', ''vendor''),
            (''ua_family_vendor_code'', ''vendor_code''),
            (''ua_family_vendor_homepage'', ''vendor_homepage''),
            (''ua_family_icon'', ''icon''), (''ua_family_icon_big'', ''icon_big'')];
         rua4 = oset rua3 ''ua_family_info_url''
           (JStr (''https://udger.com/resources/ua-list/browser-detail?browser=''
              @ to_string (js_or (oget r ''name'') (JStr []))));
         rua5 = assign_or_empty rua4 r [(''ua_engine'', ''engine'')];
         j4 = (if full opts then
                 let j = set_truthy j3 rua5
                       [(''ua.uptodateCurrentVersion'', ''ua_uptodate_current_version''),
                        (''ua.family.name'', ''ua_family''), (''ua.family.code'', ''ua_family_code''),
                        (''ua.family.homepage'', ''ua_family_homepage''),
                        (''ua.family.vendor.name'', ''ua_family_vendor''),
                        (''ua.family.vendor.code'', ''ua_family_vendor_code''),
                        (''ua.family.vendor.homepage'', ''ua_family_vendor_homepage''),
                        (''ua.family.icon'', ''ua_family_icon''),
                        (''ua.family.iconBig'', ''ua_family_icon_big'')]
                 in if truthy (oget r ''name'')
                    then dotProp_set j ''ua.family.infoUrl'' (oget rua5 ''ua_family_info_url'') else j
               else set_truthy j3 rua5 [(''ua.family'', ''ua_family_code'')]);
         j5 = set_truthy j4 rua5 [(''ua.engine'', ''ua_engine'')]
     in st\<lparr>rua := rua5, ruaJson := j5, r_var := JObj r,
          client_id := oget r ''client_id'', client_class_id := oget r ''class_id''\<rparr>)"

definition client_found :: "dataset \<Rightarrow> popts \<Rightarrow> jsval \<Rightarrow> string option list \<Rightarrow> ua_st \<Rightarrow> error + ua_st" where
  "client_found D opts row e st = thenE (client_join D row) (\<lambda>r. Inr (client_fill opts e st r))"

text \<open>\<^verbatim>\<open>for (r of this.data.udger_client_regex.data) { e = ua.match(...); if (e) { ...; break; } }\<close>\<close>

fun client_loop :: "env \<Rightarrow> dataset \<Rightarrow> popts \<Rightarrow> string \<Rightarrow> jsval list list \<Rightarrow> ua_st \<Rightarrow> error + ua_st" where
  "client_loop E D opts u [] st = Inr st"
| "client_loop E D opts u (row # rows) st =
     (case re_match E (cell (udger_client_regex D) row ''regstring'') u of
        None \<Rightarrow> client_loop E D opts u rows (st\<lparr>r_var := JArr row\<rparr>)
      | Some e \<Rightarrow> client_found D opts (JArr row) e (st\<lparr>r_var := JArr row\<rparr>))"

text \<open>The search for crawlers, and the client stage in its \<^verbatim>\<open>else\<close> branch.\<close>

definition crawler_or_client :: "env \<Rightarrow> dataset \<Rightarrow> popts \<Rightarrow> string \<Rightarrow> ua_st \<Rightarrow> error + ua_st" where
  "crawler_or_client E D opts u st =
     (let q = findBy (udger_crawler_list D) (\<lambda>row. cell (udger_crawler_list D) row ''ua_string'' = JStr u)
      in if truthy q then crawler_found D opts q st
         else client_loop E D opts u (data (udger_client_regex D)) st)"

subsection \<open>Operating system\<close>

definition os_keys :: "string list" where
  "os_keys =
     [''id'', ''family'', ''family_code'', ''name'', ''name_code'', ''homepage'', ''icon'',
      ''icon_big'', ''vendor'', ''vendor_code'', ''vendor_homepage'']"

text \<open>The assignments to the \<^verbatim>\<open>os*\<close> fields, written twice in the source with the same text.\<close>

definition os_fields :: "obj \<Rightarrow> obj \<Rightarrow> obj" where
  "os_fields dst r =
     (let a = assign_or_empty dst r
            [(''os'', ''name''), (''os_code'', ''name_code''), (''os_homepage'', ''homepage''),
             (''os_icon'', ''icon''), (''os_icon_big'', ''icon_big'')];
          b = oset a ''os_info_url''
            (JStr (''https://udger.com/resources/ua-list/os-detail?os=''
               @ to_string (js_or (oget r ''name'') (JStr []))))
      in assign_or_empty b r
           [(''os_family'', ''family''), (''os_family_code'', ''family_code''),
            (''os_family_vendor'', ''vendor''), (''os_family_vendor_code'', ''vendor_code''),
            (''os_family_vendor_homepage'', ''vendor_homepage'')])"

definition os_json_full :: "(string \<times> string) list" where
  "os_json_full =
     [(''os.name'', ''os''), (''os.code'', ''os_code''), (''os.homepage'', ''os_homepage''),
      (''os.icon'', ''os_icon''), (''os.iconBig'', ''os_icon_big''), (''os.infoUrl'', ''os_info_url''),
      (''os.family.name'', ''os_family''), (''os.family.code'', ''os_family_code''),
      (''os.family.vendor.name'', ''os_family_vendor''),
      (''os.family.vendor.code'', ''os_family_vendor_code''),
      (''os.family.vendor.homepage'', ''os_family_vendor_homepage'')]"

definition os_join :: "dataset \<Rightarrow> jsval \<Rightarrow> error + obj" where
  "os_join D row =
     thenE (map_row (udger_os_regex D) row [''os_id'', ''regstring''] []) (\<lambda>r1.
     join r1 (udger_os_list D) (oget r1 ''os_id'') os_keys [(''id'', ''os_id'')])"

definition os_fill :: "popts \<Rightarrow> ua_st \<Rightarrow> obj \<Rightarrow> ua_st" where
  "os_fill opts st r =
    (let rua1 = os_fields (rua st) r;
         j = (if full opts then set_truthy (ruaJson st) rua1 os_json_full
              else set_truthy (ruaJson st) rua1 [(''os.code'', ''os_code''), (''os.family'', ''os_family_code'')])
     in st\<lparr>rua := rua1, ruaJson := j, r_var := JObj r, os_id := oget r ''os_id''\<rparr>)"

definition os_found :: "dataset \<Rightarrow> popts \<Rightarrow> jsval \<Rightarrow> ua_st \<Rightarrow> error + ua_st" where
  "os_found D opts row st = thenE (os_join D row) (\<lambda>r. Inr (os_fill opts st r))"

fun os_loop :: "env \<Rightarrow> dataset \<Rightarrow> popts \<Rightarrow> string \<Rightarrow> jsval list list \<Rightarrow> ua_st \<Rightarrow> error + ua_st" where
  "os_loop E D opts u [] st = Inr st"
| "os_loop E D opts u (row # rows) st =
     (case re_match E (cell (udger_os_regex D) row ''regstring'') u of
        None \<Rightarrow> os_loop E D opts u rows (st\<lparr>r_var := JArr row\<rparr>)
      | Some e \<Rightarrow> os_found D opts (JArr row) (st\<lparr>r_var := JArr row\<rparr>))"

subsection \<open>Client/OS relation\<close>

text \<open>
  The block \<^verbatim>\<open>if (os_id == 0 && client_id != 0)\<close>. The search is
  \<^verbatim>\<open>findBy('udger_client_os_relation', (row, { client_id }) => row[client_id] === client_id)\<close>:
  inside the arrow function \<^verbatim>\<open>client_id\<close> is the destructured parameter, the index of
  the column, which hides the variable \<^verbatim>\<open>client_id\<close> of \<^verbatim>\<open>parseUa\<close>; the test
  compares the cell of the column with the index of the column. The row found is
  \<^verbatim>\<open>q\<close>; the row handed to \<^verbatim>\<open>map\<close> is \<^verbatim>\<open>r\<close>, as the source has it.
\<close>

definition os_relation_join :: "dataset \<Rightarrow> jsval \<Rightarrow> error + obj" where
  "os_relation_join D row =
     thenE (map_row (udger_client_os_relation D) row [''os_id''] []) (\<lambda>r1.
     join r1 (udger_os_list D) (oget r1 ''os_id'') os_keys [(''id'', ''os_id'')])"

definition os_relation_fill :: "ua_st \<Rightarrow> obj \<Rightarrow> ua_st" where
  "os_relation_fill st r =
    (let rua1 = os_fields (rua st) r;
         j = set_truthy (ruaJson st) rua1 os_json_full
     in st\<lparr>rua := rua1, ruaJson := j, r_var := JObj r, os_id := oget r ''os_id''\<rparr>)"

definition os_relation :: "dataset \<Rightarrow> ua_st \<Rightarrow> error + ua_st" where
  "os_relation D st =
     (if loose_eq_num (os_id st) 0 \<and> \<not> loose_eq_num (client_id st) 0 then
        let q = findBy (udger_client_os_relation D)
                  (\<lambda>row. cell (udger_client_os_relation D) row ''client_id''
                          = col (udger_client_os_relation D) ''client_id'')
        in if truthy q then
             thenE (os_relation_join D (r_var st)) (\<lambda>r. Inr (os_relation_fill st r))
           else Inr st
      else Inr st)"

subsection \<open>Device class\<close>

definition deviceclass_keys :: "string list" where
  "deviceclass_keys = [''id'', ''name'', ''name_code'', ''icon'', ''icon_big'']"

definition deviceclass_lines :: "(string \<times> string) list" where
  "deviceclass_lines =
     [(''device_class'', ''name''), (''device_class_code'', ''name_code''),
      (''device_class_icon'', ''icon''), (''device_class_icon_big'', ''icon_big'')]"

definition deviceclass_json :: "popts \<Rightarrow> obj \<Rightarrow> obj \<Rightarrow> obj" where
  "deviceclass_json opts j src =
     (if full opts then
        set_truthy j src
          [(''device.class.name'', ''device_class''), (''device.class.code'', ''device_class_code''),
           (''device.class.icon'', ''device_class_icon''),
           (''device.class.iconBig'', ''device_class_icon_big''),
           (''device.class.infoUrl'', ''device_class_info_url'')]
      else set_truthy j src [(''device.class'', ''device_class_code'')])"

definition deviceclass_join :: "dataset \<Rightarrow> jsval \<Rightarrow> error + obj" where
  "deviceclass_join D row =
     thenE (map_row (udger_deviceclass_regex D) row [''deviceclass_id'', ''regstring''] []) (\<lambda>r1.
     join r1 (udger_deviceclass_list D) (oget r1 ''deviceclass_id'') deviceclass_keys
       [(''id'', ''deviceclass_id'')])"

definition deviceclass_fill :: "popts \<Rightarrow> ua_st \<Rightarrow> obj \<Rightarrow> ua_st" where
  "deviceclass_fill opts st r =
    (let rua1 = assign_or_empty (rua st) r deviceclass_lines;
         rua2 = oset rua1 ''device_class_info_url''
           (JStr (''https://udger.com/resources/ua-list/device-detail?device='' @ to_string (oget r ''name'')))
     in st\<lparr>rua := rua2, ruaJson := deviceclass_json opts (ruaJson st) rua2, r_var := JObj r,
          deviceclass_id := oget r ''deviceclass_id''\<rparr>)"

definition deviceclass_found :: "dataset \<Rightarrow> popts \<Rightarrow> jsval \<Rightarrow> ua_st \<Rightarrow> error + ua_st" where
  "deviceclass_found D opts row st = thenE (deviceclass_join D row) (\<lambda>r. Inr (deviceclass_fill opts st r))"

fun deviceclass_loop :: "env \<Rightarrow> dataset \<Rightarrow> popts \<Rightarrow> string \<Rightarrow> jsval list list \<Rightarrow> ua_st \<Rightarrow> error + ua_st" where
  "deviceclass_loop E D opts u [] st = Inr st"
| "deviceclass_loop E D opts u (row # rows) st =
     (case re_match E (cell (udger_deviceclass_regex D) row ''regstring'') u of
        None \<Rightarrow> deviceclass_loop E D opts u rows (st\<lparr>r_var := JArr row\<rparr>)
      | Some e \<Rightarrow> deviceclass_found D opts (JArr row) (st\<lparr>r_var := JArr row\<rparr>))"

text \<open>The block \<^verbatim>\<open>if (deviceclass_id == 0 && client_class_id != -1)\<close>.\<close>

definition deviceclass_fallback_join :: "dataset \<Rightarrow> jsval \<Rightarrow> error + obj" where
  "deviceclass_fallback_join D q =
     thenE (map_row (udger_client_class D) q [''deviceclass_id''] []) (\<lambda>r1.
     join r1 (udger_deviceclass_list D) (oget r1 ''deviceclass_id'') deviceclass_keys
       [(''id'', ''deviceclass_id'')])"

definition deviceclass_fallback_fill :: "popts \<Rightarrow> ua_st \<Rightarrow> obj \<Rightarrow> ua_st" where
  "deviceclass_fallback_fill opts st r =
    (let rua1 = assign_or_empty (rua st) r deviceclass_lines;
         rua2 = oset rua1 ''device_class_info_url''
           (JStr (''https://udger.com/resources/ua-list/device-detail?device=''
              @ to_string (js_or (oget r ''name'') (JStr []))))
     in st\<lparr>rua := rua2, ruaJson := deviceclass_json opts (ruaJson st) rua2, r_var := JObj r,
          deviceclass_id := oget r ''deviceclass_id''\<rparr>)"

definition deviceclass_fallback :: "dataset \<Rightarrow> popts \<Rightarrow> ua_st \<Rightarrow> error + ua_st" where
  "deviceclass_fallback D opts st =
     (if loose_eq_num (deviceclass_id st) 0 \<and> \<not> loose_eq_num (client_class_id st) (- 1) then
        let q = findBy (udger_client_class D)
                  (\<lambda>row. cell (udger_client_class D) row ''id'' = client_class_id st)
        in if truthy q then
             thenE (deviceclass_fallback_join D q) (\<lambda>r. Inr (deviceclass_fallback_fill opts st r))
           else Inr (st\<lparr>r_var := q\<rparr>)
      else Inr st)"

subsection \<open>Device market name\<close>

text \<open>
  The loop over the filtered rows of udger_devicename_regex: the first row whose regex
  matches with a non-empty group 1 gives \<^verbatim>\<open>match\<close> and \<^verbatim>\<open>rId\<close>; both stay
  undefined otherwise.
\<close>

fun devicename_loop :: "env \<Rightarrow> table \<Rightarrow> string \<Rightarrow> jsval list list \<Rightarrow> jsval \<times> jsval" where
  "devicename_loop E t u [] = (JUndefined, JUndefined)"
| "devicename_loop E t u (row # rows) =
     (case re_match E (cell t row ''regstring'') u of
        None \<Rightarrow> devicename_loop E t u rows
      | Some e \<Rightarrow>
          if truthy (group1 e) then (JStr (trim (to_string (group1 e))), cell t row ''id'')
          else devicename_loop E t u rows)"

definition devicename_join :: "dataset \<Rightarrow> jsval \<Rightarrow> error + obj" where
  "devicename_join D qC =
     thenE (map_row (udger_devicename_list D) qC [''marketname'', ''brand_id''] []) (\<lambda>rC1.
     join rC1 (udger_devicename_brand D) (oget rC1 ''brand_id'')
       [''id'', ''brand_code'', ''brand'', ''brand_url'', ''icon'', ''icon_big'']
       [(''id'', ''brand_id'')])"

definition devicename_fill :: "ua_st \<Rightarrow> obj \<Rightarrow> ua_st" where
  "devicename_fill st rC =
    (let rua1 = assign_or_empty (rua st) rC
           [(''device_marketname'', ''marketname''), (''device_brand'', ''brand''),
            (''device_brand_code'', ''brand_code''), (''device_brand_homepage'', ''brand_url''),
            (''device_brand_icon'', ''icon''), (''device_brand_icon_big'', ''icon_big'')];
         rua2 = oset rua1 ''device_brand_info_url''
           (JStr (''https://udger.com/resources/ua-list/devices-brand-detail?brand=''
              @ to_string (js_or (oget rC ''brand_code'') (JStr []))));
         j = set_truthy (ruaJson st) rua2
           [(''device.marketName'', ''device_marketname''), (''device.brand.name'', ''device_brand''),
            (''device.brand.code'', ''device_brand_code''),
            (''device.brand.homepage'', ''device_brand_homepage''),
            (''device.brand.icon'', ''device_brand_icon''),
            (''device.brand.iconBig'', ''device_brand_icon_big''),
            (''device.brand.infoUrl'', ''device_brand_info_url'')]
     in st\<lparr>rua := rua2, ruaJson := j\<rparr>)"

definition devicename :: "env \<Rightarrow> dataset \<Rightarrow> string \<Rightarrow> ua_st \<Rightarrow> error + ua_st" where
  "devicename E D u st =
     (if truthy (oget (rua st) ''os_family_code'') then
        let t = udger_devicename_regex D;
            q = filterBy t (\<lambda>row.
                  cell t row ''os_family_code'' = oget (rua st) ''os_family_code'' \<and>
                  (cell t row ''os_code'' = JStr ''-all-'' \<or> cell t row ''os_code'' = oget (rua st) ''os_code''));
            mr = devicename_loop E t u q;
            qC = findBy (udger_devicename_list D) (\<lambda>row.
                   cell (udger_devicename_list D) row ''regex_id'' = snd mr \<and>
                   cell (udger_devicename_list D) row ''code'' = fst mr)
        in if truthy qC then thenE (devicename_join D qC) (\<lambda>rC. Inr (devicename_fill st rC))
           else Inr st
      else Inr st)"

subsection \<open>The whole of parseUa\<close>

text \<open>
  \<^verbatim>\<open>parseUa(ua, opts)\<close> returns \<^verbatim>\<open>{ udger: rua, json: ruaJson }\<close>, here the pair.
  \<open>None\<close> is a user agent that is null or undefined.
\<close>

definition ua_init :: "obj \<Rightarrow> popts \<Rightarrow> string \<Rightarrow> ua_st" where
  "ua_init rua0 opts u =
     \<lparr>rua = spread rua0
        [(''ua_string'', JStr u), (''ua_class'', JStr ''Unrecognized''),
         (''ua_class_code'', JStr ''unrecognized'')],
      ruaJson =
        (let j = dotProp_set [] ''ua.string'' (JStr u)
         in if full opts then
              dotProp_set (dotProp_set j ''ua.class.name'' (JStr ''Unrecognized''))
                ''ua.class.code'' (JStr ''unrecognized'')
            else dotProp_set j ''ua.class'' (JStr ''unrecognized'')),
      r_var = JUndefined, client_id = JNum 0, client_class_id = JNum (- 1),
      os_id = JNum 0, deviceclass_id = JNum 0\<rparr>"

definition ua_stages :: "env \<Rightarrow> dataset \<Rightarrow> popts \<Rightarrow> string \<Rightarrow> ua_st \<Rightarrow> error + ua_st" where
  "ua_stages E D opts u st0 =
     thenE (crawler_or_client E D opts u st0) (\<lambda>st1.
     thenE (os_loop E D opts u (data (udger_os_regex D)) st1) (\<lambda>st2.
     thenE (os_relation D st2) (\<lambda>st3.
     thenE (deviceclass_loop E D opts u (data (udger_deviceclass_regex D)) st3) (\<lambda>st4.
     thenE (deviceclass_fallback D opts st4) (\<lambda>st5.
     devicename E D u st5)))))"

definition parseUa :: "env \<Rightarrow> dataset \<Rightarrow> obj \<Rightarrow> string option \<Rightarrow> popts \<Rightarrow> error + (obj \<times> obj)" where
  "parseUa E D retUa ua opts =
     (let rua0 = copy_obj retUa
      in case ua of
           None \<Rightarrow> Inr (rua0, [])
         | Some u \<Rightarrow>
             if u = [] then Inr (rua0, [])
             else thenE (ua_stages E D opts u (ua_init rua0 opts u)) (\<lambda>st. Inr (rua st, ruaJson st)))"

section \<open>parseIp\<close>

text \<open>The working pair of \<^verbatim>\<open>parseIp\<close>: \<^verbatim>\<open>rip\<close> and \<^verbatim>\<open>ripJson\<close>.\<close>

type_synonym ip_st = "obj \<times> obj"

subsection \<open>The address is in udger_ip_list (the branch \<^verbatim>\<open>if (q)\<close>)\<close>

definition ip_join :: "dataset \<Rightarrow> jsval \<Rightarrow> error + obj" where
  "ip_join D q =
     thenE (map_row (udger_ip_list D) q
              [''class_id'', ''crawler_id'', ''ip_last_seen'', ''ip_hostname'', ''ip_country'',
               ''ip_city'', ''ip_country_code''] []) (\<lambda>r1.
     thenE (join r1 (udger_ip_class D) (oget r1 ''class_id'')
              [''ip_classification'', ''ip_classification_code''] []) (\<lambda>r2.
     thenE (join (odelete r2 ''class_id'') (udger_crawler_list D) (oget (odelete r2 ''class_id'') ''crawler_id'')
              [''id'', ''name'', ''ver'', ''ver_major'', ''class_id'', ''last_seen'',
               ''respect_robotstxt'', ''family'', ''family_code'', ''family_homepage'',
               ''family_icon'', ''vendor'', ''vendor_code'', ''vendor_homepage'']
              [(''id'', ''botid'')]) (\<lambda>r3.
     thenE (join (odelete r3 ''crawler_id'') (udger_crawler_class D) (oget (odelete r3 ''crawler_id'') ''class_id'')
              [''crawler_classification'', ''crawler_classification_code''] []) (\<lambda>r4.
     Inr (odelete r4 ''class_id'')))))"

text \<open>The part under the comment \<^verbatim>\<open>// UDGER FORMAT\<close>.\<close>

definition ip_udger :: "obj \<Rightarrow> obj \<Rightarrow> obj" where
  "ip_udger rip r =
    (let rip1 = assign_or_empty rip r
           [(''ip_classification'', ''ip_classification''),
            (''ip_classification_code'', ''ip_classification_code''),
            (''ip_last_seen'', ''ip_last_seen''), (''ip_hostname'', ''ip_hostname''),
            (''ip_country'', ''ip_country''), (''ip_country_code'', ''ip_country_code''),
            (''ip_city'', ''ip_city''),
            (''crawler_name'', ''name''), (''crawler_ver'', ''ver''), (''crawler_ver_major'', ''ver_major''),
            (''crawler_family'', ''family''), (''crawler_family_code'', ''family_code''),
            (''crawler_family_homepage'', ''family_homepage''), (''crawler_family_vendor'', ''vendor''),
            (''crawler_family_vendor_code'', ''vendor_code''),
            (''crawler_family_vendor_homepage'', ''vendor_homepage''),
            (''crawler_family_icon'', ''family_icon'')];
         rip2 = (if oget r ''ip_classification_code'' = JStr ''crawler'' then
                   oset rip1 ''crawler_family_info_url''
                     (JStr (''https://udger.com/resources/ua-list/bot-detail?bot=''
                        @ to_string (js_or (oget r ''family'') (JStr [])) @ ''#id''
                        @ to_string (js_or (oget r ''botid'') (JStr []))))
                 else rip1);
         rip3 = assign_or_empty rip2 r
           [(''crawler_last_seen'', ''last_seen''), (''crawler_category'', ''crawler_classification''),
            (''crawler_category_code'', ''crawler_classification_code''),
            (''crawler_respect_robotstxt'', ''respect_robotstxt'')]
     in rip3)"

text \<open>The part under the comment \<^verbatim>\<open>// JSON FORMAT\<close>.\<close>

definition ip_json :: "popts \<Rightarrow> obj \<Rightarrow> obj \<Rightarrow> obj \<Rightarrow> obj" where
  "ip_json opts ripJson rip3 r =
    (let j1 = (if full opts then
                 set_truthy ripJson rip3
                   [(''classification.name'', ''ip_classification''),
                    (''classification.code'', ''ip_classification_code'')]
               else set_truthy ripJson rip3 [(''classification'', ''ip_classification_code'')]);
         j2 = set_truthy j1 rip3
           [(''lastSeen'', ''ip_last_seen''), (''hostname'', ''ip_hostname''),
            (''geo.country.name'', ''ip_country''), (''geo.country.code'', ''ip_country_code''),
            (''geo.city'', ''ip_city''), (''crawler.name'', ''crawler_name'')];
         j3 = (if full opts then
                 let j = set_truthy j2 rip3
                       [(''crawler.version.current'', ''crawler_ver''),
                        (''crawler.version.major'', ''crawler_ver_major''),
                        (''crawler.family.name'', ''crawler_family''),
                        (''crawler.family.code'', ''crawler_family_code''),
                        (''crawler.family.homepage'', ''crawler_family_homepage''),
                        (''crawler.family.vendor.name'', ''crawler_family_vendor''),
                        (''crawler.family.vendor.code'', ''crawler_family_vendor_code''),
                        (''crawler.family.vendor.homepage'', ''crawler_family_vendor_homepage''),
                        (''crawler.family.icon'', ''crawler_family_icon'')];
                     j = (if oget r ''ip_classification_code'' = JStr ''crawler'' then
                            set_truthy j rip3 [(''crawler.family.infoUrl'', ''crawler_family_info_url'')]
                          else j);
                     j = set_truthy j rip3
                       [(''crawler.lastSeen'', ''crawler_last_seen''),
                        (''crawler.category.name'', ''crawler_category''),
                        (''crawler.category.code'', ''crawler_category_code'')]
                 in if truthy (oget rip3 ''crawler_respect_robotstxt'')
                    then dotProp_set j ''crawler.respectRobotsTxt'' (oget rip3 ''crawler_category_code'') else j
               else set_truthy j2 rip3
                      [(''crawler.family'', ''crawler_family_code''),
                       (''crawler.category'', ''crawler_category_code''),
                       (''crawler.lastSeen'', ''crawler_last_seen'')])
     in j3)"

definition ip_fill :: "popts \<Rightarrow> ip_st \<Rightarrow> obj \<Rightarrow> ip_st" where
  "ip_fill opts st r = (let rip3 = ip_udger (fst st) r in (rip3, ip_json opts (snd st) rip3 r))"

definition ip_found :: "dataset \<Rightarrow> popts \<Rightarrow> jsval \<Rightarrow> ip_st \<Rightarrow> error + ip_st" where
  "ip_found D opts q st = thenE (ip_join D q) (\<lambda>r. Inr (ip_fill opts st r))"

subsection \<open>The address is not in udger_ip_list (the \<^verbatim>\<open>else\<close> branch)\<close>

definition ip_unrecognized :: "popts \<Rightarrow> ip_st \<Rightarrow> ip_st" where
  "ip_unrecognized opts st =
     (let rip1 = spread (fst st)
            [(''ip_classification'', JStr ''Unrecognized''),
             (''ip_classification_code'', JStr ''unrecognized'')]
      in (rip1,
          if full opts then
            dotProp_set (dotProp_set (snd st) ''classification.name'' (oget rip1 ''ip_classification''))
              ''classification.code'' (oget rip1 ''ip_classification_code'')
          else dotProp_set (snd st) ''classification'' (oget rip1 ''ip_classification_code'')))"

subsection \<open>Datacenter\<close>

text \<open>The body of \<^verbatim>\<open>if (q)\<close> after either search for a datacenter range.\<close>

definition datacenter_join :: "dataset \<Rightarrow> table \<Rightarrow> jsval \<Rightarrow> error + obj" where
  "datacenter_join D t q =
     thenE (map_row t q [''datacenter_id''] []) (\<lambda>r1.
     thenE (join r1 (udger_datacenter_list D) (oget r1 ''datacenter_id'')
              [''name'', ''name_code'', ''homepage''] []) (\<lambda>r2.
     Inr (odelete r2 ''datacenter_id'')))"

definition datacenter_fill :: "popts \<Rightarrow> ip_st \<Rightarrow> obj \<Rightarrow> ip_st" where
  "datacenter_fill opts st r =
    (let rip1 = assign_or_empty (fst st) r
           [(''datacenter_name'', ''name''), (''datacenter_name_code'', ''name_code''),
            (''datacenter_homepage'', ''homepage'')];
         j = (if full opts then
                set_truthy (snd st) rip1
                  [(''datacenter.name'', ''datacenter_name''), (''datacenter.code'', ''datacenter_name_code''),
                   (''datacenter.homepage'', ''datacenter_homepage'')]
              else set_truthy (snd st) rip1 [(''datacenter'', ''datacenter_name_code'')])
     in (rip1, j))"

definition datacenter_found :: "dataset \<Rightarrow> popts \<Rightarrow> table \<Rightarrow> jsval \<Rightarrow> ip_st \<Rightarrow> error + ip_st" where
  "datacenter_found D opts t q st = thenE (datacenter_join D t q) (\<lambda>r. Inr (datacenter_fill opts st r))"

text \<open>\<^verbatim>\<open>row[iplong_from] <= ipInt && row[iplong_to] >= ipInt\<close>\<close>

definition in_range :: "table \<Rightarrow> jsval list \<Rightarrow> string \<Rightarrow> string \<Rightarrow> jsval \<Rightarrow> bool" where
  "in_range t row from to v = (js_le (cell t row from) v \<and> js_ge (cell t row to) v)"

text \<open>\<^verbatim>\<open>ipInts['ipInt' + i]\<close>\<close>

definition ipInt :: "jsval list \<Rightarrow> nat \<Rightarrow> jsval" where
  "ipInt xs i = (if i < length xs then xs ! i else JUndefined)"

definition in_range6 :: "table \<Rightarrow> jsval list \<Rightarrow> jsval list \<Rightarrow> bool" where
  "in_range6 t xs row =
     (in_range t row ''iplong_from0'' ''iplong_to0'' (ipInt xs 0) \<and>
      in_range t row ''iplong_from1'' ''iplong_to1'' (ipInt xs 1) \<and>
      in_range t row ''iplong_from2'' ''iplong_to2'' (ipInt xs 2) \<and>
      in_range t row ''iplong_from3'' ''iplong_to3'' (ipInt xs 3) \<and>
      in_range t row ''iplong_from4'' ''iplong_to4'' (ipInt xs 4) \<and>
      in_range t row ''iplong_from5'' ''iplong_to5'' (ipInt xs 5) \<and>
      in_range t row ''iplong_from6'' ''iplong_to6'' (ipInt xs 6) \<and>
      in_range t row ''iplong_from7'' ''iplong_to7'' (ipInt xs 7))"

text \<open>The blocks \<^verbatim>\<open>if (ipver === 4) ... else if (ipver === 6) ...\<close>.\<close>

definition datacenter :: "env \<Rightarrow> dataset \<Rightarrow> popts \<Rightarrow> jsval \<Rightarrow> string \<Rightarrow> ip_st \<Rightarrow> error + ip_st" where
  "datacenter E D opts ipver ip st =
     (if ipver = JNum 4 then
        let q = findBy (udger_datacenter_range D)
                  (\<lambda>row. in_range (udger_datacenter_range D) row ''iplong_from'' ''iplong_to'' (ip2long E ip))
        in if truthy q then datacenter_found D opts (udger_datacenter_range D) q st else Inr st
      else if ipver = JNum 6 then
        let q = findBy (udger_datacenter_range6 D) (in_range6 (udger_datacenter_range6 D) (ipInts E ip))
        in if truthy q then datacenter_found D opts (udger_datacenter_range6 D) q st else Inr st
      else Inr st)"

subsection \<open>The whole of parseIp\<close>

text \<open>\<^verbatim>\<open>rip\<close> and \<^verbatim>\<open>ripJson\<close> before the lookup: the echoed input and the version.\<close>

definition ip_init :: "obj \<Rightarrow> popts \<Rightarrow> string \<Rightarrow> jsval \<Rightarrow> ip_st" where
  "ip_init rip0 opts ip0 ipver =
     (oset (oset rip0 ''ip'' (JStr ip0)) ''ip_ver'' ipver,
      let j1 = dotProp_set [] ''ip'' (JStr ip0)
      in if full opts then dotProp_set j1 ''version'' ipver else j1)"

text \<open>
  The variable \<^verbatim>\<open>ip\<close> after the block \<^verbatim>\<open>if (ipver === 4 || ipver === 6) { if (ipver === 6)
  { ip = utils.inetNtop(utils.inetPton(ip)); } }\<close>.
\<close>

definition canonical :: "env \<Rightarrow> string \<Rightarrow> string" where
  "canonical E ip0 = (if getIpVersion E ip0 = JNum 6 then inetNtop E (inetPton E ip0) else ip0)"

text \<open>The search in udger_ip_list and its two branches.\<close>

definition ip_lookup :: "dataset \<Rightarrow> popts \<Rightarrow> string \<Rightarrow> ip_st \<Rightarrow> error + ip_st" where
  "ip_lookup D opts ip1 st =
     (let q = findBy (udger_ip_list D) (\<lambda>row. cell (udger_ip_list D) row ''ip'' = JStr ip1)
      in if truthy q then ip_found D opts q st else Inr (ip_unrecognized opts st))"

definition parseIp :: "env \<Rightarrow> dataset \<Rightarrow> obj \<Rightarrow> string option \<Rightarrow> popts \<Rightarrow> error + (obj \<times> obj)" where
  "parseIp E D retIp ip opts =
     (let rip0 = copy_obj retIp
      in case ip of
           None \<Rightarrow> Inr (rip0, [])
         | Some ip0 \<Rightarrow>
             if ip0 = [] then Inr (rip0, [])
             else
               let ipver = getIpVersion E ip0;
                   ip1 = canonical E ip0
               in thenE (ip_lookup D opts ip1 (ip_init rip0 opts ip0 ipver))
                    (datacenter E D opts ipver ip1))"

section \<open>The parser object\<close>

text \<open>
  The result object that \<^verbatim>\<open>parse\<close> returns is also the object it puts in the cache,
  and \<^verbatim>\<open>cacheRead\<close> writes to it: result objects live in a store and are handed
  around by reference. \<open>Builtin k\<close> is the member \<open>k\<close> of \<^verbatim>\<open>Object.prototype\<close>,
  which a lookup in the plain object \<^verbatim>\<open>this.cache\<close> finds when the cache has no own
  property \<open>k\<close>.
\<close>

datatype ref = Addr nat | Builtin string

text \<open>
  The fields of \<^verbatim>\<open>UdgerParser\<close>. \<open>db\<close> tells whether \<^verbatim>\<open>this.db\<close> is a
  connection or null; \<open>ip\<close> and \<open>ua\<close> are a string or \<open>None\<close> for null or
  undefined; the two objects of \<^verbatim>\<open>defaultResult.json\<close> (a file outside the sources) are
  \<open>defaultRet_user_agent\<close> and \<open>defaultRet_ip_address\<close>; \<open>store\<close> holds the result
  objects and \<open>fresh\<close> is the next free address. The dataset \<^verbatim>\<open>this.data\<close> never
  changes and is passed separately.
\<close>

record parser =
  db :: bool
  ip :: "string option"
  ua :: "string option"
  cacheEnable :: bool
  cacheMaxRecords :: int
  cache :: "(string \<times> ref) list"
  keyCache :: string
  defaultRet_user_agent :: obj
  defaultRet_ip_address :: obj
  retUa :: obj
  retIp :: obj
  store :: "ref \<Rightarrow> obj"
  fresh :: nat

text \<open>What a call does: it returns, it throws, or it never returns.\<close>

datatype 'a outcome = Return 'a | Throw error | Diverge

text \<open>The state after \<^verbatim>\<open>constructor(file)\<close>, for given default results.\<close>

definition constructor :: "obj \<Rightarrow> obj \<Rightarrow> parser" where
  "constructor dua dip =
     \<lparr>db = True, ip = None, ua = None, cacheEnable = False, cacheMaxRecords = 4000, cache = [],
      keyCache = [], defaultRet_user_agent = dua, defaultRet_ip_address = dip,
      retUa = [], retIp = [], store = (\<lambda>a. []), fresh = 0\<rparr>"

definition connect :: "parser \<Rightarrow> bool \<times> parser" where
  "connect s = (if \<not> db s then (True, s\<lparr>db := True\<rparr>) else (False, s))"

definition disconnect :: "parser \<Rightarrow> bool \<times> parser" where
  "disconnect s = (if db s then (True, s\<lparr>db := False\<rparr>) else (False, s))"

subsection \<open>set\<close>

text \<open>
  The argument of \<^verbatim>\<open>set\<close>: nothing (a falsy value), a string, or an object given by
  its properties in order, each value a string or \<open>None\<close> for null or undefined.
\<close>

datatype set_data = NoData | StringData string | ObjectData "(string \<times> string option) list"

text \<open>\<^verbatim>\<open>c.toLowerCase()\<close> on the ASCII letters\<close>

definition lower_char :: "char \<Rightarrow> char" where
  "lower_char c = (if CHR ''A'' \<le> c \<and> c \<le> CHR ''Z'' then char_of (of_char c + (32 :: nat)) else c)"

text \<open>The loop \<^verbatim>\<open>for (const key in data)\<close>.\<close>

fun set_keys :: "parser \<Rightarrow> (string \<times> string option) list \<Rightarrow> error + parser" where
  "set_keys s [] = Inr s"
| "set_keys s ((key, v) # rest) =
     (if key = ''ua'' then set_keys (s\<lparr>ua := v\<rparr>) rest
      else if key = ''ip'' then
        (case v of None \<Rightarrow> Inl TypeError | Some a \<Rightarrow> set_keys (s\<lparr>ip := Some (map lower_char a)\<rparr>) rest)
      else Inl HelpError)"

text \<open>\<^verbatim>\<open>if (v)\<close> for a string or null\<close>

definition given :: "string option \<Rightarrow> bool" where
  "given v = (case v of None \<Rightarrow> False | Some a \<Rightarrow> a \<noteq> [])"

definition set_input :: "parser \<Rightarrow> set_data \<Rightarrow> error + parser" where
  "set_input s d =
     (case d of
        NoData \<Rightarrow> Inl HelpError
      | StringData a \<Rightarrow> Inl HelpError
      | ObjectData kvs \<Rightarrow>
          thenE (set_keys s kvs) (\<lambda>s1.
            let k1 = (if cacheEnable s1 \<and> given (ip s1) then (case ip s1 of None \<Rightarrow> [] | Some a \<Rightarrow> a) else []);
                k2 = (if cacheEnable s1 \<and> given (ua s1) then k1 @ (case ua s1 of None \<Rightarrow> [] | Some a \<Rightarrow> a) else k1)
            in Inr (s1\<lparr>keyCache := k2,
                      retUa := copy_obj (defaultRet_user_agent s1),
                      retIp := copy_obj (defaultRet_ip_address s1)\<rparr>)))"

subsection \<open>The cache\<close>

definition setCacheEnable :: "parser \<Rightarrow> bool \<Rightarrow> parser" where
  "setCacheEnable s b = s\<lparr>cacheEnable := b\<rparr>"

definition isCacheEnable :: "parser \<Rightarrow> bool" where
  "isCacheEnable s = cacheEnable s"

definition setCacheSize :: "parser \<Rightarrow> int \<Rightarrow> parser" where
  "setCacheSize s records = s\<lparr>cacheMaxRecords := records\<rparr>"

definition object_prototype_names :: "string list" where
  "object_prototype_names =
     [''constructor'', ''__defineGetter__'', ''__defineSetter__'', ''hasOwnProperty'',
      ''__lookupGetter__'', ''__lookupSetter__'', ''isPrototypeOf'', ''propertyIsEnumerable'',
      ''toString'', ''valueOf'', ''__proto__'', ''toLocaleString'']"

text \<open>\<^verbatim>\<open>this.cache[key]\<close>: an own property, else an inherited one, else undefined (\<open>None\<close>)\<close>

definition cache_get :: "(string \<times> ref) list \<Rightarrow> string \<Rightarrow> ref option" where
  "cache_get c key =
     (case map_of c key of
        Some a \<Rightarrow> Some a
      | None \<Rightarrow> if key \<in> set object_prototype_names then Some (Builtin key) else None)"

text \<open>
  \<^verbatim>\<open>Object.keys(this.cache)\<close>: the names that are array indices in ascending order,
  then the other names in the order they were added.
\<close>

definition object_keys :: "(string \<times> 'a) list \<Rightarrow> string list" where
  "object_keys c =
     (let ks = map fst c
      in sort_key (\<lambda>k. case array_index k of Some i \<Rightarrow> i | None \<Rightarrow> 0)
           (filter (\<lambda>k. array_index k \<noteq> None) ks)
         @ filter (\<lambda>k. array_index k = None) ks)"

definition cacheKeyExist :: "parser \<Rightarrow> string \<Rightarrow> bool" where
  "cacheKeyExist s key = (cache_get (cache s) key \<noteq> None)"

text \<open>
  \<^verbatim>\<open>cacheRead(key, opts)\<close>: the flag is written to the object the cache refers to, and
  that reference is returned. Writing a property of undefined throws.
\<close>

definition set_flag :: "parser \<Rightarrow> ref option \<Rightarrow> string \<Rightarrow> error + (ref option \<times> parser)" where
  "set_flag s ret flag =
     (case ret of
        None \<Rightarrow> Inl TypeError
      | Some a \<Rightarrow> Inr (Some a, s\<lparr>store := (store s)(a := oset (store s a) flag (JBool True))\<rparr>))"

definition cacheRead :: "parser \<Rightarrow> string \<Rightarrow> popts option \<Rightarrow> error + (ref option \<times> parser)" where
  "cacheRead s key opts =
     (let ret = cache_get (cache s) key
      in case opts of
           None \<Rightarrow> set_flag s ret ''from_cache''
         | Some op \<Rightarrow>
             if json op then (if full op then set_flag s ret ''fromCache'' else Inr (ret, s))
             else set_flag s ret ''from_cache'')"

text \<open>
  The loop \<^verbatim>\<open>while (Object.keys(this.cache).length > this.cacheMaxRecords) delete
  this.cache[Object.keys(this.cache)[0]]\<close>. On an empty cache the key is undefined and the
  deletion removes nothing. \<open>None\<close> is a loop that never ends.
\<close>

partial_function (option) evict :: "int \<Rightarrow> (string \<times> ref) list \<Rightarrow> (string \<times> ref) list option" where
  "evict maxr c =
     (if int (length (object_keys c)) > maxr
      then evict maxr (odelete c (case object_keys c of [] \<Rightarrow> ''undefined'' | k # ks \<Rightarrow> k))
      else Some c)"

text \<open>\<^verbatim>\<open>cacheWrite(key, data)\<close>; \<open>None\<close> when the call never returns.\<close>

definition cacheWrite :: "parser \<Rightarrow> string \<Rightarrow> ref \<Rightarrow> parser option" where
  "cacheWrite s key d =
     (if cacheKeyExist s key then Some s
      else map_option (\<lambda>c. s\<lparr>cache := c\<rparr>) (evict (cacheMaxRecords s) (oset (cache s) key d)))"

definition cacheClean :: "parser \<Rightarrow> parser" where
  "cacheClean s = s\<lparr>cache := []\<rparr>"

subsection \<open>parse\<close>

text \<open>\<^verbatim>\<open>if (!opts) opts = {}\<close>\<close>

definition opts_or_empty :: "popts option \<Rightarrow> popts" where
  "opts_or_empty opts = (case opts of None \<Rightarrow> \<lparr>json = False, full = False\<rparr> | Some op \<Rightarrow> op)"

text \<open>The object \<^verbatim>\<open>ret\<close> that \<^verbatim>\<open>parse\<close> builds when it does not answer from the cache.\<close>

definition build_ret :: "env \<Rightarrow> dataset \<Rightarrow> parser \<Rightarrow> popts \<Rightarrow> error + obj" where
  "build_ret E D s opts =
     (if json opts then
        thenE (if given (ua s)
               then thenE (parseUa E D (retUa s) (ua s) opts) (\<lambda>p. Inr [(''userAgent'', JObj (snd p))])
               else Inr []) (\<lambda>ret1.
        thenE (if given (ip s)
               then thenE (parseIp E D (retIp s) (ip s) opts) (\<lambda>p. Inr (oset ret1 ''ipAddress'' (JObj (snd p))))
               else Inr ret1) (\<lambda>ret2.
        Inr (if full opts then oset ret2 ''fromCache'' (JBool False) else ret2)))
      else
        thenE (parseUa E D (retUa s) (ua s) opts) (\<lambda>p.
        thenE (parseIp E D (retIp s) (ip s) opts) (\<lambda>q.
        Inr [(''user_agent'', JObj (fst p)), (''ip_address'', JObj (fst q)), (''from_cache'', JBool False)])))"

text \<open>A new object in the store.\<close>

definition alloc :: "parser \<Rightarrow> obj \<Rightarrow> ref \<times> parser" where
  "alloc s ob = (Addr (fresh s), s\<lparr>store := (store s)(Addr (fresh s) := ob), fresh := Suc (fresh s)\<rparr>)"

definition parse :: "env \<Rightarrow> dataset \<Rightarrow> parser \<Rightarrow> popts option \<Rightarrow> (ref option \<times> parser) outcome" where
  "parse E D s opts =
     (if \<not> db s then (let (a, s1) = alloc s [] in Return (Some a, s1))
      else if isCacheEnable s \<and> cacheKeyExist s (keyCache s) then
        (case cacheRead s (keyCache s) opts of Inl e \<Rightarrow> Throw e | Inr res \<Rightarrow> Return res)
      else
        (case build_ret E D s (opts_or_empty opts) of
           Inl e \<Rightarrow> Throw e
         | Inr ret \<Rightarrow>
             let (a, s1) = alloc s ret
             in if isCacheEnable s1 then
                  (case cacheWrite s1 (keyCache s1) a of None \<Rightarrow> Diverge | Some s2 \<Rightarrow> Return (Some a, s2))
                else Return (Some a, s1)))"

subsection \<open>Sequences of calls\<close>

text \<open>\<^verbatim>\<open>cacheWrite(k1, d1); cacheWrite(k2, d2); ...\<close>\<close>

fun cacheWrites :: "parser \<Rightarrow> (string \<times> ref) list \<Rightarrow> parser option" where
  "cacheWrites s [] = Some s"
| "cacheWrites s ((key, d) # ws) =
     (case cacheWrite s key d of None \<Rightarrow> None | Some s1 \<Rightarrow> cacheWrites s1 ws)"

text \<open>A cache with two entries, as two writes to a new parser leave it.\<close>

definition two_entries :: parser where
  "two_entries = (constructor [] [])\<lparr>cache := [(''a'', Addr 0), (''b'', Addr 1)]\<rparr>"

subsection \<open>The fields each stage of parseUa assigns\<close>

definition os_field_names :: "string list" where
  "os_field_names =
     [''os'', ''os_code'', ''os_homepage'', ''os_icon'', ''os_icon_big'', ''os_info_url'',
      ''os_family'', ''os_family_code'', ''os_family_vendor'', ''os_family_vendor_code'',
      ''os_family_vendor_homepage'']"

definition deviceclass_field_names :: "string list" where
  "deviceclass_field_names =
     [''device_class'', ''device_class_code'', ''device_class_icon'', ''device_class_icon_big'',
      ''device_class_info_url'']"

definition devicename_field_names :: "string list" where
  "devicename_field_names =
     [''device_marketname'', ''device_brand'', ''device_brand_code'', ''device_brand_homepage'',
      ''device_brand_icon'', ''device_brand_icon_big'', ''device_brand_info_url'']"

subsection \<open>Reading a result\<close>

text \<open>The field \<open>k\<close> of the flat result (\<^verbatim>\<open>.udger\<close>) of \<^verbatim>\<open>parseUa\<close> or \<^verbatim>\<open>parseIp\<close>.\<close>

definition udger_field :: "error + (obj \<times> obj) \<Rightarrow> string \<Rightarrow> error + jsval" where
  "udger_field res k = (case res of Inl e \<Rightarrow> Inl e | Inr p \<Rightarrow> Inr (oget (fst p) k))"

text \<open>Two objects with the same property names in the same order, and the same values but for \<open>k0\<close>.\<close>

definition agree_except :: "string \<Rightarrow> obj \<Rightarrow> obj \<Rightarrow> bool" where
  "agree_except k0 x y = (map fst x = map fst y \<and> (\<forall>k. k \<noteq> k0 \<longrightarrow> oget x k = oget y k))"

text \<open>The same for the pair of the flat and the nested result of \<^verbatim>\<open>parseIp\<close>.\<close>

definition agree_ip :: "ip_st \<Rightarrow> ip_st \<Rightarrow> bool" where
  "agree_ip st st' = (agree_except ''ip'' (fst st) (fst st') \<and> agree_except ''ip'' (snd st) (snd st'))"

text \<open>The property names of the object a call of \<^verbatim>\<open>parse\<close> returned.\<close>

definition result_keys :: "(ref option \<times> parser) outcome \<Rightarrow> string list option" where
  "result_keys out = (case out of Return (Some a, s) \<Rightarrow> Some (map fst (store s a)) | _ \<Rightarrow> None)"

subsection \<open>Fields filled from a joined table\<close>

text \<open>
  The result fields that the parser assigns as \<^verbatim>\<open>r[column] || ''\<close> from a column of the
  table a foreign id points into, by table. \<open>all_empty\<close> says that each of the listed
  fields of a result is the empty string.
\<close>

definition all_empty :: "obj \<Rightarrow> string list \<Rightarrow> bool" where
  "all_empty res ks = list_all (\<lambda>k. oget res k = JStr []) ks"

definition crawler_class_fields :: "string list" where
  "crawler_class_fields = [''crawler_category'', ''crawler_category_code'']"

definition client_list_fields :: "string list" where
  "client_list_fields =
     [''ua_uptodate_current_version'', ''ua_family'', ''ua_family_code'', ''ua_family_homepage'',
      ''ua_family_vendor'', ''ua_family_vendor_code'', ''ua_family_vendor_homepage'',
      ''ua_family_icon'', ''ua_family_icon_big'', ''ua_engine'']"

definition os_list_fields :: "string list" where
  "os_list_fields =
     [''os'', ''os_code'', ''os_homepage'', ''os_icon'', ''os_icon_big'', ''os_family'',
      ''os_family_code'', ''os_family_vendor'', ''os_family_vendor_code'',
      ''os_family_vendor_homepage'']"

definition deviceclass_list_fields :: "string list" where
  "deviceclass_list_fields =
     [''device_class'', ''device_class_code'', ''device_class_icon'', ''device_class_icon_big'']"

definition brand_fields :: "string list" where
  "brand_fields =
     [''device_brand'', ''device_brand_code'', ''device_brand_homepage'', ''device_brand_icon'',
      ''device_brand_icon_big'']"

definition ip_class_fields :: "string list" where
  "ip_class_fields = [''ip_classification'', ''ip_classification_code'']"

definition ip_crawler_fields :: "string list" where
  "ip_crawler_fields =
     [''crawler_name'', ''crawler_ver'', ''crawler_ver_major'', ''crawler_family'',
      ''crawler_family_code'', ''crawler_family_homepage'', ''crawler_family_vendor'',
      ''crawler_family_vendor_code'', ''crawler_family_vendor_homepage'', ''crawler_family_icon'',
      ''crawler_last_seen'', ''crawler_category'', ''crawler_category_code'',
      ''crawler_respect_robotstxt'']"

definition datacenter_fields :: "string list" where
  "datacenter_fields = [''datacenter_name'', ''datacenter_name_code'', ''datacenter_homepage'']"

text \<open>
  The row \<^verbatim>\<open>qC\<close> of udger_devicename_list that the device name stage looks up, for the
  state \<open>st\<close> the stage starts in.
\<close>

definition devicename_row :: "env \<Rightarrow> dataset \<Rightarrow> string \<Rightarrow> ua_st \<Rightarrow> jsval" where
  "devicename_row E D u st =
     (let t = udger_devicename_regex D;
          q = filterBy t (\<lambda>row.
                cell t row ''os_family_code'' = oget (rua st) ''os_family_code'' \<and>
                (cell t row ''os_code'' = JStr ''-all-'' \<or> cell t row ''os_code'' = oget (rua st) ''os_code''));
          mr = devicename_loop E t u q
      in findBy (udger_devicename_list D) (\<lambda>row.
           cell (udger_devicename_list D) row ''regex_id'' = snd mr \<and>
           cell (udger_devicename_list D) row ''code'' = fst mr))"

section \<open>A small dataset and fixed collaborators\<close>

text \<open>
  A dataset in the layout of \<^verbatim>\<open>convert.js\<close> (foreign ids already replaced by row
  positions), used to run the parser on concrete requests. The user agents are those of
  the repository's test and benchmark scripts, and two more.
\<close>

definition ua_firefox :: string where
  "ua_firefox = ''Mozilla/5.0 (Windows NT 10.0; WOW64; rv:40.0) Gecko/20100101 Firefox/40.0''"

definition ua_googlebot :: string where
  "ua_googlebot = ''Googlebot/2.1 (+http://www.google.com/bot.html)''"

definition ua_googlebot_android :: string where
  "ua_googlebot_android =
     ''Mozilla/5.0 (Linux; Android 6.0.1) (compatible; Googlebot/2.1; +http://www.google.com/bot.html)''"

definition ua_msie :: string where
  "ua_msie = ''Mozilla/4.0 (compatible; MSIE 6.0)''"

definition ua_beos :: string where
  "ua_beos = ''Mozilla/5.0 (BeOS; U; BeOS BePC)''"

definition ua_wget :: string where
  "ua_wget = ''Wget/1.12 (linux-gnu)''"

text \<open>\<^verbatim>\<open>prepareColumns\<close> of \<^verbatim>\<open>convert.js\<close>: each column name with its position.\<close>

fun number_from :: "nat \<Rightarrow> string list \<Rightarrow> (string \<times> nat) list" where
  "number_from n [] = []"
| "number_from n (c # cs) = (c, n) # number_from (Suc n) cs"

definition tbl :: "string list \<Rightarrow> jsval list list \<Rightarrow> table" where
  "tbl cols rows = \<lparr>columns = number_from 0 cols, data = rows\<rparr>"

definition demo_crawler_list :: table where
  "demo_crawler_list =
     tbl [''id'', ''ua_string'', ''name'', ''ver'', ''ver_major'', ''class_id'', ''last_seen'',
          ''respect_robotstxt'', ''family'', ''family_code'', ''family_homepage'', ''family_icon'',
          ''vendor'', ''vendor_code'', ''vendor_homepage'']
       [[JNum 2, JStr ua_googlebot, JStr ''Googlebot/2.1'', JStr ''2.1'', JStr ''2'', JNum 0,
         JStr ''2017-01-06 08:57:43'', JStr ''yes'', JStr ''Googlebot'', JStr ''googlebot'',
         JStr ''http://www.google.com/bot.html'', JStr ''bot_googlebot.png'', JStr ''Google Inc.'',
         JStr ''google_inc'', JStr ''https://www.google.com/about/company/''],
        [JNum 3, JStr ua_googlebot_android, JStr ''Googlebot/2.1 (Smartphone)'', JStr ''2.1'', JStr ''2'',
         JNum 0, JStr ''2017-01-06 09:00:00'', JStr ''yes'', JStr ''Googlebot'', JStr ''googlebot'',
         JStr ''http://www.google.com/bot.html'', JStr ''bot_googlebot.png'', JStr ''Google Inc.'',
         JStr ''google_inc'', JStr ''https://www.google.com/about/company/'']]"

definition demo_crawler_class :: table where
  "demo_crawler_class =
     tbl [''id'', ''crawler_classification'', ''crawler_classification_code'']
       [[JNum 1, JStr ''Search engine bot'', JStr ''search_engine_bot'']]"

definition re_firefox :: string where "re_firefox = ''/firefox[/]([0-9.]+)/si''"
definition re_msie :: string where "re_msie = ''/MSIE ([0-9.]+)/si''"
definition re_windows10 :: string where "re_windows10 = ''/Windows NT 10[.]0/si''"
definition re_android :: string where "re_android = ''/Android/si''"
definition re_beos :: string where "re_beos = ''/BeOS/si''"
definition re_wget :: string where "re_wget = ''/^wget/si''"

definition demo_client_regex :: table where
  "demo_client_regex =
     tbl [''client_id'', ''word_id'', ''word2_id'', ''regstring'', ''sequence'']
       [[JNum 0, JNum 10, JNum 0, JStr re_firefox, JNum 1],
        [JNum 1, JNum 11, JNum 0, JStr re_msie, JNum 2],
        [JNum 2, JNum 12, JNum 0, JStr re_wget, JNum 3]]"

definition demo_client_list :: table where
  "demo_client_list =
     tbl [''id'', ''class_id'', ''name'', ''name_code'', ''homepage'', ''icon'', ''icon_big'',
          ''engine'', ''vendor'', ''vendor_code'', ''vendor_homepage'', ''uptodate_current_version'']
       [[JNum 3, JNum 0, JStr ''Firefox'', JStr ''firefox'', JStr ''http://www.firefox.com/'',
         JStr ''firefox.png'', JStr ''firefox_big.png'', JStr ''Gecko'', JStr ''Mozilla Foundation'',
         JStr ''mozilla_foundation'', JStr ''http://www.mozilla.org/'', JStr ''50''],
        [JNum 5, JNum 0, JStr ''IE'', JStr ''ie'', JStr ''http://en.wikipedia.org/wiki/Internet_Explorer'',
         JStr ''msie.png'', JStr ''msie_big.png'', JStr ''Trident'', JStr ''Microsoft Corporation.'',
         JStr ''microsoft_corporation'', JStr ''https://www.microsoft.com/about/'', JStr ''11''],
        [JNum 9, JNum 1, JStr ''Wget'', JStr ''wget'', JStr ''http://www.gnu.org/software/wget/'',
         JStr ''wget.png'', JStr ''wget_big.png'', JStr [], JStr ''Free Software Foundation, Inc.'',
         JStr ''free_software_foundation'', JStr ''http://www.fsf.org/'', JStr []]]"

definition demo_client_class :: table where
  "demo_client_class =
     tbl [''id'', ''client_classification'', ''client_classification_code'', ''deviceclass_id'']
       [[JNum 1, JStr ''Browser'', JStr ''browser'', JNum 0],
        [JNum 4, JStr ''Library'', JStr ''library'', JNull]]"

definition demo_os_regex :: table where
  "demo_os_regex =
     tbl [''os_id'', ''word_id'', ''word2_id'', ''regstring'', ''sequence'']
       [[JNum 0, JNum 20, JNum 0, JStr re_windows10, JNum 1],
        [JNull, JNum 21, JNum 0, JStr re_beos, JNum 2],
        [JNum 1, JNum 1, JNum 0, JStr re_android, JNum 3]]"

definition demo_os_list :: table where
  "demo_os_list =
     tbl [''id'', ''family'', ''family_code'', ''name'', ''name_code'', ''homepage'', ''icon'',
          ''icon_big'', ''vendor'', ''vendor_code'', ''vendor_homepage'']
       [[JNum 4, JStr ''Windows'', JStr ''windows'', JStr ''Windows 10'', JStr ''windows_10'',
         JStr ''https://en.wikipedia.org/wiki/Windows_10'', JStr ''windows10.png'',
         JStr ''windows10_big.png'', JStr ''Microsoft Corporation.'', JStr ''microsoft_corporation'',
         JStr ''https://www.microsoft.com/about/''],
        [JNum 6, JStr ''Android'', JStr ''android'', JStr ''Android'', JStr ''android'',
         JStr ''https://en.wikipedia.org/wiki/Android_(operating_system)'', JStr ''android.png'',
         JStr ''android_big.png'', JStr ''Google, Inc.'', JStr ''google_inc'',
         JStr ''https://www.google.com/about/company/''],
        [JNum 8, JStr ''Windows'', JStr ''windows'', JStr ''Windows'', JStr ''windows'',
         JStr ''https://en.wikipedia.org/wiki/Windows'', JStr ''windows.png'',
         JStr ''windows_big.png'', JStr ''Microsoft Corporation.'', JStr ''microsoft_corporation'',
         JStr ''https://www.microsoft.com/about/'']]"

text \<open>Internet Explorer (client id 5) runs on Windows (row 2 of udger_os_list).\<close>

definition demo_client_os_relation :: table where
  "demo_client_os_relation = tbl [''client_id'', ''os_id''] [[JNum 5, JNum 2]]"

definition demo_deviceclass_regex :: table where
  "demo_deviceclass_regex =
     tbl [''deviceclass_id'', ''regstring'', ''sequence''] []"

definition demo_deviceclass_list :: table where
  "demo_deviceclass_list =
     tbl [''id'', ''name'', ''name_code'', ''icon'', ''icon_big'']
       [[JNum 2, JStr ''Desktop'', JStr ''desktop'', JStr ''desktop.png'', JStr ''desktop_big.png'']]"

definition demo_ip_list :: table where
  "demo_ip_list =
     tbl [''ip'', ''class_id'', ''crawler_id'', ''ip_last_seen'', ''ip_hostname'', ''ip_country'',
          ''ip_city'', ''ip_country_code'']
       [[JStr ''66.249.64.73'', JNum 0, JNum 0, JStr ''2016-10-02 09:16:57'',
         JStr ''crawl-66-249-64-73.googlebot.com'', JStr ''United States'', JStr ''Mountain View'',
         JStr ''US''],
        [JStr ''::1'', JNum 1, JNull, JStr ''2016-10-02 10:00:00'', JStr ''localhost'', JStr [],
         JStr [], JStr []]]"

definition demo_ip_class :: table where
  "demo_ip_class =
     tbl [''id'', ''ip_classification'', ''ip_classification_code'', ''sequence'']
       [[JNum 99, JStr ''Crawler'', JStr ''crawler'', JNum 1],
        [JNum 4, JStr ''Web scraper'', JStr ''web_scraper'', JNum 2]]"

definition demo_datacenter_range :: table where
  "demo_datacenter_range =
     tbl [''datacenter_id'', ''ip_from'', ''ip_to'', ''iplong_from'', ''iplong_to'']
       [[JNum 0, JStr ''66.249.64.0'', JStr ''66.249.95.255'', JNum 1123631104, JNum 1123639295]]"

definition demo_datacenter_list :: table where
  "demo_datacenter_list =
     tbl [''id'', ''name'', ''name_code'', ''homepage'']
       [[JNum 7, JStr ''Google sites'', JStr ''googgle_sites'', JStr ''http://sites.google.com/'']]"

definition demo_data :: dataset where
  "demo_data =
     \<lparr>udger_crawler_list = demo_crawler_list,
      udger_crawler_class = demo_crawler_class,
      udger_client_regex = demo_client_regex,
      udger_client_list = demo_client_list,
      udger_client_class = demo_client_class,
      udger_os_regex = demo_os_regex,
      udger_os_list = demo_os_list,
      udger_client_os_relation = demo_client_os_relation,
      udger_deviceclass_regex = demo_deviceclass_regex,
      udger_deviceclass_list = demo_deviceclass_list,
      udger_devicename_regex = tbl [''id'', ''os_family_code'', ''os_code'', ''regstring'', ''sequence''] [],
      udger_devicename_list = tbl [''regex_id'', ''brand_id'', ''code'', ''marketname''] [],
      udger_devicename_brand = tbl [''id'', ''brand'', ''brand_code'', ''brand_url'', ''icon'', ''icon_big''] [],
      udger_ip_list = demo_ip_list,
      udger_ip_class = demo_ip_class,
      udger_datacenter_range = demo_datacenter_range,
      udger_datacenter_range6 =
        tbl [''datacenter_id'', ''ip_from'', ''ip_to'',
             ''iplong_from0'', ''iplong_from1'', ''iplong_from2'', ''iplong_from3'',
             ''iplong_from4'', ''iplong_from5'', ''iplong_from6'', ''iplong_from7'',
             ''iplong_to0'', ''iplong_to1'', ''iplong_to2'', ''iplong_to3'',
             ''iplong_to4'', ''iplong_to5'', ''iplong_to6'', ''iplong_to7''] [],
      udger_datacenter_list = demo_datacenter_list\<rparr>"

text \<open>The same dataset with a relation row for client 0 in place of the one for client 5.\<close>

definition demo_data_relation0 :: dataset where
  "demo_data_relation0 =
     demo_data\<lparr>udger_client_os_relation := tbl [''client_id'', ''os_id''] [[JNum 0, JNum 2]]\<rparr>"

text \<open>
  The same dataset after the rows of its lookup tables are gone, so that every foreign id
  names no row; with a relation row for client 0, a device class regex that is the one of
  Firefox, and an IPv6 datacenter range around \<open>::1\<close>, both with a dangling id.
\<close>

definition demo_dangling :: dataset where
  "demo_dangling =
     demo_data
       \<lparr>udger_crawler_class := (udger_crawler_class demo_data)\<lparr>data := []\<rparr>,
        udger_client_list := (udger_client_list demo_data)\<lparr>data := []\<rparr>,
        udger_os_list := (udger_os_list demo_data)\<lparr>data := []\<rparr>,
        udger_client_os_relation := tbl [''client_id'', ''os_id''] [[JNum 0, JNum 2]],
        udger_deviceclass_regex :=
          tbl [''deviceclass_id'', ''regstring'', ''sequence''] [[JNull, JStr re_firefox, JNum 1]],
        udger_deviceclass_list := (udger_deviceclass_list demo_data)\<lparr>data := []\<rparr>,
        udger_ip_class := (udger_ip_class demo_data)\<lparr>data := []\<rparr>,
        udger_datacenter_range6 :=
          (udger_datacenter_range6 demo_data)
            \<lparr>data := [[JNull, JStr ''::'', JStr ''::ffff'',
                       JNum 0, JNum 0, JNum 0, JNum 0, JNum 0, JNum 0, JNum 0, JNum 0,
                       JNum 0, JNum 0, JNum 0, JNum 0, JNum 0, JNum 0, JNum 0, JNum 65535]]\<rparr>,
        udger_datacenter_list := (udger_datacenter_list demo_data)\<lparr>data := []\<rparr>\<rparr>"

text \<open>
  The small dataset with a device name: a regex for the Windows family that is the one of
  Firefox, and a device whose brand id names no row.
\<close>

definition demo_devicename :: dataset where
  "demo_devicename =
     demo_data
       \<lparr>udger_devicename_regex :=
          tbl [''id'', ''os_family_code'', ''os_code'', ''regstring'', ''sequence'']
            [[JNum 0, JStr ''windows'', JStr ''-all-'', JStr re_firefox, JNum 1]],
        udger_devicename_list :=
          tbl [''regex_id'', ''brand_id'', ''code'', ''marketname'']
            [[JNum 0, JNull, JStr ''40.0'', JStr ''Forty'']]\<rparr>"

text \<open>
  The answers of the collaborators on the requests used below, and \<open>None\<close> (no match),
  the identity or "not an address" everywhere else:
  \<^item> which of the patterns above match which of the user agents above, with their groups;
  \<^item> \<open>::1\<close> and \<open>0:0:0:0:0:0:0:1\<close> are IPv6 addresses with the same packed form, whose
    compressed text is \<open>::1\<close>; \<open>66.249.64.73\<close> and \<open>192.168.0.1\<close> are IPv4;
  \<^item> the value \<open>getIpVersion\<close> gives for a string that is no address is not known from
    the sources; it is taken to be 0 here.
\<close>

definition demo_matches :: "((string \<times> string) \<times> string option list) list" where
  "demo_matches =
     [((re_firefox, ua_firefox), [Some ''Firefox/40.0'', Some ''40.0'']),
      ((re_windows10, ua_firefox), [Some ''Windows NT 10.0'']),
      ((re_msie, ua_msie), [Some ''MSIE 6.0'', Some ''6.0'']),
      ((re_android, ua_googlebot_android), [Some ''Android'']),
      ((re_beos, ua_beos), [Some ''BeOS'']),
      ((re_wget, ua_wget), [Some ''Wget''])]"

definition demo_re_match :: "jsval \<Rightarrow> string \<Rightarrow> string option list option" where
  "demo_re_match c u = (case c of JStr p \<Rightarrow> map_of demo_matches (p, u) | _ \<Rightarrow> None)"

definition packed_loopback6 :: string where
  "packed_loopback6 = replicate 15 (CHR 0x00) @ [CHR 0x01]"

definition demo_env :: env where
  "demo_env =
     \<lparr>re_match = demo_re_match,
      getIpVersion = (\<lambda>a. if a \<in> set [''::1'', ''0:0:0:0:0:0:0:1''] then JNum 6
                           else if a \<in> set [''66.249.64.73'', ''192.168.0.1''] then JNum 4
                           else JNum 0),
      inetPton = (\<lambda>a. if a \<in> set [''::1'', ''0:0:0:0:0:0:0:1''] then packed_loopback6 else a),
      inetNtop = (\<lambda>p. if p = packed_loopback6 then ''::1'' else p),
      ip2long = (\<lambda>a. if a = ''66.249.64.73'' then JNum 1123631177
                      else if a = ''192.168.0.1'' then JNum 3232235521 else JBool False),
      ipInts = (\<lambda>a. if a = ''::1'' then [JNum 0, JNum 0, JNum 0, JNum 0, JNum 0, JNum 0, JNum 0, JNum 1]
                     else [])\<rparr>"

text \<open>Default results with the fields the parser fills, all empty.\<close>

definition demo_default_ua :: obj where
  "demo_default_ua =
     map (\<lambda>k. (k, JStr []))
       [''ua_string'', ''ua_class'', ''ua_class_code'', ''ua'', ''ua_version'', ''ua_version_major'',
        ''ua_uptodate_current_version'', ''ua_family'', ''ua_family_code'', ''ua_family_homepage'',
        ''ua_family_vendor'', ''ua_family_vendor_code'', ''ua_family_vendor_homepage'',
        ''ua_family_icon'', ''ua_family_icon_big'', ''ua_family_info_url'', ''ua_engine'',
        ''os'', ''os_code'', ''os_homepage'', ''os_icon'', ''os_icon_big'', ''os_info_url'',
        ''os_family'', ''os_family_code'', ''os_family_vendor'', ''os_family_vendor_code'',
        ''os_family_vendor_homepage'', ''device_class'', ''device_class_code'', ''device_class_icon'',
        ''device_class_icon_big'', ''device_class_info_url'', ''device_marketname'', ''device_brand'',
        ''device_brand_code'', ''device_brand_homepage'', ''device_brand_icon'',
        ''device_brand_icon_big'', ''device_brand_info_url'', ''crawler_last_seen'',
        ''crawler_category'', ''crawler_category_code'', ''crawler_respect_robotstxt'']"

definition demo_default_ip :: obj where
  "demo_default_ip =
     map (\<lambda>k. (k, JStr []))
       [''ip'', ''ip_ver'', ''ip_classification'', ''ip_classification_code'', ''ip_hostname'',
        ''ip_last_seen'', ''ip_country'', ''ip_country_code'', ''ip_city'', ''crawler_name'',
        ''crawler_ver'', ''crawler_ver_major'', ''crawler_family'', ''crawler_family_code'',
        ''crawler_family_homepage'', ''crawler_family_vendor'', ''crawler_family_vendor_code'',
        ''crawler_family_vendor_homepage'', ''crawler_family_icon'', ''crawler_family_info_url'',
        ''crawler_last_seen'', ''crawler_category'', ''crawler_category_code'',
        ''crawler_respect_robotstxt'', ''datacenter_name'', ''datacenter_name_code'',
        ''datacenter_homepage'']"

definition opts_classic :: popts where
  "opts_classic = \<lparr>json = False, full = False\<rparr>"

text \<open>The rows of udger_client_regex for Firefox and Wget.\<close>

definition row_firefox :: "jsval list" where
  "row_firefox = [JNum 0, JNum 10, JNum 0, JStr re_firefox, JNum 1]"

definition row_wget :: "jsval list" where
  "row_wget = [JNum 2, JNum 12, JNum 0, JStr re_wget, JNum 3]"

text \<open>Rows of udger_crawler_list, udger_client_regex and udger_os_regex used below.\<close>

definition row_googlebot_android :: "jsval list" where
  "row_googlebot_android =
     [JNum 3, JStr ua_googlebot_android, JStr ''Googlebot/2.1 (Smartphone)'', JStr ''2.1'', JStr ''2'',
      JNum 0, JStr ''2017-01-06 09:00:00'', JStr ''yes'', JStr ''Googlebot'', JStr ''googlebot'',
      JStr ''http://www.google.com/bot.html'', JStr ''bot_googlebot.png'', JStr ''Google Inc.'',
      JStr ''google_inc'', JStr ''https://www.google.com/about/company/'']"

definition row_msie :: "jsval list" where
  "row_msie = [JNum 1, JNum 11, JNum 0, JStr re_msie, JNum 2]"

definition row_os_beos :: "jsval list" where
  "row_os_beos = [JNull, JNum 21, JNum 0, JStr re_beos, JNum 2]"

definition row_os_android :: "jsval list" where
  "row_os_android = [JNum 1, JNum 1, JNum 0, JStr re_android, JNum 3]"

text \<open>
  The request of the repository's test for an unknown user agent: a new parser,
  \<^verbatim>\<open>set({ ua: 'myUnknowUA' })\<close>, with the cache off and with the cache on.
\<close>

definition unknown_ua_set :: parser where
  "unknown_ua_set =
     (constructor demo_default_ua demo_default_ip)
       \<lparr>ua := Some ''myUnknowUA'', retUa := demo_default_ua, retIp := demo_default_ip\<rparr>"

definition unknown_ua_cached :: parser where
  "unknown_ua_cached = unknown_ua_set\<lparr>cacheEnable := True, keyCache := ''myUnknowUA''\<rparr>"

text \<open>
  The results of that request in the nested shape, compact and full, and the parser after
  \<^verbatim>\<open>parse\<close> has built and cached each.
\<close>

definition unknown_ua_compact :: obj where
  "unknown_ua_compact =
     [(''userAgent'', JObj [(''ua'', JObj [(''string'', JStr ''myUnknowUA''),
                                            (''class'', JStr ''unrecognized'')])])]"

definition unknown_ua_full :: obj where
  "unknown_ua_full =
     [(''userAgent'',
         JObj [(''ua'', JObj [(''string'', JStr ''myUnknowUA''),
                              (''class'', JObj [(''name'', JStr ''Unrecognized''),
                                                (''code'', JStr ''unrecognized'')])])]),
      (''fromCache'', JBool False)]"

definition compact_cached :: parser where
  "compact_cached =
     unknown_ua_cached\<lparr>cache := [(''myUnknowUA'', Addr 0)],
                        store := (\<lambda>a. [])(Addr 0 := unknown_ua_compact), fresh := 1\<rparr>"

definition full_cached :: parser where
  "full_cached =
     unknown_ua_cached\<lparr>cache := [(''myUnknowUA'', Addr 0)],
                        store := (\<lambda>a. [])(Addr 0 := unknown_ua_full), fresh := 1\<rparr>"

section \<open>Properties\<close>

subsection \<open>The cache\<close>

lemma length_object_keys: "length (object_keys c) = length c"
  using sum_length_filter_compl[of "\<lambda>k. array_index k \<noteq> None" "map fst c"]
  by (simp add: object_keys_def Let_def comp_def)

lemma set_object_keys: "set (object_keys c) = fst ` set c"
  by (auto simp: object_keys_def Let_def)

lemma length_odelete_less: "k \<in> fst ` set c \<Longrightarrow> length (odelete c k) < length c"
  unfolding odelete_def
  by (metis (mono_tags, lifting) image_iff length_filter_less)

text \<open>With a capacity that is not negative the eviction loop ends, at or below the capacity.\<close>

lemma evict_bounded:
  "0 \<le> maxr \<Longrightarrow> \<exists>c'. evict maxr c = Some c' \<and> int (length c') \<le> maxr \<and> set c' \<subseteq> set c"
proof (induction "length c" arbitrary: c rule: less_induct)
  case less
  show ?case
  proof (cases "int (length (object_keys c)) > maxr")
    case False
    then show ?thesis by (subst evict.simps) (simp add: length_object_keys)
  next
    case True
    then have ne: "object_keys c \<noteq> []" using less.prems by auto
    then obtain k ks where ks: "object_keys c = k # ks" by (cases "object_keys c") auto
    then have "k \<in> fst ` set c" using set_object_keys[of c] by auto
    then have "length (odelete c k) < length c" by (rule length_odelete_less)
    from less.hyps[OF this less.prems]
    obtain c' where "evict maxr (odelete c k) = Some c'" "int (length c') \<le> maxr" "set c' \<subseteq> set (odelete c k)"
      by blast
    moreover have "set (odelete c k) \<subseteq> set c" by (auto simp: odelete_def)
    ultimately show ?thesis using True ks by (subst evict.simps) auto
  qed
qed

lemma evict_noop: "int (length c) \<le> maxr \<Longrightarrow> evict maxr c = Some c"
  by (subst evict.simps) (simp add: length_object_keys)

lemma map_of_oset: "map_of (oset c k d) k' = (if k' = k then Some d else map_of c k')"
  by (induction c) auto

lemma length_oset: "length (oset c k d) \<le> Suc (length c)"
  by (induction c) auto

lemma cache_get_oset:
  "cache_get (oset c k d) k' = (if k' = k then Some d else cache_get c k')"
  by (simp add: cache_get_def map_of_oset)

lemma cacheWrite_present: "cacheKeyExist s key \<Longrightarrow> cacheWrite s key d = Some s"
  by (simp add: cacheWrite_def)

lemma cacheWrite_room:
  assumes "\<not> cacheKeyExist s key" "int (length (cache s)) + 1 \<le> cacheMaxRecords s"
  shows "cacheWrite s key d = Some (s\<lparr>cache := oset (cache s) key d\<rparr>)"
proof -
  have "int (length (oset (cache s) key d)) \<le> cacheMaxRecords s"
    using length_oset[of "cache s" key d] assms(2) by linarith
  then show ?thesis using assms(1) by (simp add: cacheWrite_def evict_noop)
qed

lemma cacheWrites_no_eviction:
  "int (length (cache s)) + int (length ws) \<le> cacheMaxRecords s \<Longrightarrow>
   \<exists>s'. cacheWrites s ws = Some s' \<and>
     (\<forall>k. cache_get (cache s') k = (case cache_get (cache s) k of Some a \<Rightarrow> Some a | None \<Rightarrow> map_of ws k))"
proof (induction ws arbitrary: s)
  case Nil
  then show ?case by (auto split: option.splits)
next
  case (Cons w ws)
  obtain key d where w: "w = (key, d)" by (cases w)
  show ?case
  proof (cases "cacheKeyExist s key")
    case True
    then have step: "cacheWrite s key d = Some s" by (rule cacheWrite_present)
    have "int (length (cache s)) + int (length ws) \<le> cacheMaxRecords s" using Cons.prems by simp
    from Cons.IH[OF this] obtain s' where s': "cacheWrites s ws = Some s'"
      "\<forall>k. cache_get (cache s') k = (case cache_get (cache s) k of Some a \<Rightarrow> Some a | None \<Rightarrow> map_of ws k)"
      by blast
    show ?thesis using s' step True w by (auto simp: cacheKeyExist_def split: option.splits)
  next
    case False
    have room: "int (length (cache s)) + 1 \<le> cacheMaxRecords s" using Cons.prems by simp
    let ?s1 = "s\<lparr>cache := oset (cache s) key d\<rparr>"
    have step: "cacheWrite s key d = Some ?s1" using False room by (rule cacheWrite_room)
    have "int (length (cache ?s1)) + int (length ws) \<le> cacheMaxRecords ?s1"
      using Cons.prems length_oset[of "cache s" key d] by simp
    from Cons.IH[OF this] obtain s' where s': "cacheWrites ?s1 ws = Some s'"
      "\<forall>k. cache_get (cache s') k = (case cache_get (cache ?s1) k of Some a \<Rightarrow> Some a | None \<Rightarrow> map_of ws k)"
      by blast
    show ?thesis using s' step False w
      by (auto simp: cacheKeyExist_def cache_get_oset split: option.splits)
  qed
qed

lemma two_entries_reached:
  "cacheWrites (constructor [] []) [(''a'', Addr 0), (''b'', Addr 1)] = Some two_entries"
  by (simp add: two_entries_def cacheWrite_def cacheKeyExist_def cache_get_def constructor_def
      object_prototype_names_def evict_noop)

lemma object_keys_names: "\<forall>k \<in> fst ` set c. array_index k = None \<Longrightarrow> object_keys c = map fst c"
  by (induction c) (auto simp: object_keys_def Let_def)

text \<open>
  Claim C6. As stated (after every \<^verbatim>\<open>cacheWrite\<close> call the number of entries is at most
  \<^verbatim>\<open>cacheMaxRecords\<close>) it fails: a write of a key that is already present returns
  before the eviction loop, so a cache that holds more entries than a capacity lowered by
  \<^verbatim>\<open>setCacheSize\<close> stays above it. What holds: with a capacity that is not negative
  the call returns; a write that stores a new key leaves at most \<^verbatim>\<open>cacheMaxRecords\<close>
  entries, and a write of a present key leaves the parser as it was.
\<close>

theorem cacheWrite_capacity:
  assumes "0 \<le> cacheMaxRecords s"
  shows "\<exists>s'. cacheWrite s key d = Some s' \<and> cacheMaxRecords s' = cacheMaxRecords s \<and>
           (if cacheKeyExist s key then s' = s
            else int (length (object_keys (cache s'))) \<le> cacheMaxRecords s)"
proof (cases "cacheKeyExist s key")
  case True
  then show ?thesis by (simp add: cacheWrite_def)
next
  case False
  obtain c' where "evict (cacheMaxRecords s) (oset (cache s) key d) = Some c'" "int (length c') \<le> cacheMaxRecords s"
    using evict_bounded[OF assms] by blast
  then show ?thesis using False by (simp add: cacheWrite_def length_object_keys)
qed

theorem cacheWrite_capacity_witness:
  "0 \<le> cacheMaxRecords (setCacheSize two_entries 1) \<and>
   (\<exists>s'. cacheWrite (setCacheSize two_entries 1) ''c'' (Addr 2) = Some s' \<and>
      cacheMaxRecords s' = cacheMaxRecords (setCacheSize two_entries 1) \<and>
      int (length (object_keys (cache s'))) \<le> 1)"
  using cacheWrite_capacity [of "setCacheSize two_entries 1" "''c''" "Addr 2"]
  by (simp add: setCacheSize_def two_entries_def constructor_def cacheKeyExist_def cache_get_def
      object_prototype_names_def)

text \<open>
  The claim as stated fails: two entries, the capacity lowered to 1, and a write of the
  present key \<open>a\<close> returns with two entries still stored.
\<close>

theorem cacheWrite_capacity_counterexample:
  "cacheWrite (setCacheSize two_entries 1) ''a'' (Addr 2) = Some (setCacheSize two_entries 1) \<and>
   \<not> int (length (object_keys (cache (setCacheSize two_entries 1)))) \<le> cacheMaxRecords (setCacheSize two_entries 1)"
  by (simp add: two_entries_def setCacheSize_def cacheWrite_def cacheKeyExist_def cache_get_def
      constructor_def length_object_keys)

text \<open>
  Claim C7. \<^verbatim>\<open>cacheWrite(key, value)\<close> changes nothing when the key is already present.
  That the stored value after any sequence of writes is the one of the first write of the
  key fails once an entry has been evicted and the key is written again. What holds: a
  write of a present key is a no-op, and when the capacity leaves room for every write of
  a sequence (nothing is evicted), a key that was absent before holds the value of its
  first write afterwards.
\<close>

theorem cacheWrite_first_write_wins:
  "(cacheKeyExist s key \<longrightarrow> cacheWrite s key d = Some s) \<and>
   (int (length (cache s)) + int (length ws) \<le> cacheMaxRecords s \<and>
    cache_get (cache s) k = None \<and> map_of ws k = Some v \<longrightarrow>
      (\<exists>s'. cacheWrites s ws = Some s' \<and> cache_get (cache s') k = Some v))"
proof (intro conjI impI)
  assume "cacheKeyExist s key"
  then show "cacheWrite s key d = Some s" by (rule cacheWrite_present)
next
  assume a: "int (length (cache s)) + int (length ws) \<le> cacheMaxRecords s \<and>
    cache_get (cache s) k = None \<and> map_of ws k = Some v"
  then obtain s' where "cacheWrites s ws = Some s'"
    "\<forall>k. cache_get (cache s') k = (case cache_get (cache s) k of Some a \<Rightarrow> Some a | None \<Rightarrow> map_of ws k)"
    using cacheWrites_no_eviction[of s ws] by blast
  then show "\<exists>s'. cacheWrites s ws = Some s' \<and> cache_get (cache s') k = Some v"
    using a by auto
qed

theorem cacheWrite_first_write_wins_witness:
  "cacheKeyExist two_entries ''a'' \<and> cacheWrite two_entries ''a'' (Addr 9) = Some two_entries \<and>
   int (length (cache two_entries)) + int (length [(''c'', Addr 5), (''c'', Addr 6)]) \<le> cacheMaxRecords two_entries \<and>
   cache_get (cache two_entries) ''c'' = None \<and>
   map_of [(''c'', Addr 5), (''c'', Addr 6)] ''c'' = Some (Addr 5) \<and>
   (\<exists>s'. cacheWrites two_entries [(''c'', Addr 5), (''c'', Addr 6)] = Some s' \<and>
      cache_get (cache s') ''c'' = Some (Addr 5))"
  using cacheWrite_first_write_wins [of two_entries "''a''" "Addr 9" "[(''c'', Addr 5), (''c'', Addr 6)]" "''c''" "Addr 5"]
  by (simp add: two_entries_def constructor_def cacheKeyExist_def cache_get_def
      object_prototype_names_def)

text \<open>
  The claim as stated fails: with capacity 1 the write of \<open>b\<close> evicts \<open>a\<close>, and the
  second write of \<open>a\<close> stores its own value, not the one of the first write.
\<close>

theorem cacheWrite_first_write_wins_counterexample:
  "cacheWrites (setCacheSize (constructor [] []) 1) [(''a'', Addr 0), (''b'', Addr 1), (''a'', Addr 2)]
     = Some ((setCacheSize (constructor [] []) 1)\<lparr>cache := [(''a'', Addr 2)]\<rparr>) \<and>
   map_of [(''a'', Addr 0), (''b'', Addr 1), (''a'', Addr 2)] ''a'' = Some (Addr 0) \<and>
   cache_get [(''a'', Addr 2)] ''a'' = Some (Addr 2)"
  by (simp add: setCacheSize_def constructor_def cacheWrite_def cacheKeyExist_def cache_get_def
      object_prototype_names_def evict.simps object_keys_def array_index_def is_digit_def odelete_def)

subsection \<open>Objects, rows and joins\<close>

lemma thenE_Inr [simp]: "thenE (Inr x) f = f x"
  by (simp add: thenE_def)

lemma thenE_Inl [simp]: "thenE (Inl e) f = Inl e"
  by (simp add: thenE_def)

lemma oget_oset: "oget (oset ob k v) k' = (if k' = k then v else oget ob k')"
  by (induction ob) auto

lemma oget_odelete: "oget (odelete ob k) k' = (if k' = k then JUndefined else oget ob k')"
  by (induction ob) (auto simp: odelete_def)

lemma oget_spread_other: "k \<notin> fst ` set b \<Longrightarrow> oget (spread a b) k = oget a k"
  unfolding spread_def by (induction b arbitrary: a) (auto simp: oget_oset)

lemma spread_Nil [simp]: "spread a [] = a"
  by (simp add: spread_def)

lemma oget_assign_other:
  "k \<notin> fst ` set lines \<Longrightarrow> oget (assign_or_empty dst r lines) k = oget dst k"
  unfolding assign_or_empty_def by (induction lines arbitrary: dst) (auto simp: oget_oset)

lemma assign_or_empty_Cons:
  "assign_or_empty dst r (l # lines) = assign_or_empty (oset dst (fst l) (js_or (oget r (snd l)) (JStr []))) r lines"
  by (simp add: assign_or_empty_def)

lemma assign_or_empty_Nil [simp]: "assign_or_empty dst r [] = dst"
  by (simp add: assign_or_empty_def)

lemma oget_assign_line:
  "(k, f) \<in> set lines \<Longrightarrow> distinct (map fst lines) \<Longrightarrow>
   oget (assign_or_empty dst r lines) k = js_or (oget r f) (JStr [])"
proof (induction lines arbitrary: dst)
  case Nil
  then show ?case by simp
next
  case (Cons l lines)
  show ?case
  proof (cases "l = (k, f)")
    case True
    then have "k \<notin> fst ` set lines" using Cons.prems(2) by auto
    then show ?thesis using True by (simp add: assign_or_empty_Cons oget_assign_other oget_oset)
  next
    case False
    then have "(k, f) \<in> set lines" "distinct (map fst lines)" using Cons.prems by auto
    then show ?thesis using Cons.IH by (simp add: assign_or_empty_Cons)
  qed
qed

text \<open>No call of \<open>map\<close> throws: the row is read only when it is not undefined or null.\<close>

lemma get_prop_truthy: "truthy row \<Longrightarrow> \<exists>v. get_prop row k = Inr v"
  by (cases row) auto

lemma read_keys_ok: "truthy row \<Longrightarrow> \<exists>m. read_keys t row keys acc = Inr m"
proof (induction keys arbitrary: acc)
  case Nil
  then show ?case by simp
next
  case (Cons key keys)
  from get_prop_truthy[OF Cons.prems] obtain v where "get_prop row (col t key) = Inr v" by blast
  then show ?case using Cons.IH[OF Cons.prems] by simp
qed

lemma map_row_ok: "\<exists>m. map_row t row keys rename = Inr m"
proof (cases "truthy row")
  case True
  from read_keys_ok[OF this] obtain m where "read_keys t row keys [] = Inr m" by blast
  then show ?thesis using True by (simp add: map_row_def)
next
  case False
  then show ?thesis by (simp add: map_row_def)
qed

lemma map_row_missing: "\<not> truthy row \<Longrightarrow> map_row t row keys rename = Inr []"
  by (simp add: map_row_def)

lemma join_ok: "\<exists>m. join r t fk keys rename = Inr m"
  using map_row_ok[of t "row_at t fk" keys rename] by (auto simp: join_def)

lemma join_dangling: "row_at t fk = JUndefined \<Longrightarrow> join r t fk keys rename = Inr r"
  by (simp add: join_def map_row_def)

lemma join2_ok:
  "\<exists>r. thenE (map_row t row keys rn) (\<lambda>r1. join r1 (t2 r1) (fk r1) (keys2 r1) (rn2 r1)) = Inr r"
proof -
  obtain r1 where "map_row t row keys rn = Inr r1" using map_row_ok by blast
  moreover obtain r where "join r1 (t2 r1) (fk r1) (keys2 r1) (rn2 r1) = Inr r" using join_ok by blast
  ultimately show ?thesis by simp
qed

lemma crawler_join_ok: "\<exists>r. crawler_join D q = Inr r"
  unfolding crawler_join_def by (rule join2_ok)

lemma os_join_ok: "\<exists>r. os_join D row = Inr r"
  unfolding os_join_def by (rule join2_ok)

lemma os_relation_join_ok: "\<exists>r. os_relation_join D row = Inr r"
  unfolding os_relation_join_def by (rule join2_ok)

lemma deviceclass_join_ok: "\<exists>r. deviceclass_join D row = Inr r"
  unfolding deviceclass_join_def by (rule join2_ok)

lemma deviceclass_fallback_join_ok: "\<exists>r. deviceclass_fallback_join D row = Inr r"
  unfolding deviceclass_fallback_join_def by (rule join2_ok)

lemma devicename_join_ok: "\<exists>r. devicename_join D row = Inr r"
  unfolding devicename_join_def by (rule join2_ok)

lemma client_join_ok: "\<exists>r. client_join D row = Inr r"
proof -
  obtain r1 where r1: "map_row (udger_client_regex D) row [''client_id'', ''regstring''] [] = Inr r1"
    using map_row_ok by blast
  obtain r2 where r2: "join r1 (udger_client_list D) (oget r1 ''client_id'')
              [''id'', ''class_id'', ''name'', ''name_code'', ''homepage'', ''icon'', ''icon_big'',
               ''engine'', ''vendor'', ''vendor_code'', ''vendor_homepage'', ''uptodate_current_version'']
              [(''id'', ''client_id'')] = Inr r2"
    using join_ok by blast
  obtain r where "join r2 (udger_client_class D) (oget r2 ''class_id'')
       [''id'', ''client_classification'', ''client_classification_code'']
       [(''id'', ''class_id'')] = Inr r"
    using join_ok by blast
  then show ?thesis by (simp add: client_join_def r1 r2)
qed

lemma ip_join_ok: "\<exists>r. ip_join D q = Inr r"
proof -
  obtain r1 where r1: "map_row (udger_ip_list D) q
              [''class_id'', ''crawler_id'', ''ip_last_seen'', ''ip_hostname'', ''ip_country'',
               ''ip_city'', ''ip_country_code''] [] = Inr r1"
    using map_row_ok by blast
  obtain r2 where r2: "join r1 (udger_ip_class D) (oget r1 ''class_id'')
              [''ip_classification'', ''ip_classification_code''] [] = Inr r2"
    using join_ok by blast
  obtain r3 where r3: "join (odelete r2 ''class_id'') (udger_crawler_list D) (oget (odelete r2 ''class_id'') ''crawler_id'')
              [''id'', ''name'', ''ver'', ''ver_major'', ''class_id'', ''last_seen'',
               ''respect_robotstxt'', ''family'', ''family_code'', ''family_homepage'',
               ''family_icon'', ''vendor'', ''vendor_code'', ''vendor_homepage'']
              [(''id'', ''botid'')] = Inr r3"
    using join_ok by blast
  obtain r4 where "join (odelete r3 ''crawler_id'') (udger_crawler_class D) (oget (odelete r3 ''crawler_id'') ''class_id'')
              [''crawler_classification'', ''crawler_classification_code''] [] = Inr r4"
    using join_ok by blast
  then show ?thesis by (simp add: ip_join_def r1 r2 r3)
qed

lemma datacenter_join_ok: "\<exists>r. datacenter_join D t q = Inr r"
proof -
  obtain r1 where r1: "map_row t q [''datacenter_id''] [] = Inr r1" using map_row_ok by blast
  obtain r2 where "join r1 (udger_datacenter_list D) (oget r1 ''datacenter_id'')
              [''name'', ''name_code'', ''homepage''] [] = Inr r2"
    using join_ok by blast
  then show ?thesis by (simp add: datacenter_join_def r1)
qed

subsection \<open>The stages of parseUa never throw\<close>

lemma crawler_found_ok: "\<exists>r. crawler_found D opts q st = Inr (crawler_fill opts st r)"
  using crawler_join_ok[of D q] by (auto simp: crawler_found_def)

lemma client_found_ok: "\<exists>r. client_found D opts row e st = Inr (client_fill opts e st r)"
  using client_join_ok[of D row] by (auto simp: client_found_def)

lemma os_found_ok: "\<exists>r. os_found D opts row st = Inr (os_fill opts st r)"
  using os_join_ok[of D row] by (auto simp: os_found_def)

lemma deviceclass_found_ok: "\<exists>r. deviceclass_found D opts row st = Inr (deviceclass_fill opts st r)"
  using deviceclass_join_ok[of D row] by (auto simp: deviceclass_found_def)

lemma client_loop_ok: "\<exists>st'. client_loop E D opts u rows st = Inr st'"
proof (induction rows arbitrary: st)
  case Nil
  then show ?case by simp
next
  case (Cons row rows)
  then show ?case using client_found_ok by (fastforce split: option.splits)
qed

lemma os_loop_ok: "\<exists>st'. os_loop E D opts u rows st = Inr st'"
proof (induction rows arbitrary: st)
  case Nil
  then show ?case by simp
next
  case (Cons row rows)
  then show ?case using os_found_ok by (fastforce split: option.splits)
qed

lemma deviceclass_loop_ok: "\<exists>st'. deviceclass_loop E D opts u rows st = Inr st'"
proof (induction rows arbitrary: st)
  case Nil
  then show ?case by simp
next
  case (Cons row rows)
  then show ?case using deviceclass_found_ok by (fastforce split: option.splits)
qed

lemma crawler_or_client_ok: "\<exists>st'. crawler_or_client E D opts u st = Inr st'"
  using crawler_found_ok client_loop_ok by (fastforce simp: crawler_or_client_def Let_def)

lemma os_relation_ok: "\<exists>st'. os_relation D st = Inr st'"
  using os_relation_join_ok[of D "r_var st"] by (auto simp: os_relation_def Let_def)

lemma deviceclass_fallback_ok: "\<exists>st'. deviceclass_fallback D opts st = Inr st'"
proof -
  obtain r where "deviceclass_fallback_join D
      (findBy (udger_client_class D) (\<lambda>row. cell (udger_client_class D) row ''id'' = client_class_id st)) = Inr r"
    using deviceclass_fallback_join_ok by blast
  then show ?thesis by (simp add: deviceclass_fallback_def Let_def)
qed

lemma devicename_ok: "\<exists>st'. devicename E D u st = Inr st'"
proof (cases "truthy (oget (rua st) ''os_family_code'')")
  case False
  then show ?thesis by (simp add: devicename_def)
next
  case True
  let ?t = "udger_devicename_regex D"
  let ?mr = "devicename_loop E ?t u (filterBy ?t (\<lambda>row.
                  cell ?t row ''os_family_code'' = oget (rua st) ''os_family_code'' \<and>
                  (cell ?t row ''os_code'' = JStr ''-all-'' \<or> cell ?t row ''os_code'' = oget (rua st) ''os_code'')))"
  obtain r where "devicename_join D (findBy (udger_devicename_list D) (\<lambda>row.
                   cell (udger_devicename_list D) row ''regex_id'' = snd ?mr \<and>
                   cell (udger_devicename_list D) row ''code'' = fst ?mr)) = Inr r"
    using devicename_join_ok by blast
  then show ?thesis using True by (simp add: devicename_def Let_def)
qed

lemma ua_stages_ok: "\<exists>st'. ua_stages E D opts u st = Inr st'"
proof -
  obtain st1 where 1: "crawler_or_client E D opts u st = Inr st1" using crawler_or_client_ok by blast
  obtain st2 where 2: "os_loop E D opts u (data (udger_os_regex D)) st1 = Inr st2" using os_loop_ok by blast
  obtain st3 where 3: "os_relation D st2 = Inr st3" using os_relation_ok by blast
  obtain st4 where 4: "deviceclass_loop E D opts u (data (udger_deviceclass_regex D)) st3 = Inr st4"
    using deviceclass_loop_ok by blast
  obtain st5 where 5: "deviceclass_fallback D opts st4 = Inr st5" using deviceclass_fallback_ok by blast
  obtain st6 where 6: "devicename E D u st5 = Inr st6" using devicename_ok by blast
  show ?thesis by (simp add: ua_stages_def 1 2 3 4 5 6)
qed

lemma parseUa_ok: "\<exists>res. parseUa E D ru u opts = Inr res"
proof (cases u)
  case None
  then show ?thesis by (simp add: parseUa_def)
next
  case (Some a)
  obtain st where "ua_stages E D opts a (ua_init (copy_obj ru) opts a) = Inr st"
    using ua_stages_ok by blast
  then show ?thesis using Some by (simp add: parseUa_def Let_def)
qed

lemma ip_found_ok: "\<exists>r. ip_found D opts q st = Inr (ip_fill opts st r)"
  using ip_join_ok[of D q] by (auto simp: ip_found_def)

lemma datacenter_found_ok: "\<exists>r. datacenter_found D opts t q st = Inr (datacenter_fill opts st r)"
  using datacenter_join_ok[of D t q] by (auto simp: datacenter_found_def)

lemma datacenter_ok: "\<exists>st'. datacenter E D opts ipver a st = Inr st'"
proof -
  have "\<exists>st'. datacenter_found D opts t q st = Inr st'" for t q
    using datacenter_found_ok[of D opts t q st] by blast
  then show ?thesis by (simp add: datacenter_def Let_def)
qed

lemma ip_lookup_ok: "\<exists>st'. ip_lookup D opts ip1 st = Inr st'"
proof -
  have "\<exists>st'. ip_found D opts q st = Inr st'" for q
    using ip_found_ok[of D opts q st] by blast
  then show ?thesis by (simp add: ip_lookup_def Let_def)
qed

lemma parseIp_ok: "\<exists>res. parseIp E D ri a opts = Inr res"
proof (cases a)
  case None
  then show ?thesis by (simp add: parseIp_def)
next
  case (Some ip0)
  obtain st1 where 1: "ip_lookup D opts (canonical E ip0) (ip_init (copy_obj ri) opts ip0 (getIpVersion E ip0)) = Inr st1"
    using ip_lookup_ok by blast
  obtain st2 where 2: "datacenter E D opts (getIpVersion E ip0) (canonical E ip0) st1 = Inr st2"
    using datacenter_ok by blast
  show ?thesis using Some 1 2 by (simp add: parseIp_def Let_def)
qed

subsection \<open>Which fields a stage leaves alone\<close>

lemma spread2: "spread a [(k1, v1), (k2, v2)] = oset (oset a k1 v1) k2 v2"
  by (simp add: spread_def)

lemma spread3: "spread a [(k1, v1), (k2, v2), (k3, v3)] = oset (oset (oset a k1 v1) k2 v2) k3 v3"
  by (simp add: spread_def)

lemma os_fields_other: "k \<notin> set os_field_names \<Longrightarrow> oget (os_fields dst r) k = oget dst k"
  by (simp add: os_fields_def Let_def os_field_names_def oget_assign_other oget_oset)

lemma os_fill_frame:
  "client_id (os_fill opts st r) = client_id st"
  "client_class_id (os_fill opts st r) = client_class_id st"
  "deviceclass_id (os_fill opts st r) = deviceclass_id st"
  "k \<notin> set os_field_names \<Longrightarrow> oget (rua (os_fill opts st r)) k = oget (rua st) k"
  by (simp_all add: os_fill_def Let_def os_fields_other)

lemma os_loop_frame:
  "os_loop E D opts u rows st = Inr st' \<Longrightarrow>
   client_id st' = client_id st \<and> client_class_id st' = client_class_id st \<and>
   deviceclass_id st' = deviceclass_id st \<and>
   (k \<notin> set os_field_names \<longrightarrow> oget (rua st') k = oget (rua st) k)"
proof (induction rows arbitrary: st)
  case Nil
  then show ?case by simp
next
  case (Cons row rows)
  show ?case
  proof (cases "re_match E (cell (udger_os_regex D) row ''regstring'') u")
    case None
    then have "os_loop E D opts u rows (st\<lparr>r_var := JArr row\<rparr>) = Inr st'" using Cons.prems by simp
    from Cons.IH[OF this] show ?thesis by simp
  next
    case (Some e)
    obtain r where "os_found D opts (JArr row) (st\<lparr>r_var := JArr row\<rparr>) = Inr (os_fill opts (st\<lparr>r_var := JArr row\<rparr>) r)"
      using os_found_ok by blast
    then have "st' = os_fill opts (st\<lparr>r_var := JArr row\<rparr>) r" using Cons.prems Some by simp
    then show ?thesis by (simp add: os_fill_frame)
  qed
qed

lemma os_relation_fill_frame:
  "client_id (os_relation_fill st r) = client_id st"
  "client_class_id (os_relation_fill st r) = client_class_id st"
  "deviceclass_id (os_relation_fill st r) = deviceclass_id st"
  "k \<notin> set os_field_names \<Longrightarrow> oget (rua (os_relation_fill st r)) k = oget (rua st) k"
  by (simp_all add: os_relation_fill_def Let_def os_fields_other)

lemma os_relation_frame:
  "os_relation D st = Inr st' \<Longrightarrow>
   client_class_id st' = client_class_id st \<and> deviceclass_id st' = deviceclass_id st \<and>
   (k \<notin> set os_field_names \<longrightarrow> oget (rua st') k = oget (rua st) k)"
  using os_relation_join_ok[of D "r_var st"]
  by (auto simp: os_relation_def Let_def os_relation_fill_frame split: if_splits)

lemma os_relation_skipped: "client_id st = JNum 0 \<Longrightarrow> os_relation D st = Inr st"
  by (simp add: os_relation_def loose_eq_num_def)

lemma deviceclass_fill_frame:
  "client_class_id (deviceclass_fill opts st r) = client_class_id st"
  "k \<notin> set deviceclass_field_names \<Longrightarrow> oget (rua (deviceclass_fill opts st r)) k = oget (rua st) k"
  by (simp_all add: deviceclass_fill_def Let_def deviceclass_field_names_def deviceclass_lines_def
      oget_assign_other oget_oset)

lemma deviceclass_loop_frame:
  "deviceclass_loop E D opts u rows st = Inr st' \<Longrightarrow>
   client_class_id st' = client_class_id st \<and>
   (k \<notin> set deviceclass_field_names \<longrightarrow> oget (rua st') k = oget (rua st) k)"
proof (induction rows arbitrary: st)
  case Nil
  then show ?case by simp
next
  case (Cons row rows)
  show ?case
  proof (cases "re_match E (cell (udger_deviceclass_regex D) row ''regstring'') u")
    case None
    then have "deviceclass_loop E D opts u rows (st\<lparr>r_var := JArr row\<rparr>) = Inr st'" using Cons.prems by simp
    from Cons.IH[OF this] show ?thesis by simp
  next
    case (Some e)
    obtain r where "deviceclass_found D opts (JArr row) (st\<lparr>r_var := JArr row\<rparr>)
        = Inr (deviceclass_fill opts (st\<lparr>r_var := JArr row\<rparr>) r)"
      using deviceclass_found_ok by blast
    then have "st' = deviceclass_fill opts (st\<lparr>r_var := JArr row\<rparr>) r" using Cons.prems Some by simp
    then show ?thesis by (simp add: deviceclass_fill_frame)
  qed
qed

lemma deviceclass_fallback_frame:
  "deviceclass_fallback D opts st = Inr st' \<Longrightarrow>
   k \<notin> set deviceclass_field_names \<Longrightarrow> oget (rua st') k = oget (rua st) k"
  by (auto simp: deviceclass_fallback_def Let_def thenE_def deviceclass_fallback_fill_def
      deviceclass_field_names_def deviceclass_lines_def oget_assign_other oget_oset
      split: if_splits sum.splits)

lemma devicename_frame:
  "devicename E D u st = Inr st' \<Longrightarrow>
   k \<notin> set devicename_field_names \<Longrightarrow> oget (rua st') k = oget (rua st) k"
  by (auto simp: devicename_def Let_def thenE_def devicename_fill_def devicename_field_names_def
      oget_assign_other oget_oset split: if_splits sum.splits)

text \<open>After the first stage, a field that is no OS or device field keeps its value.\<close>

lemma later_stages_frame:
  assumes "os_loop E D opts u (data (udger_os_regex D)) st1 = Inr st2"
      and "os_relation D st2 = Inr st3"
      and "deviceclass_loop E D opts u (data (udger_deviceclass_regex D)) st3 = Inr st4"
      and "deviceclass_fallback D opts st4 = Inr st5"
      and "devicename E D u st5 = Inr st6"
      and "k \<notin> set os_field_names" "k \<notin> set deviceclass_field_names" "k \<notin> set devicename_field_names"
  shows "oget (rua st6) k = oget (rua st1) k"
  using os_loop_frame[OF assms(1), of k] os_relation_frame[OF assms(2), of k]
    deviceclass_loop_frame[OF assms(3), of k] deviceclass_fallback_frame[OF assms(4), of k]
    devicename_frame[OF assms(5), of k] assms(6-8)
  by simp

subsection \<open>The loops stop at the first row that matches\<close>

lemma client_loop_first:
  "find (\<lambda>row. re_match E (cell (udger_client_regex D) row ''regstring'') u \<noteq> None) rows = Some row \<Longrightarrow>
   re_match E (cell (udger_client_regex D) row ''regstring'') u = Some e \<Longrightarrow>
   client_loop E D opts u rows st = client_found D opts (JArr row) e (st\<lparr>r_var := JArr row\<rparr>)"
  by (induction rows arbitrary: st) (auto split: if_splits)

lemma os_loop_first:
  "find (\<lambda>row. re_match E (cell (udger_os_regex D) row ''regstring'') u \<noteq> None) rows = Some row \<Longrightarrow>
   os_loop E D opts u rows st = os_found D opts (JArr row) (st\<lparr>r_var := JArr row\<rparr>)"
  by (induction rows arbitrary: st) (auto split: if_splits)

lemma os_loop_none:
  "find (\<lambda>row. re_match E (cell (udger_os_regex D) row ''regstring'') u \<noteq> None) rows = None \<Longrightarrow>
   os_loop E D opts u rows st = Inr (st\<lparr>r_var := (if rows = [] then r_var st else JArr (last rows))\<rparr>)"
  by (induction rows arbitrary: st) (auto split: if_splits)

lemma deviceclass_loop_none:
  "find (\<lambda>row. re_match E (cell (udger_deviceclass_regex D) row ''regstring'') u \<noteq> None) rows = None \<Longrightarrow>
   deviceclass_loop E D opts u rows st = Inr (st\<lparr>r_var := (if rows = [] then r_var st else JArr (last rows))\<rparr>)"
  by (induction rows arbitrary: st) (auto split: if_splits)

subsection \<open>What the stages assign\<close>

lemma crawler_fill_fields:
  "oget (rua (crawler_fill opts st r)) ''ua_class'' = JStr ''Crawler''"
  "oget (rua (crawler_fill opts st r)) ''ua_class_code'' = JStr ''crawler''"
  "client_id (crawler_fill opts st r) = client_id st"
  "os_id (crawler_fill opts st r) = os_id st"
  by (simp_all add: crawler_fill_def Let_def spread2 oget_assign_other oget_oset)

lemma client_fill_version:
  "oget (rua (client_fill opts e st r)) ''ua_version'' = (if truthy (group1 e) then group1 e else JStr [])"
  "oget (rua (client_fill opts e st r)) ''ua_version_major''
     = (if truthy (group1 e) then JStr (before_dot (to_string (group1 e))) else JStr [])"
  by (simp_all add: client_fill_def Let_def spread2 spread3 oget_assign_other oget_oset)

lemma client_fill_ids:
  "client_id (client_fill opts e st r) = oget r ''client_id''"
  "os_id (client_fill opts e st r) = os_id st"
  by (simp_all add: client_fill_def Let_def)

lemma os_fields_values:
  "oget (os_fields dst r) ''os'' = js_or (oget r ''name'') (JStr [])"
  "oget (os_fields dst r) ''os_code'' = js_or (oget r ''name_code'') (JStr [])"
  "oget (os_fields dst r) ''os_homepage'' = js_or (oget r ''homepage'') (JStr [])"
  "oget (os_fields dst r) ''os_icon'' = js_or (oget r ''icon'') (JStr [])"
  "oget (os_fields dst r) ''os_icon_big'' = js_or (oget r ''icon_big'') (JStr [])"
  "oget (os_fields dst r) ''os_info_url''
     = JStr (''https://udger.com/resources/ua-list/os-detail?os='' @ to_string (js_or (oget r ''name'') (JStr [])))"
  "oget (os_fields dst r) ''os_family'' = js_or (oget r ''family'') (JStr [])"
  "oget (os_fields dst r) ''os_family_code'' = js_or (oget r ''family_code'') (JStr [])"
  "oget (os_fields dst r) ''os_family_vendor'' = js_or (oget r ''vendor'') (JStr [])"
  "oget (os_fields dst r) ''os_family_vendor_code'' = js_or (oget r ''vendor_code'') (JStr [])"
  "oget (os_fields dst r) ''os_family_vendor_homepage'' = js_or (oget r ''vendor_homepage'') (JStr [])"
  by (simp_all add: os_fields_def Let_def assign_or_empty_Cons oget_oset)

subsection \<open>The result of parseUa\<close>

lemma ua_field_names_distinct:
  "''ua_version'' \<notin> set os_field_names" "''ua_version'' \<notin> set deviceclass_field_names"
  "''ua_version'' \<notin> set devicename_field_names"
  "''ua_version_major'' \<notin> set os_field_names" "''ua_version_major'' \<notin> set deviceclass_field_names"
  "''ua_version_major'' \<notin> set devicename_field_names"
  "''ua_class'' \<notin> set os_field_names" "''ua_class'' \<notin> set deviceclass_field_names"
  "''ua_class'' \<notin> set devicename_field_names"
  "''ua_class_code'' \<notin> set os_field_names" "''ua_class_code'' \<notin> set deviceclass_field_names"
  "''ua_class_code'' \<notin> set devicename_field_names"
  by (simp_all add: os_field_names_def deviceclass_field_names_def devicename_field_names_def)

text \<open>The result of parseUa is the state after the first stage, taken through the later ones.\<close>

lemma parseUa_stages:
  assumes "u \<noteq> []" and "crawler_or_client E D opts u (ua_init (copy_obj ru) opts u) = Inr st1"
  shows "\<exists>st2 st3 st4 st5 st6.
           os_loop E D opts u (data (udger_os_regex D)) st1 = Inr st2 \<and>
           os_relation D st2 = Inr st3 \<and>
           deviceclass_loop E D opts u (data (udger_deviceclass_regex D)) st3 = Inr st4 \<and>
           deviceclass_fallback D opts st4 = Inr st5 \<and>
           devicename E D u st5 = Inr st6 \<and>
           parseUa E D ru (Some u) opts = Inr (rua st6, ruaJson st6)"
proof -
  obtain st2 where 2: "os_loop E D opts u (data (udger_os_regex D)) st1 = Inr st2" using os_loop_ok by blast
  obtain st3 where 3: "os_relation D st2 = Inr st3" using os_relation_ok by blast
  obtain st4 where 4: "deviceclass_loop E D opts u (data (udger_deviceclass_regex D)) st3 = Inr st4"
    using deviceclass_loop_ok by blast
  obtain st5 where 5: "deviceclass_fallback D opts st4 = Inr st5" using deviceclass_fallback_ok by blast
  obtain st6 where 6: "devicename E D u st5 = Inr st6" using devicename_ok by blast
  have "parseUa E D ru (Some u) opts = Inr (rua st6, ruaJson st6)"
    using assms by (simp add: parseUa_def Let_def ua_stages_def 2 3 4 5 6)
  then show ?thesis using 2 3 4 5 6 by blast
qed

subsection \<open>Facts about the small dataset\<close>

lemmas demo_tables =
  demo_data_def demo_crawler_list_def demo_crawler_class_def
  demo_client_regex_def demo_client_list_def demo_client_class_def demo_os_regex_def demo_os_list_def
  demo_client_os_relation_def demo_deviceclass_regex_def demo_deviceclass_list_def demo_ip_list_def
  demo_ip_class_def demo_datacenter_range_def demo_datacenter_list_def tbl_def

lemmas demo_strings =
  ua_firefox_def ua_googlebot_def ua_googlebot_android_def ua_msie_def ua_beos_def ua_wget_def
  re_firefox_def re_msie_def re_windows10_def re_android_def re_beos_def re_wget_def

lemmas demo_matching = demo_env_def demo_re_match_def demo_matches_def

lemma demo_not_crawlers:
  "find (\<lambda>row. cell (udger_crawler_list demo_data) row ''ua_string'' = JStr ua_firefox)
     (data (udger_crawler_list demo_data)) = None"
  "find (\<lambda>row. cell (udger_crawler_list demo_data) row ''ua_string'' = JStr ua_wget)
     (data (udger_crawler_list demo_data)) = None"
  "find (\<lambda>row. cell (udger_crawler_list demo_data) row ''ua_string'' = JStr ua_msie)
     (data (udger_crawler_list demo_data)) = None"
  "find (\<lambda>row. cell (udger_crawler_list demo_data) row ''ua_string'' = JStr ua_beos)
     (data (udger_crawler_list demo_data)) = None"
  by (simp_all add: demo_tables demo_strings cell_def col_def arr_at_def)

lemma demo_client_rows:
  "find (\<lambda>row. re_match demo_env (cell (udger_client_regex demo_data) row ''regstring'') ua_firefox \<noteq> None)
     (data (udger_client_regex demo_data)) = Some row_firefox"
  "re_match demo_env (cell (udger_client_regex demo_data) row_firefox ''regstring'') ua_firefox
     = Some [Some ''Firefox/40.0'', Some ''40.0'']"
  "find (\<lambda>row. re_match demo_env (cell (udger_client_regex demo_data) row ''regstring'') ua_wget \<noteq> None)
     (data (udger_client_regex demo_data)) = Some row_wget"
  "re_match demo_env (cell (udger_client_regex demo_data) row_wget ''regstring'') ua_wget
     = Some [Some ''Wget'']"
  by (simp_all add: demo_tables demo_strings demo_matching cell_def col_def arr_at_def row_firefox_def row_wget_def)

subsection \<open>Tables a stage does not read\<close>

lemma os_found_tables:
  "udger_os_regex D' = udger_os_regex D \<Longrightarrow> udger_os_list D' = udger_os_list D \<Longrightarrow>
   os_found D' opts row st = os_found D opts row st"
  by (simp add: os_found_def os_join_def)

lemma os_loop_tables:
  "udger_os_regex D' = udger_os_regex D \<Longrightarrow> udger_os_list D' = udger_os_list D \<Longrightarrow>
   os_loop E D' opts u rows st = os_loop E D opts u rows st"
  by (induction rows arbitrary: st) (simp_all add: os_found_tables[of D' D] cong: option.case_cong)

lemma deviceclass_found_tables:
  "udger_deviceclass_regex D' = udger_deviceclass_regex D \<Longrightarrow>
   udger_deviceclass_list D' = udger_deviceclass_list D \<Longrightarrow>
   deviceclass_found D' opts row st = deviceclass_found D opts row st"
  by (simp add: deviceclass_found_def deviceclass_join_def)

lemma deviceclass_loop_tables:
  "udger_deviceclass_regex D' = udger_deviceclass_regex D \<Longrightarrow>
   udger_deviceclass_list D' = udger_deviceclass_list D \<Longrightarrow>
   deviceclass_loop E D' opts u rows st = deviceclass_loop E D opts u rows st"
  by (induction rows arbitrary: st) (simp_all add: deviceclass_found_tables[of D' D] cong: option.case_cong)

lemma deviceclass_fallback_join_tables:
  "udger_client_class D' = udger_client_class D \<Longrightarrow>
   udger_deviceclass_list D' = udger_deviceclass_list D \<Longrightarrow>
   deviceclass_fallback_join D' q = deviceclass_fallback_join D q"
  by (simp add: deviceclass_fallback_join_def)

lemma deviceclass_fallback_tables:
  "udger_client_class D' = udger_client_class D \<Longrightarrow>
   udger_deviceclass_list D' = udger_deviceclass_list D \<Longrightarrow>
   deviceclass_fallback D' opts st = deviceclass_fallback D opts st"
  by (simp add: deviceclass_fallback_def deviceclass_fallback_join_tables[of D' D] Let_def)

lemma devicename_join_tables:
  "udger_devicename_list D' = udger_devicename_list D \<Longrightarrow>
   udger_devicename_brand D' = udger_devicename_brand D \<Longrightarrow>
   devicename_join D' q = devicename_join D q"
  by (simp add: devicename_join_def)

lemma devicename_tables:
  "udger_devicename_regex D' = udger_devicename_regex D \<Longrightarrow>
   udger_devicename_list D' = udger_devicename_list D \<Longrightarrow>
   udger_devicename_brand D' = udger_devicename_brand D \<Longrightarrow>
   devicename E D' u st = devicename E D u st"
  by (simp add: devicename_def devicename_join_tables[of D' D] Let_def)

lemma crawler_or_client_crawler:
  "find (\<lambda>row. cell (udger_crawler_list D) row ''ua_string'' = JStr u) (data (udger_crawler_list D)) = Some q \<Longrightarrow>
   crawler_or_client E D opts u st = crawler_found D opts (JArr q) st"
  by (simp add: crawler_or_client_def findBy_def)

lemma crawler_found_tables:
  "udger_crawler_list D' = udger_crawler_list D \<Longrightarrow> udger_crawler_class D' = udger_crawler_class D \<Longrightarrow>
   crawler_found D' opts q st = crawler_found D opts q st"
  by (simp add: crawler_found_def crawler_join_def)

text \<open>
  The run of parseUa on the user agent of a crawler row: the client loop and the
  client/OS relation are left out, the other stages follow.
\<close>

lemma crawler_run:
  assumes "u \<noteq> []"
      and "find (\<lambda>row. cell (udger_crawler_list D) row ''ua_string'' = JStr u) (data (udger_crawler_list D)) = Some q"
  shows "\<exists>r st2 st4 st5 st6.
           crawler_join D (JArr q) = Inr r \<and>
           os_loop E D opts u (data (udger_os_regex D)) (crawler_fill opts (ua_init (copy_obj ru) opts u) r) = Inr st2 \<and>
           deviceclass_loop E D opts u (data (udger_deviceclass_regex D)) st2 = Inr st4 \<and>
           deviceclass_fallback D opts st4 = Inr st5 \<and>
           devicename E D u st5 = Inr st6 \<and>
           parseUa E D ru (Some u) opts = Inr (rua st6, ruaJson st6)"
proof -
  let ?st0 = "ua_init (copy_obj ru) opts u"
  obtain r where r: "crawler_join D (JArr q) = Inr r" using crawler_join_ok by blast
  let ?st1 = "crawler_fill opts ?st0 r"
  have 1: "crawler_or_client E D opts u ?st0 = Inr ?st1"
    using crawler_or_client_crawler[OF assms(2)] r by (simp add: crawler_found_def)
  from parseUa_stages[OF assms(1) 1] obtain st2 st3 st4 st5 st6 where
    s: "os_loop E D opts u (data (udger_os_regex D)) ?st1 = Inr st2"
       "os_relation D st2 = Inr st3"
       "deviceclass_loop E D opts u (data (udger_deviceclass_regex D)) st3 = Inr st4"
       "deviceclass_fallback D opts st4 = Inr st5"
       "devicename E D u st5 = Inr st6"
    and p: "parseUa E D ru (Some u) opts = Inr (rua st6, ruaJson st6)"
    by blast
  have "client_id st2 = JNum 0"
    using os_loop_frame[OF s(1), of "[]"] by (simp add: crawler_fill_fields ua_init_def)
  then have "st3 = st2" using s(2) os_relation_skipped by simp
  then show ?thesis using r s p by blast
qed

lemma crawler_tables:
  assumes "u \<noteq> []"
      and "find (\<lambda>row. cell (udger_crawler_list D) row ''ua_string'' = JStr u) (data (udger_crawler_list D)) = Some q"
  shows "parseUa E (D\<lparr>udger_client_regex := t1, udger_client_list := t2, udger_client_os_relation := t3\<rparr>)
           ru (Some u) opts = parseUa E D ru (Some u) opts"
proof -
  let ?D = "D\<lparr>udger_client_regex := t1, udger_client_list := t2, udger_client_os_relation := t3\<rparr>"
  have f: "find (\<lambda>row. cell (udger_crawler_list ?D) row ''ua_string'' = JStr u) (data (udger_crawler_list ?D)) = Some q"
    using assms(2) by simp
  from crawler_run[OF assms(1) f, of E opts ru] obtain r st2 st4 st5 st6 where
    a: "crawler_join ?D (JArr q) = Inr r"
       "os_loop E ?D opts u (data (udger_os_regex ?D)) (crawler_fill opts (ua_init (copy_obj ru) opts u) r) = Inr st2"
       "deviceclass_loop E ?D opts u (data (udger_deviceclass_regex ?D)) st2 = Inr st4"
       "deviceclass_fallback ?D opts st4 = Inr st5"
       "devicename E ?D u st5 = Inr st6"
       "parseUa E ?D ru (Some u) opts = Inr (rua st6, ruaJson st6)"
    by blast
  from crawler_run[OF assms, of E opts ru] obtain r' st2' st4' st5' st6' where
    b: "crawler_join D (JArr q) = Inr r'"
       "os_loop E D opts u (data (udger_os_regex D)) (crawler_fill opts (ua_init (copy_obj ru) opts u) r') = Inr st2'"
       "deviceclass_loop E D opts u (data (udger_deviceclass_regex D)) st2' = Inr st4'"
       "deviceclass_fallback D opts st4' = Inr st5'"
       "devicename E D u st5' = Inr st6'"
       "parseUa E D ru (Some u) opts = Inr (rua st6', ruaJson st6')"
    by blast
  have "r = r'" using a(1) b(1) by (simp add: crawler_join_def)
  then have "st2 = st2'" using a(2) b(2) by (simp add: os_loop_tables[of ?D D])
  then have "st4 = st4'" using a(3) b(3) by (simp add: deviceclass_loop_tables[of ?D D])
  then have "st5 = st5'" using a(4) b(4) by (simp add: deviceclass_fallback_tables[of ?D D])
  then have "st6 = st6'" using a(5) b(5) by (simp add: devicename_tables[of ?D D])
  then show ?thesis using a(6) b(6) by simp
qed

lemma find_Some_ex: "(\<exists>x \<in> set xs. P x) \<Longrightarrow> \<exists>q. find P xs = Some q"
  by (induction xs) auto

subsection \<open>Runs on the small dataset\<close>

lemma client_loop_none:
  "find (\<lambda>row. re_match E (cell (udger_client_regex D) row ''regstring'') u \<noteq> None) rows = None \<Longrightarrow>
   client_loop E D opts u rows st = Inr (st\<lparr>r_var := (if rows = [] then r_var st else JArr (last rows))\<rparr>)"
  by (induction rows arbitrary: st) (auto split: if_splits)

lemma os_names_not_device:
  "k \<in> set os_field_names \<Longrightarrow> k \<notin> set deviceclass_field_names \<and> k \<notin> set devicename_field_names"
  by (auto simp: os_field_names_def deviceclass_field_names_def devicename_field_names_def)

text \<open>The OS fields of the result are those after the client/OS relation stage.\<close>

lemma os_fields_final:
  assumes "u \<noteq> []"
      and "crawler_or_client E D opts u (ua_init (copy_obj ru) opts u) = Inr st1"
      and "os_loop E D opts u (data (udger_os_regex D)) st1 = Inr st2"
      and "os_relation D st2 = Inr st3"
  shows "\<exists>res j. parseUa E D ru (Some u) opts = Inr (res, j) \<and>
           (\<forall>k \<in> set os_field_names. oget res k = oget (rua st3) k)"
proof -
  from parseUa_stages[OF assms(1,2)] assms(3,4) obtain st4 st5 st6 where
    s: "deviceclass_loop E D opts u (data (udger_deviceclass_regex D)) st3 = Inr st4"
       "deviceclass_fallback D opts st4 = Inr st5"
       "devicename E D u st5 = Inr st6"
    and p: "parseUa E D ru (Some u) opts = Inr (rua st6, ruaJson st6)"
    by auto
  have "oget (rua st6) k = oget (rua st3) k" if "k \<in> set os_field_names" for k
    using deviceclass_loop_frame[OF s(1), of k] deviceclass_fallback_frame[OF s(2), of k]
      devicename_frame[OF s(3), of k] os_names_not_device[OF that]
    by simp
  then show ?thesis using p by simp
qed

text \<open>Evaluating \<open>map\<close> on a row that is an array.\<close>

lemma read_keys_array:
  "read_keys t (JArr row) keys acc = Inr (foldl (\<lambda>a k. oset a k (arr_at row (col t k))) acc keys)"
  by (induction keys arbitrary: acc) simp_all

lemma map_row_array:
  "map_row t (JArr row) keys rn = Inr (rename_keys (foldl (\<lambda>a k. oset a k (arr_at row (col t k))) [] keys) rn)"
  by (simp add: map_row_def read_keys_array)

lemmas eval_row = map_row_array join_def row_at_def arr_at_def col_def spread_def odelete_def cell_def

lemma demo_os_join_android:
  "os_join demo_data (JArr row_os_android) =
     Inr [(''os_id'', JNum 6), (''regstring'', JStr re_android), (''family'', JStr ''Android''),
          (''family_code'', JStr ''android''), (''name'', JStr ''Android''), (''name_code'', JStr ''android''),
          (''homepage'', JStr ''https://en.wikipedia.org/wiki/Android_(operating_system)''),
          (''icon'', JStr ''android.png''), (''icon_big'', JStr ''android_big.png''),
          (''vendor'', JStr ''Google, Inc.''), (''vendor_code'', JStr ''google_inc''),
          (''vendor_homepage'', JStr ''https://www.google.com/about/company/'')]"
  by (simp add: os_join_def os_keys_def eval_row demo_tables row_os_android_def)

lemma demo_crawler_android:
  "find (\<lambda>row. cell (udger_crawler_list demo_data) row ''ua_string'' = JStr ua_googlebot_android)
     (data (udger_crawler_list demo_data)) = Some row_googlebot_android"
  by (simp add: demo_tables demo_strings cell_def col_def arr_at_def row_googlebot_android_def)

lemma demo_os_android:
  "find (\<lambda>row. re_match demo_env (cell (udger_os_regex demo_data) row ''regstring'') ua_googlebot_android \<noteq> None)
     (data (udger_os_regex demo_data)) = Some row_os_android"
  by (simp add: demo_tables demo_strings demo_matching cell_def col_def arr_at_def row_os_android_def)

text \<open>
  The user agent of the Googlebot smartphone crawler is a row of udger_crawler_list and
  contains "Android": the OS stage fills the OS fields of the crawler's result.
\<close>

lemma demo_crawler_os:
  "udger_field (parseUa demo_env demo_data demo_default_ua (Some ua_googlebot_android) opts_classic) ''os''
     = Inr (JStr ''Android'')"
proof -
  have u: "ua_googlebot_android \<noteq> []" by (simp add: demo_strings)
  let ?st0 = "ua_init (copy_obj demo_default_ua) opts_classic ua_googlebot_android"
  obtain r where r: "crawler_found demo_data opts_classic (JArr row_googlebot_android) ?st0
      = Inr (crawler_fill opts_classic ?st0 r)"
    using crawler_found_ok by blast
  let ?st1 = "crawler_fill opts_classic ?st0 r"
  have 1: "crawler_or_client demo_env demo_data opts_classic ua_googlebot_android ?st0 = Inr ?st1"
    using crawler_or_client_crawler[OF demo_crawler_android] r by simp
  let ?st2 = "os_fill opts_classic (?st1\<lparr>r_var := JArr row_os_android\<rparr>)
      [(''os_id'', JNum 6), (''regstring'', JStr re_android), (''family'', JStr ''Android''),
          (''family_code'', JStr ''android''), (''name'', JStr ''Android''), (''name_code'', JStr ''android''),
          (''homepage'', JStr ''https://en.wikipedia.org/wiki/Android_(operating_system)''),
          (''icon'', JStr ''android.png''), (''icon_big'', JStr ''android_big.png''),
          (''vendor'', JStr ''Google, Inc.''), (''vendor_code'', JStr ''google_inc''),
          (''vendor_homepage'', JStr ''https://www.google.com/about/company/'')]"
  have 2: "os_loop demo_env demo_data opts_classic ua_googlebot_android (data (udger_os_regex demo_data)) ?st1
      = Inr ?st2"
    using os_loop_first[OF demo_os_android] by (simp add: os_found_def demo_os_join_android)
  have "client_id ?st2 = JNum 0" by (simp add: os_fill_frame crawler_fill_fields ua_init_def)
  then have 3: "os_relation demo_data ?st2 = Inr ?st2" by (rule os_relation_skipped)
  from os_fields_final[OF u 1 2 3] obtain res j where
    p: "parseUa demo_env demo_data demo_default_ua (Some ua_googlebot_android) opts_classic = Inr (res, j)"
    and k: "\<forall>k \<in> set os_field_names. oget res k = oget (rua ?st2) k"
    by blast
  have "oget res ''os'' = oget (rua ?st2) ''os''" using k by (simp add: os_field_names_def)
  also have "\<dots> = JStr ''Android''" by (simp add: os_fill_def Let_def os_fields_values js_or_def)
  finally show ?thesis using p by (simp add: udger_field_def)
qed

lemma demo_client_join_msie:
  "\<exists>r. client_join demo_data (JArr row_msie) = Inr r \<and> oget r ''client_id'' = JNum 5"
  by (simp add: client_join_def eval_row demo_tables row_msie_def)

lemma demo_client_msie:
  "find (\<lambda>row. re_match demo_env (cell (udger_client_regex demo_data) row ''regstring'') ua_msie \<noteq> None)
     (data (udger_client_regex demo_data)) = Some row_msie"
  "re_match demo_env (cell (udger_client_regex demo_data) row_msie ''regstring'') ua_msie
     = Some [Some ''MSIE 6.0'', Some ''6.0'']"
  by (simp_all add: demo_tables demo_strings demo_matching cell_def col_def arr_at_def row_msie_def)

lemma demo_os_none_msie:
  "find (\<lambda>row. re_match demo_env (cell (udger_os_regex demo_data) row ''regstring'') ua_msie \<noteq> None)
     (data (udger_os_regex demo_data)) = None"
  by (simp add: demo_tables demo_strings demo_matching cell_def col_def arr_at_def)

lemma demo_last_os_row: "last (data (udger_os_regex demo_data)) = row_os_android"
  "data (udger_os_regex demo_data) \<noteq> []"
  by (simp_all add: demo_tables row_os_android_def)

lemma demo_relation_msie:
  "findBy (udger_client_os_relation demo_data)
     (\<lambda>row. cell (udger_client_os_relation demo_data) row ''client_id'' = JNum 5) = JArr [JNum 5, JNum 2]"
  "cell (udger_client_os_relation demo_data) [JNum 5, JNum 2] ''os_id'' = JNum 2"
  "cell (udger_os_list demo_data) (data (udger_os_list demo_data) ! 2) ''name'' = JStr ''Windows''"
  by (simp_all add: findBy_def demo_tables cell_def col_def arr_at_def)

lemma demo_no_client_beos:
  "find (\<lambda>row. re_match demo_env (cell (udger_client_regex demo_data) row ''regstring'') ua_beos \<noteq> None)
     (data (udger_client_regex demo_data)) = None"
  by (simp add: demo_tables demo_strings demo_matching cell_def col_def arr_at_def)

lemma demo_os_beos:
  "find (\<lambda>row. re_match demo_env (cell (udger_os_regex demo_data) row ''regstring'') ua_beos \<noteq> None)
     (data (udger_os_regex demo_data)) = Some row_os_beos"
  by (simp add: demo_tables demo_strings demo_matching cell_def col_def arr_at_def row_os_beos_def)

lemma demo_beos_dangling:
  "cell (udger_os_regex demo_data) row_os_beos ''os_id'' = JNull"
  "row_at (udger_os_list demo_data) JNull = JUndefined"
  by (simp_all add: demo_tables cell_def col_def arr_at_def row_at_def row_os_beos_def)

lemma demo_os_join_beos:
  "os_join demo_data (JArr row_os_beos) = Inr [(''os_id'', JNull), (''regstring'', JStr re_beos)]"
  by (simp add: os_join_def os_keys_def eval_row demo_tables row_os_beos_def map_row_missing)

text \<open>
  The OS regex row for BeOS has a dangling \<open>os_id\<close>: the OS fields stay empty, the
  info URL is the bare prefix.
\<close>

lemma demo_beos_os_fields:
  "\<exists>res j. parseUa demo_env demo_data demo_default_ua (Some ua_beos) opts_classic = Inr (res, j) \<and>
     oget res ''os'' = JStr [] \<and> oget res ''os_code'' = JStr [] \<and> oget res ''os_family'' = JStr [] \<and>
     oget res ''os_info_url'' = JStr ''https://udger.com/resources/ua-list/os-detail?os=''"
proof -
  have u: "ua_beos \<noteq> []" by (simp add: demo_strings)
  let ?st0 = "ua_init (copy_obj demo_default_ua) opts_classic ua_beos"
  let ?st1 = "?st0\<lparr>r_var := JArr (last (data (udger_client_regex demo_data)))\<rparr>"
  have ne: "data (udger_client_regex demo_data) \<noteq> []" by (simp add: demo_tables)
  have 1: "crawler_or_client demo_env demo_data opts_classic ua_beos ?st0 = Inr ?st1"
    using demo_not_crawlers(4) client_loop_none[OF demo_no_client_beos] ne
    by (simp add: crawler_or_client_def findBy_def Let_def)
  let ?r = "[(''os_id'', JNull), (''regstring'', JStr re_beos)]"
  let ?st2 = "os_fill opts_classic (?st1\<lparr>r_var := JArr row_os_beos\<rparr>) ?r"
  have 2: "os_loop demo_env demo_data opts_classic ua_beos (data (udger_os_regex demo_data)) ?st1 = Inr ?st2"
    using os_loop_first[OF demo_os_beos] by (simp add: os_found_def demo_os_join_beos)
  have "client_id ?st2 = JNum 0" by (simp add: os_fill_frame ua_init_def)
  then have 3: "os_relation demo_data ?st2 = Inr ?st2" by (rule os_relation_skipped)
  from os_fields_final[OF u 1 2 3] obtain res j where
    p: "parseUa demo_env demo_data demo_default_ua (Some ua_beos) opts_classic = Inr (res, j)"
    and k: "\<forall>k \<in> set os_field_names. oget res k = oget (rua ?st2) k"
    by blast
  have "oget res ''os'' = JStr []" "oget res ''os_code'' = JStr []" "oget res ''os_family'' = JStr []"
    "oget res ''os_info_url'' = JStr ''https://udger.com/resources/ua-list/os-detail?os=''"
    using k by (simp_all add: os_field_names_def os_fill_def Let_def os_fields_values js_or_def)
  then show ?thesis using p by blast
qed

lemma client_fill_os:
  "k \<in> set os_field_names \<Longrightarrow> oget (rua (client_fill opts e st r)) k = oget (rua st) k"
  by (auto simp: os_field_names_def client_fill_def Let_def spread2 spread3 oget_assign_other oget_oset)

lemma demo_default_os: "oget (copy_obj demo_default_ua) ''os'' = JStr []"
  by (simp add: copy_obj_def demo_default_ua_def)

lemma ua_init_os: "k \<in> set os_field_names \<Longrightarrow> oget (rua (ua_init rua0 opts u)) k = oget rua0 k"
  by (auto simp: ua_init_def os_field_names_def oget_spread_other)

lemma demo_relation_search:
  "findBy (udger_client_os_relation demo_data)
     (\<lambda>row. cell (udger_client_os_relation demo_data) row ''client_id''
             = col (udger_client_os_relation demo_data) ''client_id'') = JUndefined"
  "findBy (udger_client_os_relation demo_data_relation0)
     (\<lambda>row. cell (udger_client_os_relation demo_data_relation0) row ''client_id''
             = col (udger_client_os_relation demo_data_relation0) ''client_id'') = JArr [JNum 0, JNum 2]"
  "findBy (udger_client_os_relation demo_data_relation0)
     (\<lambda>row. cell (udger_client_os_relation demo_data_relation0) row ''client_id'' = JNum 5) = JUndefined"
  by (simp_all add: findBy_def demo_data_relation0_def demo_tables cell_def col_def arr_at_def)

lemma demo_relation0_tables:
  "udger_crawler_list demo_data_relation0 = udger_crawler_list demo_data"
  "udger_client_regex demo_data_relation0 = udger_client_regex demo_data"
  "udger_os_regex demo_data_relation0 = udger_os_regex demo_data"
  "udger_os_list demo_data_relation0 = udger_os_list demo_data"
  "client_join demo_data_relation0 = client_join demo_data"
  by (simp_all add: demo_data_relation0_def client_join_def fun_eq_iff)

lemma demo_os_relation_join0:
  "\<exists>r. os_relation_join demo_data_relation0 (JArr row_os_android) = Inr r \<and> oget r ''name'' = JStr ''Android''"
  by (simp add: os_relation_join_def os_keys_def eval_row demo_data_relation0_def demo_tables row_os_android_def)

section \<open>The claims about parseUa\<close>

lemma first_dot:
  "\<exists>rest. CHR ''.'' \<notin> set (takeWhile (\<lambda>c. c \<noteq> CHR ''.'') g) \<and>
     (g = takeWhile (\<lambda>c. c \<noteq> CHR ''.'') g \<or>
      g = takeWhile (\<lambda>c. c \<noteq> CHR ''.'') g @ CHR ''.'' # rest)"
  by (induction g) auto

text \<open>
  Claim C8. For a user agent that is not the \<^verbatim>\<open>ua_string\<close> of a crawler row: when the
  first client regex that matches (in table order) has a non-empty capture group 1
  (\<open>e ! 1\<close> of the match \<open>e\<close>), the
  result's \<^verbatim>\<open>ua_version\<close> is that group and \<^verbatim>\<open>ua_version_major\<close> is its part before
  the first dot: the longest prefix without a dot, which is the whole group when it has no
  dot and is followed by a dot otherwise. When group 1 is absent (or empty) both fields are
  the empty string.
\<close>

theorem client_version_from_group1:
  assumes "u \<noteq> []"
      and "find (\<lambda>row. cell (udger_crawler_list D) row ''ua_string'' = JStr u) (data (udger_crawler_list D)) = None"
      and "find (\<lambda>row. re_match E (cell (udger_client_regex D) row ''regstring'') u \<noteq> None)
             (data (udger_client_regex D)) = Some row"
      and "re_match E (cell (udger_client_regex D) row ''regstring'') u = Some e"
  shows "\<exists>res j. parseUa E D ru (Some u) opts = Inr (res, j) \<and>
           (\<forall>g. 1 < length e \<and> e ! 1 = Some g \<and> g \<noteq> [] \<longrightarrow>
                oget res ''ua_version'' = JStr g \<and>
                oget res ''ua_version_major'' = JStr (takeWhile (\<lambda>c. c \<noteq> CHR ''.'') g) \<and>
                (\<exists>m rest. oget res ''ua_version_major'' = JStr m \<and> CHR ''.'' \<notin> set m \<and>
                   (g = m \<or> g = m @ CHR ''.'' # rest))) \<and>
           (length e \<le> 1 \<or> e ! 1 = None \<or> e ! 1 = Some [] \<longrightarrow>
                oget res ''ua_version'' = JStr [] \<and> oget res ''ua_version_major'' = JStr [])"
proof -
  let ?st0 = "ua_init (copy_obj ru) opts u"
  obtain r where r: "client_found D opts (JArr row) e (?st0\<lparr>r_var := JArr row\<rparr>)
      = Inr (client_fill opts e (?st0\<lparr>r_var := JArr row\<rparr>) r)"
    using client_found_ok by blast
  let ?st1 = "client_fill opts e (?st0\<lparr>r_var := JArr row\<rparr>) r"
  have 1: "crawler_or_client E D opts u ?st0 = Inr ?st1"
    using assms(2) client_loop_first[OF assms(3,4)] r
    by (simp add: crawler_or_client_def findBy_def Let_def)
  from parseUa_stages[OF assms(1) 1] obtain st2 st3 st4 st5 st6 where
    s: "os_loop E D opts u (data (udger_os_regex D)) ?st1 = Inr st2"
       "os_relation D st2 = Inr st3"
       "deviceclass_loop E D opts u (data (udger_deviceclass_regex D)) st3 = Inr st4"
       "deviceclass_fallback D opts st4 = Inr st5"
       "devicename E D u st5 = Inr st6"
    and p: "parseUa E D ru (Some u) opts = Inr (rua st6, ruaJson st6)"
    by blast
  have v: "oget (rua st6) ''ua_version'' = oget (rua ?st1) ''ua_version''"
    by (rule later_stages_frame[OF s]) (simp_all add: ua_field_names_distinct)
  have m: "oget (rua st6) ''ua_version_major'' = oget (rua ?st1) ''ua_version_major''"
    by (rule later_stages_frame[OF s]) (simp_all add: ua_field_names_distinct)
  have w: "oget (rua st6) ''ua_version'' = JStr g \<and>
           oget (rua st6) ''ua_version_major'' = JStr (takeWhile (\<lambda>c. c \<noteq> CHR ''.'') g) \<and>
           (\<exists>m rest. oget (rua st6) ''ua_version_major'' = JStr m \<and> CHR ''.'' \<notin> set m \<and>
              (g = m \<or> g = m @ CHR ''.'' # rest))"
    if "1 < length e" "e ! 1 = Some g" "g \<noteq> []" for g
  proof -
    have "group1 e = JStr g" using that by (simp add: group1_def)
    then have a: "oget (rua st6) ''ua_version'' = JStr g"
      "oget (rua st6) ''ua_version_major'' = JStr (takeWhile (\<lambda>c. c \<noteq> CHR ''.'') g)"
      using v m that(3) by (simp_all add: client_fill_version before_dot_def)
    from first_dot[of g] obtain rest where
      "CHR ''.'' \<notin> set (takeWhile (\<lambda>c. c \<noteq> CHR ''.'') g)"
      "g = takeWhile (\<lambda>c. c \<noteq> CHR ''.'') g \<or> g = takeWhile (\<lambda>c. c \<noteq> CHR ''.'') g @ CHR ''.'' # rest"
      by blast
    then show ?thesis using a by blast
  qed
  have n: "oget (rua st6) ''ua_version'' = JStr [] \<and> oget (rua st6) ''ua_version_major'' = JStr []"
    if "length e \<le> 1 \<or> e ! 1 = None \<or> e ! 1 = Some []"
  proof -
    have "\<not> truthy (group1 e)" using that by (auto simp: group1_def)
    then show ?thesis using v m by (simp add: client_fill_version)
  qed
  have W: "\<forall>g. 1 < length e \<and> e ! 1 = Some g \<and> g \<noteq> [] \<longrightarrow>
                oget (rua st6) ''ua_version'' = JStr g \<and>
                oget (rua st6) ''ua_version_major'' = JStr (takeWhile (\<lambda>c. c \<noteq> CHR ''.'') g) \<and>
                (\<exists>m rest. oget (rua st6) ''ua_version_major'' = JStr m \<and> CHR ''.'' \<notin> set m \<and>
                   (g = m \<or> g = m @ CHR ''.'' # rest))"
    by (intro allI impI, elim conjE, rule w, assumption+)
  have N: "length e \<le> 1 \<or> e ! 1 = None \<or> e ! 1 = Some [] \<longrightarrow>
                oget (rua st6) ''ua_version'' = JStr [] \<and> oget (rua st6) ''ua_version_major'' = JStr []"
    by (intro impI, rule n, assumption)
  show ?thesis
    by (rule exI[of _ "rua st6"], rule exI[of _ "ruaJson st6"], intro conjI, rule p, rule W, rule N)
qed

theorem client_version_from_group1_witness:
  "ua_firefox \<noteq> [] \<and>
   find (\<lambda>row. cell (udger_crawler_list demo_data) row ''ua_string'' = JStr ua_firefox)
     (data (udger_crawler_list demo_data)) = None \<and>
   find (\<lambda>row. re_match demo_env (cell (udger_client_regex demo_data) row ''regstring'') ua_firefox \<noteq> None)
     (data (udger_client_regex demo_data)) = Some row_firefox \<and>
   re_match demo_env (cell (udger_client_regex demo_data) row_firefox ''regstring'') ua_firefox
     = Some [Some ''Firefox/40.0'', Some ''40.0''] \<and>
   1 < length [Some ''Firefox/40.0'', Some ''40.0''] \<and>
   [Some ''Firefox/40.0'', Some ''40.0''] ! 1 = Some ''40.0'' \<and>
   (\<exists>res j. parseUa demo_env demo_data demo_default_ua (Some ua_firefox) opts_classic = Inr (res, j) \<and>
      oget res ''ua_version'' = JStr ''40.0'' \<and> oget res ''ua_version_major'' = JStr ''40'') \<and>
   ua_wget \<noteq> [] \<and>
   find (\<lambda>row. cell (udger_crawler_list demo_data) row ''ua_string'' = JStr ua_wget)
     (data (udger_crawler_list demo_data)) = None \<and>
   find (\<lambda>row. re_match demo_env (cell (udger_client_regex demo_data) row ''regstring'') ua_wget \<noteq> None)
     (data (udger_client_regex demo_data)) = Some row_wget \<and>
   re_match demo_env (cell (udger_client_regex demo_data) row_wget ''regstring'') ua_wget
     = Some [Some ''Wget''] \<and>
   length [Some ''Wget''] \<le> 1 \<and>
   (\<exists>res j. parseUa demo_env demo_data [(''ua_version'', JStr ''?''), (''ua_version_major'', JStr ''?'')]
                (Some ua_wget) opts_classic = Inr (res, j) \<and>
      oget res ''ua_version'' = JStr [] \<and> oget res ''ua_version_major'' = JStr [])"
proof -
  have a: "ua_firefox \<noteq> []" and b: "ua_wget \<noteq> []" by (simp_all add: demo_strings)
  note A = client_version_from_group1 [OF a demo_not_crawlers(1) demo_client_rows(1,2),
      of demo_default_ua opts_classic]
  have 1: "\<exists>res j. parseUa demo_env demo_data demo_default_ua (Some ua_firefox) opts_classic = Inr (res, j) \<and>
      oget res ''ua_version'' = JStr ''40.0'' \<and> oget res ''ua_version_major'' = JStr ''40''"
    using A by (elim exE conjE) simp
  note B = client_version_from_group1 [OF b demo_not_crawlers(2) demo_client_rows(3,4),
      of "[(''ua_version'', JStr ''?''), (''ua_version_major'', JStr ''?'')]" opts_classic]
  have 2: "\<exists>res j. parseUa demo_env demo_data [(''ua_version'', JStr ''?''), (''ua_version_major'', JStr ''?'')]
                (Some ua_wget) opts_classic = Inr (res, j) \<and>
      oget res ''ua_version'' = JStr [] \<and> oget res ''ua_version_major'' = JStr []"
    using B by (elim exE conjE) simp
  show ?thesis
    using a b demo_not_crawlers(1,2) demo_client_rows 1 2 by simp
qed

text \<open>
  Claim C1. A user agent that equals the \<^verbatim>\<open>ua_string\<close> of a row of udger_crawler_list is
  classified \<^verbatim>\<open>Crawler\<close> / \<^verbatim>\<open>crawler\<close>, and the client-regex stage is skipped: the
  result is the same whatever udger_client_regex and udger_client_list hold, and, as no
  client id is set, the client/OS relation is never consulted either. The claim that no OS or
  device field is filled by the later stages fails: the OS-regex, device-class and
  market-name stages run after the crawler branch as after the client branch.
\<close>

theorem crawler_is_final:
  assumes "u \<noteq> []"
      and "\<exists>row \<in> set (data (udger_crawler_list D)). cell (udger_crawler_list D) row ''ua_string'' = JStr u"
  shows "\<exists>res j. parseUa E D ru (Some u) opts = Inr (res, j) \<and>
           oget res ''ua_class'' = JStr ''Crawler'' \<and> oget res ''ua_class_code'' = JStr ''crawler'' \<and>
           (\<forall>t1 t2 t3.
              parseUa E (D\<lparr>udger_client_regex := t1, udger_client_list := t2, udger_client_os_relation := t3\<rparr>)
                ru (Some u) opts = Inr (res, j))"
proof -
  obtain q where q: "find (\<lambda>row. cell (udger_crawler_list D) row ''ua_string'' = JStr u)
      (data (udger_crawler_list D)) = Some q"
    using find_Some_ex[OF assms(2)] by blast
  from crawler_run[OF assms(1) q, of E opts ru] obtain r st2 st4 st5 st6 where
    b: "os_loop E D opts u (data (udger_os_regex D)) (crawler_fill opts (ua_init (copy_obj ru) opts u) r) = Inr st2"
       "deviceclass_loop E D opts u (data (udger_deviceclass_regex D)) st2 = Inr st4"
       "deviceclass_fallback D opts st4 = Inr st5"
       "devicename E D u st5 = Inr st6"
       "parseUa E D ru (Some u) opts = Inr (rua st6, ruaJson st6)"
    by blast
  have k: "oget (rua st6) k = oget (rua (crawler_fill opts (ua_init (copy_obj ru) opts u) r)) k"
    if "k \<notin> set os_field_names" "k \<notin> set deviceclass_field_names" "k \<notin> set devicename_field_names" for k
    using os_loop_frame[OF b(1), of k] deviceclass_loop_frame[OF b(2), of k]
      deviceclass_fallback_frame[OF b(3), of k] devicename_frame[OF b(4), of k] that
    by simp
  have "oget (rua st6) ''ua_class'' = JStr ''Crawler''" "oget (rua st6) ''ua_class_code'' = JStr ''crawler''"
    by (simp_all add: k ua_field_names_distinct crawler_fill_fields)
  then show ?thesis using b(5) crawler_tables[OF assms(1) q, of E _ _ _ ru opts] by simp
qed

theorem crawler_is_final_witness:
  "ua_googlebot_android \<noteq> [] \<and>
   (\<exists>row \<in> set (data (udger_crawler_list demo_data)).
      cell (udger_crawler_list demo_data) row ''ua_string'' = JStr ua_googlebot_android) \<and>
   (\<exists>res j. parseUa demo_env demo_data demo_default_ua (Some ua_googlebot_android) opts_classic = Inr (res, j) \<and>
      oget res ''ua_class'' = JStr ''Crawler'' \<and> oget res ''ua_class_code'' = JStr ''crawler'')"
proof -
  have a: "ua_googlebot_android \<noteq> []" by (simp add: demo_strings)
  have b: "\<exists>row \<in> set (data (udger_crawler_list demo_data)).
      cell (udger_crawler_list demo_data) row ''ua_string'' = JStr ua_googlebot_android"
    by (simp add: demo_tables demo_strings cell_def col_def arr_at_def)
  show ?thesis
    using crawler_is_final [OF a b, of demo_env demo_default_ua opts_classic] a b by blast
qed

text \<open>
  The claim as stated fails: the user agent of the Googlebot smartphone crawler is a row of
  udger_crawler_list, the crawler row has no OS column, and the result's \<^verbatim>\<open>os\<close> field,
  empty by default, is filled by the OS-regex stage.
\<close>

theorem crawler_is_final_counterexample:
  "row_googlebot_android \<in> set (data (udger_crawler_list demo_data)) \<and>
   cell (udger_crawler_list demo_data) row_googlebot_android ''ua_string'' = JStr ua_googlebot_android \<and>
   oget demo_default_ua ''os'' = JStr [] \<and>
   udger_field (parseUa demo_env demo_data demo_default_ua (Some ua_googlebot_android) opts_classic) ''os''
     = Inr (JStr ''Android'')"
  using demo_crawler_os
  by (simp add: demo_tables demo_strings cell_def col_def arr_at_def row_googlebot_android_def
      demo_default_ua_def)

text \<open>
  Claim C5. The client/OS relation stage runs when \<^verbatim>\<open>os_id == 0 && client_id != 0\<close>.
  The OS fields are then meant to come from the row of udger_os_list named by the row of
  udger_client_os_relation for the client. The code does not find that row: the arrow
  function of its search names the column parameter \<^verbatim>\<open>client_id\<close>, which hides the
  client's id, so the search is for a row whose \<^verbatim>\<open>client_id\<close> cell equals the index
  of that column. And when the search finds a row \<^verbatim>\<open>q\<close>, the code hands
  \<^verbatim>\<open>r\<close> to \<^verbatim>\<open>map\<close>, which after an OS loop without a match is the last row
  of udger_os_regex. On the small dataset Internet Explorer (client id 5) is related to
  row 2 of udger_os_list, Windows; the user agent \<^verbatim>\<open>Mozilla/4.0 (compatible; MSIE 6.0)\<close>
  matches no OS regex, the search finds nothing and the result's OS stays empty. With a
  relation row for client 0 in place of the one for client 5, the search finds that row
  and the result's OS is Android, the row of udger_os_list that column 1
  (\<^verbatim>\<open>word_id\<close>) of the last OS regex row happens to index.
\<close>

theorem os_relation_misses_client_row:
  "findBy (udger_client_os_relation demo_data)
     (\<lambda>row. cell (udger_client_os_relation demo_data) row ''client_id'' = JNum 5) = JArr [JNum 5, JNum 2] \<and>
   cell (udger_client_os_relation demo_data) [JNum 5, JNum 2] ''os_id'' = JNum 2 \<and>
   cell (udger_os_list demo_data) (data (udger_os_list demo_data) ! 2) ''name'' = JStr ''Windows'' \<and>
   udger_field (parseUa demo_env demo_data demo_default_ua (Some ua_msie) opts_classic) ''os''
     = Inr (JStr []) \<and>
   findBy (udger_client_os_relation demo_data_relation0)
     (\<lambda>row. cell (udger_client_os_relation demo_data_relation0) row ''client_id'' = JNum 5) = JUndefined \<and>
   udger_field (parseUa demo_env demo_data_relation0 demo_default_ua (Some ua_msie) opts_classic) ''os''
     = Inr (JStr ''Android'')"
proof -
  have u: "ua_msie \<noteq> []" by (simp add: demo_strings)
  let ?st0 = "ua_init (copy_obj demo_default_ua) opts_classic ua_msie"
  let ?e = "[Some ''MSIE 6.0'', Some ''6.0'']"
  obtain r where r: "client_join demo_data (JArr row_msie) = Inr r" "oget r ''client_id'' = JNum 5"
    using demo_client_join_msie by blast
  let ?st1 = "client_fill opts_classic ?e (?st0\<lparr>r_var := JArr row_msie\<rparr>) r"
  let ?st2 = "?st1\<lparr>r_var := JArr row_os_android\<rparr>"
  have ids: "client_id ?st2 = JNum 5" "os_id ?st2 = JNum 0"
    by (simp_all add: client_fill_ids r(2) ua_init_def)
  have o: "oget (rua ?st2) ''os'' = JStr []"
    by (simp add: client_fill_os ua_init_os os_field_names_def demo_default_os)
  have 1: "crawler_or_client demo_env demo_data opts_classic ua_msie ?st0 = Inr ?st1"
    using demo_not_crawlers(3) client_loop_first[OF demo_client_msie] r(1)
    by (simp add: crawler_or_client_def findBy_def Let_def client_found_def)
  have 2: "os_loop demo_env demo_data opts_classic ua_msie (data (udger_os_regex demo_data)) ?st1 = Inr ?st2"
    using os_loop_none[OF demo_os_none_msie] by (simp add: demo_last_os_row)
  have 3: "os_relation demo_data ?st2 = Inr ?st2"
    unfolding os_relation_def by (simp add: demo_relation_search(1))
  from os_fields_final[OF u 1 2 3] obtain res j where
    p: "parseUa demo_env demo_data demo_default_ua (Some ua_msie) opts_classic = Inr (res, j)"
    and k: "\<forall>k \<in> set os_field_names. oget res k = oget (rua ?st2) k"
    by blast
  have "oget res ''os'' = oget (rua ?st2) ''os''" using k by (simp add: os_field_names_def)
  then have a: "udger_field (parseUa demo_env demo_data demo_default_ua (Some ua_msie) opts_classic) ''os''
     = Inr (JStr [])"
    using p o by (simp add: udger_field_def)
  let ?D = demo_data_relation0
  have cm: "find (\<lambda>row. re_match demo_env (cell (udger_client_regex ?D) row ''regstring'') ua_msie \<noteq> None)
               (data (udger_client_regex ?D)) = Some row_msie"
    "re_match demo_env (cell (udger_client_regex ?D) row_msie ''regstring'') ua_msie = Some ?e"
    using demo_client_msie by (simp_all add: demo_relation0_tables)
  have d1: "crawler_or_client demo_env ?D opts_classic ua_msie ?st0 = Inr ?st1"
    using demo_not_crawlers(3) client_loop_first[OF cm] r(1)
    by (simp add: crawler_or_client_def findBy_def Let_def client_found_def demo_relation0_tables)
  have d2: "os_loop demo_env ?D opts_classic ua_msie (data (udger_os_regex ?D)) ?st1 = Inr ?st2"
    using 2 by (simp add: os_loop_tables[of ?D demo_data] demo_relation0_tables)
  obtain r' where r': "os_relation_join ?D (JArr row_os_android) = Inr r'" "oget r' ''name'' = JStr ''Android''"
    using demo_os_relation_join0 by blast
  have d3: "os_relation ?D ?st2 = Inr (os_relation_fill ?st2 r')"
    unfolding os_relation_def ids
    using r'(1) by (simp add: loose_eq_num_def demo_relation_search(2))
  from os_fields_final[OF u d1 d2 d3] obtain res' j' where
    p': "parseUa demo_env ?D demo_default_ua (Some ua_msie) opts_classic = Inr (res', j')"
    and k': "\<forall>k \<in> set os_field_names. oget res' k = oget (rua (os_relation_fill ?st2 r')) k"
    by blast
  have "oget res' ''os'' = oget (rua (os_relation_fill ?st2 r')) ''os''" using k' by (simp add: os_field_names_def)
  also have "\<dots> = JStr ''Android''"
    by (simp add: os_relation_fill_def Let_def os_fields_values js_or_def r'(2))
  finally have b: "udger_field (parseUa demo_env ?D demo_default_ua (Some ua_msie) opts_classic) ''os''
     = Inr (JStr ''Android'')"
    using p' by (simp add: udger_field_def)
  show ?thesis using a b demo_relation_msie demo_relation_search(3) by simp
qed

subsection \<open>Objects that agree except for one property\<close>

lemma map_fst_oset:
  "map fst (oset x k v) = (if k \<in> set (map fst x) then map fst x else map fst x @ [k])"
  by (induction x) (auto simp: rev_image_eqI)

lemma agree_refl: "agree_except k0 x x"
  by (simp add: agree_except_def)

lemma agree_oset:
  "agree_except k0 x y \<Longrightarrow> agree_except k0 (oset x k v) (oset y k v)"
  by (simp add: agree_except_def map_fst_oset oget_oset)

lemma agree_oset_differ:
  "agree_except k0 x y \<Longrightarrow> agree_except k0 (oset x k0 v) (oset y k0 w)"
  by (simp add: agree_except_def map_fst_oset oget_oset)

lemma agree_assign:
  "agree_except k0 x y \<Longrightarrow> agree_except k0 (assign_or_empty x r lines) (assign_or_empty y r lines)"
  unfolding assign_or_empty_def
  by (induction lines arbitrary: x y) (simp_all add: agree_oset)

lemma agree_spread:
  "agree_except k0 x y \<Longrightarrow> agree_except k0 (spread x b) (spread y b)"
  unfolding spread_def
  by (induction b arbitrary: x y) (simp_all add: agree_oset)

lemma agree_oget: "agree_except k0 x y \<Longrightarrow> k \<noteq> k0 \<Longrightarrow> oget x k = oget y k"
  by (simp add: agree_except_def)

lemma agree_set_path:
  "agree_except k0 x y \<Longrightarrow> s \<noteq> k0 \<Longrightarrow> agree_except k0 (set_path x (s # ps) v) (set_path y (s # ps) v)"
  by (cases ps) (simp_all add: agree_oset agree_oget)

lemma agree_dotProp_set:
  "agree_except k0 x y \<Longrightarrow> path_segments p = s # ps \<Longrightarrow> s \<noteq> k0 \<Longrightarrow>
   agree_except k0 (dotProp_set x p v) (dotProp_set y p v)"
  by (simp add: dotProp_set_def agree_set_path)

lemma agree_set_truthy:
  "agree_except k0 j j' \<Longrightarrow> agree_except k0 src src' \<Longrightarrow>
   \<forall>l \<in> set lines. snd l \<noteq> k0 \<and> (\<exists>s ps. path_segments (fst l) = s # ps \<and> s \<noteq> k0) \<Longrightarrow>
   agree_except k0 (set_truthy j src lines) (set_truthy j' src' lines)"
  unfolding set_truthy_def
proof (induction lines arbitrary: j j')
  case Nil
  then show ?case by simp
next
  case (Cons l lines)
  have e: "oget src (snd l) = oget src' (snd l)" using Cons.prems by (simp add: agree_oget)
  obtain s ps where p: "path_segments (fst l) = s # ps" "s \<noteq> k0" using Cons.prems(3) by auto
  have "agree_except k0
      (if truthy (oget src (snd l)) then dotProp_set j (fst l) (oget src (snd l)) else j)
      (if truthy (oget src' (snd l)) then dotProp_set j' (fst l) (oget src' (snd l)) else j')"
    using Cons.prems(1) e p by (simp add: agree_dotProp_set)
  from Cons.IH[OF this Cons.prems(2)] Cons.prems(3) show ?case by simp
qed

text \<open>The stages of parseIp write no \<open>ip\<close> property and read none.\<close>

lemma agree_ip_unrecognized:
  "agree_ip st st' \<Longrightarrow> agree_ip (ip_unrecognized opts st) (ip_unrecognized opts st')"
  by (simp add: agree_ip_def ip_unrecognized_def Let_def agree_dotProp_set path_segments_def
      spread2 oget_oset agree_oset)

lemma agree_datacenter_fill:
  "agree_ip st st' \<Longrightarrow> agree_ip (datacenter_fill opts st r) (datacenter_fill opts st' r)"
  by (simp add: agree_ip_def datacenter_fill_def Let_def agree_assign agree_set_truthy path_segments_def)

lemma agree_ip_udger:
  "agree_except ''ip'' x y \<Longrightarrow> agree_except ''ip'' (ip_udger x r) (ip_udger y r)"
  by (simp add: ip_udger_def Let_def agree_assign agree_oset)

lemma agree_ip_json:
  assumes "agree_except ''ip'' j j'" and "agree_except ''ip'' src src'"
  shows "agree_except ''ip'' (ip_json opts j src r) (ip_json opts j' src' r)"
proof -
  have e: "oget src ''crawler_respect_robotstxt'' = oget src' ''crawler_respect_robotstxt''"
    "oget src ''crawler_category_code'' = oget src' ''crawler_category_code''"
    using assms(2) by (simp_all add: agree_oget)
  show ?thesis
    unfolding ip_json_def Let_def e
    using assms
    by (simp add: agree_set_truthy agree_dotProp_set path_segments_def)
qed

lemma agree_ip_fill:
  "agree_ip st st' \<Longrightarrow> agree_ip (ip_fill opts st r) (ip_fill opts st' r)"
  by (simp add: agree_ip_def ip_fill_def Let_def agree_ip_udger agree_ip_json)

subsection \<open>The run of parseIp\<close>

lemma oget_set_path_other: "s \<noteq> k0 \<Longrightarrow> oget (set_path x (s # ps) v) k0 = oget x k0"
  by (cases ps) (simp_all add: oget_oset)

lemma oget_dotProp_set_other:
  "path_segments p = s # ps \<Longrightarrow> s \<noteq> k0 \<Longrightarrow> oget (dotProp_set x p v) k0 = oget x k0"
  by (simp add: dotProp_set_def oget_set_path_other)

lemma oget_set_truthy_other:
  "\<forall>l \<in> set lines. \<exists>s ps. path_segments (fst l) = s # ps \<and> s \<noteq> k0 \<Longrightarrow>
   oget (set_truthy j src lines) k0 = oget j k0"
  unfolding set_truthy_def
  by (induction lines arbitrary: j) (auto simp: oget_dotProp_set_other)

text \<open>The echoed input stays in the \<open>ip\<close> property of both results.\<close>

lemma ip_udger_keeps_ip: "oget (ip_udger x r) ''ip'' = oget x ''ip''"
  by (simp add: ip_udger_def Let_def oget_assign_other oget_oset)

lemma ip_json_keeps_ip: "oget (ip_json opts j src r) ''ip'' = oget j ''ip''"
  by (simp add: ip_json_def Let_def oget_set_truthy_other oget_dotProp_set_other path_segments_def)

lemma ip_fill_keeps_ip:
  "oget (fst (ip_fill opts st r)) ''ip'' = oget (fst st) ''ip''"
  "oget (snd (ip_fill opts st r)) ''ip'' = oget (snd st) ''ip''"
  by (simp_all add: ip_fill_def Let_def ip_udger_keeps_ip ip_json_keeps_ip)

lemma ip_unrecognized_keeps_ip:
  "oget (fst (ip_unrecognized opts st)) ''ip'' = oget (fst st) ''ip''"
  "oget (snd (ip_unrecognized opts st)) ''ip'' = oget (snd st) ''ip''"
  by (simp_all add: ip_unrecognized_def Let_def spread2 oget_oset oget_dotProp_set_other path_segments_def)

lemma datacenter_fill_keeps_ip:
  "oget (fst (datacenter_fill opts st r)) ''ip'' = oget (fst st) ''ip''"
  "oget (snd (datacenter_fill opts st r)) ''ip'' = oget (snd st) ''ip''"
  by (simp_all add: datacenter_fill_def Let_def oget_assign_other oget_set_truthy_other path_segments_def)

lemma ip_init_ip:
  "oget (fst (ip_init r0 opts ip0 v)) ''ip'' = JStr ip0"
  "oget (snd (ip_init r0 opts ip0 v)) ''ip'' = JStr ip0"
  by (simp_all add: ip_init_def Let_def oget_oset dotProp_set_def path_segments_def)

lemma agree_ip_init: "agree_ip (ip_init r0 opts a v) (ip_init r0 opts b v)"
proof -
  have 1: "agree_except ''ip'' (oset (oset r0 ''ip'' (JStr a)) ''ip_ver'' v) (oset (oset r0 ''ip'' (JStr b)) ''ip_ver'' v)"
    by (intro agree_oset agree_oset_differ agree_refl)
  have 2: "agree_except ''ip'' (dotProp_set [] ''ip'' (JStr a)) (dotProp_set [] ''ip'' (JStr b))"
    by (simp add: dotProp_set_def path_segments_def agree_except_def)
  have "agree_except ''ip'' (dotProp_set (dotProp_set [] ''ip'' (JStr a)) ''version'' v)
      (dotProp_set (dotProp_set [] ''ip'' (JStr b)) ''version'' v)"
    using 2 by (simp add: agree_dotProp_set path_segments_def)
  then show ?thesis using 1 2 by (simp add: agree_ip_def ip_init_def Let_def)
qed

text \<open>The run of parseIp on a non-empty string.\<close>

lemma parseIp_run:
  assumes "ip0 \<noteq> []"
  shows "\<exists>st1 st2.
           ip_lookup D opts (canonical E ip0) (ip_init (copy_obj ri) opts ip0 (getIpVersion E ip0)) = Inr st1 \<and>
           datacenter E D opts (getIpVersion E ip0) (canonical E ip0) st1 = Inr st2 \<and>
           parseIp E D ri (Some ip0) opts = Inr st2"
proof -
  obtain st1 where 1: "ip_lookup D opts (canonical E ip0) (ip_init (copy_obj ri) opts ip0 (getIpVersion E ip0)) = Inr st1"
    using ip_lookup_ok by blast
  obtain st2 where 2: "datacenter E D opts (getIpVersion E ip0) (canonical E ip0) st1 = Inr st2"
    using datacenter_ok by blast
  show ?thesis using assms 1 2 by (simp add: parseIp_def Let_def)
qed

lemma ip_lookup_keeps_ip:
  assumes "ip_lookup D opts c st = Inr st1"
  shows "oget (fst st1) ''ip'' = oget (fst st) ''ip'' \<and> oget (snd st1) ''ip'' = oget (snd st) ''ip''"
proof (cases "truthy (findBy (udger_ip_list D) (\<lambda>row. cell (udger_ip_list D) row ''ip'' = JStr c))")
  case True
  obtain r where "ip_found D opts (findBy (udger_ip_list D) (\<lambda>row. cell (udger_ip_list D) row ''ip'' = JStr c)) st
      = Inr (ip_fill opts st r)"
    using ip_found_ok by blast
  then have "st1 = ip_fill opts st r" using assms True by (simp add: ip_lookup_def Let_def)
  then show ?thesis by (simp add: ip_fill_keeps_ip)
next
  case False
  then have "st1 = ip_unrecognized opts st" using assms by (simp add: ip_lookup_def Let_def)
  then show ?thesis by (simp add: ip_unrecognized_keeps_ip)
qed

lemma datacenter_keeps_ip:
  assumes "datacenter E D opts v c st = Inr st2"
  shows "oget (fst st2) ''ip'' = oget (fst st) ''ip'' \<and> oget (snd st2) ''ip'' = oget (snd st) ''ip''"
proof -
  have f: "datacenter_found D opts t q st = Inr st2 \<Longrightarrow> ?thesis" for t q
    using datacenter_found_ok[of D opts t q st] by (auto simp: datacenter_fill_keeps_ip)
  show ?thesis using assms f by (auto simp: datacenter_def Let_def split: if_splits)
qed

lemma agree_ip_lookup:
  assumes "agree_ip st st'" "ip_lookup D opts c st = Inr x" "ip_lookup D opts c st' = Inr y"
  shows "agree_ip x y"
proof (cases "truthy (findBy (udger_ip_list D) (\<lambda>row. cell (udger_ip_list D) row ''ip'' = JStr c))")
  case True
  obtain r where "ip_join D (findBy (udger_ip_list D) (\<lambda>row. cell (udger_ip_list D) row ''ip'' = JStr c)) = Inr r"
    using ip_join_ok by blast
  then have "x = ip_fill opts st r" "y = ip_fill opts st' r"
    using assms(2,3) True by (simp_all add: ip_lookup_def Let_def ip_found_def)
  then show ?thesis using assms(1) by (simp add: agree_ip_fill)
next
  case False
  then have "x = ip_unrecognized opts st" "y = ip_unrecognized opts st'"
    using assms(2,3) by (simp_all add: ip_lookup_def Let_def)
  then show ?thesis using assms(1) by (simp add: agree_ip_unrecognized)
qed

lemma agree_datacenter:
  assumes "agree_ip st st'" "datacenter E D opts v c st = Inr x" "datacenter E D opts v c st' = Inr y"
  shows "agree_ip x y"
proof -
  have f: "datacenter_found D opts t q st = Inr x \<Longrightarrow> datacenter_found D opts t q st' = Inr y \<Longrightarrow> agree_ip x y" for t q
  proof -
    assume a: "datacenter_found D opts t q st = Inr x" "datacenter_found D opts t q st' = Inr y"
    obtain r where "datacenter_join D t q = Inr r" using datacenter_join_ok by blast
    then have "x = datacenter_fill opts st r" "y = datacenter_fill opts st' r"
      using a by (simp_all add: datacenter_found_def)
    then show "agree_ip x y" using assms(1) by (simp add: agree_datacenter_fill)
  qed
  show ?thesis using assms f by (auto simp: datacenter_def Let_def split: if_splits)
qed

lemma parseIp_echo:
  assumes "ip0 \<noteq> []"
  shows "\<exists>res j. parseIp E D ri (Some ip0) opts = Inr (res, j) \<and> oget res ''ip'' = JStr ip0 \<and> oget j ''ip'' = JStr ip0"
proof -
  from parseIp_run[OF assms, of D opts E ri] obtain st1 st2 where
    s: "ip_lookup D opts (canonical E ip0) (ip_init (copy_obj ri) opts ip0 (getIpVersion E ip0)) = Inr st1"
       "datacenter E D opts (getIpVersion E ip0) (canonical E ip0) st1 = Inr st2"
       "parseIp E D ri (Some ip0) opts = Inr st2"
    by blast
  have "oget (fst st2) ''ip'' = JStr ip0 \<and> oget (snd st2) ''ip'' = JStr ip0"
    using ip_lookup_keeps_ip[OF s(1)] datacenter_keeps_ip[OF s(2)] by (simp add: ip_init_ip)
  then show ?thesis using s(3) by (cases st2) auto
qed

lemma parseIp_invalid:
  assumes "ip0 \<noteq> []" and "getIpVersion E ip0 \<noteq> JNum 4" and "getIpVersion E ip0 \<noteq> JNum 6"
  shows "parseIp E D ri (Some ip0) opts
           = ip_lookup D opts ip0 (ip_init (copy_obj ri) opts ip0 (getIpVersion E ip0))"
proof -
  obtain st1 where 1: "ip_lookup D opts ip0 (ip_init (copy_obj ri) opts ip0 (getIpVersion E ip0)) = Inr st1"
    using ip_lookup_ok by blast
  have "datacenter E D opts (getIpVersion E ip0) ip0 st1 = Inr st1"
    using assms(2,3) by (simp add: datacenter_def)
  then show ?thesis using assms 1 by (simp add: parseIp_def Let_def canonical_def)
qed

lemma ip_lookup_miss:
  "find (\<lambda>row. cell (udger_ip_list D) row ''ip'' = JStr c) (data (udger_ip_list D)) = None \<Longrightarrow>
   ip_lookup D opts c st = Inr (ip_unrecognized opts st)"
  by (simp add: ip_lookup_def findBy_def)

lemma ip_unrecognized_init:
  "ip_unrecognized opts (ip_init r0 opts ip0 v) =
     (spread r0 [(''ip'', JStr ip0), (''ip_ver'', v), (''ip_classification'', JStr ''Unrecognized''),
                 (''ip_classification_code'', JStr ''unrecognized'')],
      if full opts then
        [(''ip'', JStr ip0), (''version'', v),
         (''classification'', JObj [(''name'', JStr ''Unrecognized''), (''code'', JStr ''unrecognized'')])]
      else [(''ip'', JStr ip0), (''classification'', JStr ''unrecognized'')])"
  by (simp add: ip_unrecognized_def ip_init_def Let_def spread_def oget_oset dotProp_set_def path_segments_def)

lemma demo_ip_versions:
  "getIpVersion demo_env ''::1'' = JNum 6" "getIpVersion demo_env ''0:0:0:0:0:0:0:1'' = JNum 6"
  "inetNtop demo_env (inetPton demo_env ''0:0:0:0:0:0:0:1'') = ''::1''"
  "inetNtop demo_env (inetPton demo_env ''::1'') = ''::1''"
  "getIpVersion demo_env ''not-an-ip'' = JNum 0"
  by (simp_all add: demo_env_def)

lemma demo_ip_miss:
  "find (\<lambda>row. cell (udger_ip_list demo_data) row ''ip'' = JStr ''not-an-ip'') (data (udger_ip_list demo_data)) = None"
  by (simp add: demo_tables cell_def col_def arr_at_def)

section \<open>The claims about parseIp\<close>

text \<open>
  Claim C2. Two texts of one IPv6 address (both of version 6 for \<^verbatim>\<open>getIpVersion\<close>, with
  the same compressed form) are looked up under the same canonical text, so every stage
  gives them the same values. The results are not identical in every field: the input is
  echoed into \<^verbatim>\<open>ip\<close> before it is canonicalized. What holds: the flat results have the
  same fields in the same order with the same values except for \<^verbatim>\<open>ip\<close>, which holds
  each input as it was given, and so have the nested results.
\<close>

theorem ipv6_forms_agree_except_echo:
  assumes "a \<noteq> []" and "b \<noteq> []"
      and "getIpVersion E a = JNum 6" and "getIpVersion E b = JNum 6"
      and "inetNtop E (inetPton E a) = inetNtop E (inetPton E b)"
  shows "\<exists>ra ja rb jb.
           parseIp E D ri (Some a) opts = Inr (ra, ja) \<and>
           parseIp E D ri (Some b) opts = Inr (rb, jb) \<and>
           agree_except ''ip'' ra rb \<and> agree_except ''ip'' ja jb \<and>
           oget ra ''ip'' = JStr a \<and> oget ja ''ip'' = JStr a \<and>
           oget rb ''ip'' = JStr b \<and> oget jb ''ip'' = JStr b"
proof -
  have c: "canonical E a = canonical E b" using assms(3-5) by (simp add: canonical_def)
  from parseIp_run[OF assms(1), of D opts E ri] obtain x1 x2 where
    x: "ip_lookup D opts (canonical E a) (ip_init (copy_obj ri) opts a (JNum 6)) = Inr x1"
       "datacenter E D opts (JNum 6) (canonical E a) x1 = Inr x2"
       "parseIp E D ri (Some a) opts = Inr x2"
    using assms(3) by auto
  from parseIp_run[OF assms(2), of D opts E ri] obtain y1 y2 where
    y: "ip_lookup D opts (canonical E a) (ip_init (copy_obj ri) opts b (JNum 6)) = Inr y1"
       "datacenter E D opts (JNum 6) (canonical E a) y1 = Inr y2"
       "parseIp E D ri (Some b) opts = Inr y2"
    using assms(4) c by auto
  have "agree_ip x1 y1" using agree_ip_lookup[OF agree_ip_init x(1) y(1)] .
  then have g: "agree_ip x2 y2" using agree_datacenter x(2) y(2) by blast
  have ea: "oget (fst x2) ''ip'' = JStr a \<and> oget (snd x2) ''ip'' = JStr a"
    using ip_lookup_keeps_ip[OF x(1)] datacenter_keeps_ip[OF x(2)] by (simp add: ip_init_ip)
  have eb: "oget (fst y2) ''ip'' = JStr b \<and> oget (snd y2) ''ip'' = JStr b"
    using ip_lookup_keeps_ip[OF y(1)] datacenter_keeps_ip[OF y(2)] by (simp add: ip_init_ip)
  show ?thesis using x(3) y(3) g ea eb by (cases x2; cases y2) (auto simp: agree_ip_def)
qed

theorem ipv6_forms_agree_except_echo_witness:
  "''::1'' \<noteq> [] \<and> ''0:0:0:0:0:0:0:1'' \<noteq> [] \<and>
   getIpVersion demo_env ''::1'' = JNum 6 \<and> getIpVersion demo_env ''0:0:0:0:0:0:0:1'' = JNum 6 \<and>
   inetNtop demo_env (inetPton demo_env ''::1'') = inetNtop demo_env (inetPton demo_env ''0:0:0:0:0:0:0:1'') \<and>
   (\<exists>ra ja rb jb.
      parseIp demo_env demo_data demo_default_ip (Some ''::1'') opts_classic = Inr (ra, ja) \<and>
      parseIp demo_env demo_data demo_default_ip (Some ''0:0:0:0:0:0:0:1'') opts_classic = Inr (rb, jb) \<and>
      agree_except ''ip'' ra rb \<and> agree_except ''ip'' ja jb \<and>
      oget ra ''ip'' = JStr ''::1'' \<and> oget rb ''ip'' = JStr ''0:0:0:0:0:0:0:1'')"
  using ipv6_forms_agree_except_echo [of "''::1''" "''0:0:0:0:0:0:0:1''" demo_env demo_data demo_default_ip opts_classic]
  by (simp add: demo_ip_versions) blast

text \<open>
  The claim as stated fails: \<open>::1\<close> and \<open>0:0:0:0:0:0:0:1\<close> are the same address, and the
  two results differ in the field \<^verbatim>\<open>ip\<close>.
\<close>

theorem ipv6_forms_agree_except_echo_counterexample:
  "getIpVersion demo_env ''::1'' = JNum 6 \<and> getIpVersion demo_env ''0:0:0:0:0:0:0:1'' = JNum 6 \<and>
   inetNtop demo_env (inetPton demo_env ''::1'') = inetNtop demo_env (inetPton demo_env ''0:0:0:0:0:0:0:1'') \<and>
   udger_field (parseIp demo_env demo_data demo_default_ip (Some ''::1'') opts_classic) ''ip'' = Inr (JStr ''::1'') \<and>
   udger_field (parseIp demo_env demo_data demo_default_ip (Some ''0:0:0:0:0:0:0:1'') opts_classic) ''ip''
     = Inr (JStr ''0:0:0:0:0:0:0:1'') \<and>
   parseIp demo_env demo_data demo_default_ip (Some ''::1'') opts_classic
     \<noteq> parseIp demo_env demo_data demo_default_ip (Some ''0:0:0:0:0:0:0:1'') opts_classic"
proof -
  obtain ra ja where a: "parseIp demo_env demo_data demo_default_ip (Some ''::1'') opts_classic = Inr (ra, ja)"
    "oget ra ''ip'' = JStr ''::1''"
    using parseIp_echo[of "''::1''" demo_env demo_data demo_default_ip opts_classic] by auto
  obtain rb jb where b: "parseIp demo_env demo_data demo_default_ip (Some ''0:0:0:0:0:0:0:1'') opts_classic = Inr (rb, jb)"
    "oget rb ''ip'' = JStr ''0:0:0:0:0:0:0:1''"
    using parseIp_echo[of "''0:0:0:0:0:0:0:1''" demo_env demo_data demo_default_ip opts_classic] by auto
  have "ra \<noteq> rb" using a(2) b(2) by auto
  then show ?thesis using a b by (simp add: udger_field_def demo_ip_versions)
qed

text \<open>
  Claim C3. For a string that \<^verbatim>\<open>getIpVersion\<close> takes for neither version 4 nor 6, nothing
  is canonicalized and no datacenter range is searched: the result is that of the lookup
  of the raw string in udger_ip_list. The lookup itself is not skipped, and when it finds no
  row the result holds more than the echoed input: \<^verbatim>\<open>ip_ver\<close> with the value
  \<^verbatim>\<open>getIpVersion\<close> gave, and the classification \<^verbatim>\<open>Unrecognized\<close> / \<^verbatim>\<open>unrecognized\<close>.
\<close>

theorem invalid_ip_result:
  assumes "ip0 \<noteq> []" and "getIpVersion E ip0 \<noteq> JNum 4" and "getIpVersion E ip0 \<noteq> JNum 6"
  shows "parseIp E D ri (Some ip0) opts
           = ip_lookup D opts ip0 (ip_init (copy_obj ri) opts ip0 (getIpVersion E ip0)) \<and>
         (find (\<lambda>row. cell (udger_ip_list D) row ''ip'' = JStr ip0) (data (udger_ip_list D)) = None \<longrightarrow>
            parseIp E D ri (Some ip0) opts =
              Inr (spread (copy_obj ri)
                     [(''ip'', JStr ip0), (''ip_ver'', getIpVersion E ip0),
                      (''ip_classification'', JStr ''Unrecognized''),
                      (''ip_classification_code'', JStr ''unrecognized'')],
                   if full opts then
                     [(''ip'', JStr ip0), (''version'', getIpVersion E ip0),
                      (''classification'',
                       JObj [(''name'', JStr ''Unrecognized''), (''code'', JStr ''unrecognized'')])]
                   else [(''ip'', JStr ip0), (''classification'', JStr ''unrecognized'')]))"
  using parseIp_invalid[OF assms] by (simp add: ip_lookup_miss ip_unrecognized_init)

theorem invalid_ip_result_witness:
  "''not-an-ip'' \<noteq> [] \<and> getIpVersion demo_env ''not-an-ip'' \<noteq> JNum 4 \<and>
   getIpVersion demo_env ''not-an-ip'' \<noteq> JNum 6 \<and>
   find (\<lambda>row. cell (udger_ip_list demo_data) row ''ip'' = JStr ''not-an-ip'') (data (udger_ip_list demo_data)) = None \<and>
   parseIp demo_env demo_data [] (Some ''not-an-ip'') opts_classic =
     Inr ([(''ip'', JStr ''not-an-ip''), (''ip_ver'', JNum 0), (''ip_classification'', JStr ''Unrecognized''),
           (''ip_classification_code'', JStr ''unrecognized'')],
          [(''ip'', JStr ''not-an-ip''), (''classification'', JStr ''unrecognized'')])"
proof -
  have h: "''not-an-ip'' \<noteq> []" "getIpVersion demo_env ''not-an-ip'' \<noteq> JNum 4"
    "getIpVersion demo_env ''not-an-ip'' \<noteq> JNum 6"
    by (simp_all add: demo_ip_versions)
  have "parseIp demo_env demo_data [] (Some ''not-an-ip'') opts_classic =
      Inr (spread (copy_obj [])
             [(''ip'', JStr ''not-an-ip''), (''ip_ver'', getIpVersion demo_env ''not-an-ip''),
              (''ip_classification'', JStr ''Unrecognized''),
              (''ip_classification_code'', JStr ''unrecognized'')],
           if full opts_classic then
             [(''ip'', JStr ''not-an-ip''), (''version'', getIpVersion demo_env ''not-an-ip''),
              (''classification'',
               JObj [(''name'', JStr ''Unrecognized''), (''code'', JStr ''unrecognized'')])]
           else [(''ip'', JStr ''not-an-ip''), (''classification'', JStr ''unrecognized'')])"
    using invalid_ip_result [OF h, of demo_data "[]" opts_classic] demo_ip_miss by blast
  then show ?thesis
    using h demo_ip_miss by (simp add: demo_ip_versions opts_classic_def spread_def copy_obj_def)
qed

text \<open>
  The claim as stated fails: for a string that is no address the field
  \<^verbatim>\<open>ip_classification\<close>, empty by default, is \<^verbatim>\<open>Unrecognized\<close> in the result.
\<close>

theorem invalid_ip_result_counterexample:
  "getIpVersion demo_env ''not-an-ip'' = JNum 0 \<and>
   oget demo_default_ip ''ip_classification'' = JStr [] \<and>
   udger_field (parseIp demo_env demo_data demo_default_ip (Some ''not-an-ip'') opts_classic) ''ip_classification''
     = Inr (JStr ''Unrecognized'')"
proof -
  have "parseIp demo_env demo_data demo_default_ip (Some ''not-an-ip'') opts_classic
      = Inr (ip_unrecognized opts_classic (ip_init (copy_obj demo_default_ip) opts_classic ''not-an-ip'' (JNum 0)))"
    using parseIp_invalid[of "''not-an-ip''" demo_env demo_data demo_default_ip opts_classic]
    by (simp add: demo_ip_versions ip_lookup_miss demo_ip_miss)
  then show ?thesis
    by (simp add: udger_field_def ip_unrecognized_def Let_def spread2 oget_oset demo_ip_versions
        demo_default_ip_def)
qed

section \<open>Foreign ids that name no row\<close>

subsection \<open>Joins on a foreign id that names no row\<close>

lemma row_at_undefined: "row_at t JUndefined = JUndefined"
  by (simp add: row_at_def arr_at_def)

lemma read_keys_other:
  "read_keys t row keys acc = Inr m \<Longrightarrow> k \<notin> set keys \<Longrightarrow> oget m k = oget acc k"
proof (induction keys arbitrary: acc)
  case Nil
  then show ?case by simp
next
  case (Cons key keys)
  from Cons.prems(1) obtain v where
    "get_prop row (col t key) = Inr v" "read_keys t row keys (oset acc key v) = Inr m"
    by (auto simp: thenE_def split: sum.splits)
  from Cons.IH[OF this(2)] Cons.prems(2) show ?case by (simp add: oget_oset)
qed

lemma map_row_other:
  "map_row t row keys [] = Inr m \<Longrightarrow> k \<notin> set keys \<Longrightarrow> oget m k = JUndefined"
  using read_keys_other[of t row keys "[]" _ k]
  by (auto simp: map_row_def thenE_def split: if_splits sum.splits)

lemma crawler_join_dangling:
  assumes "row_at (udger_crawler_class D) (cell (udger_crawler_list D) q ''class_id'') = JUndefined"
  shows "\<exists>r. crawler_join D (JArr q) = Inr r \<and>
           oget r ''crawler_classification'' = JUndefined \<and>
           oget r ''crawler_classification_code'' = JUndefined"
  using assms
  by (simp add: crawler_join_def map_row_array crawler_keys_def cell_def join_dangling
      oget_oset oget_odelete)

lemma client_join_dangling:
  assumes "row_at (udger_client_list D) (cell (udger_client_regex D) row ''client_id'') = JUndefined"
  shows "client_join D (JArr row) =
           Inr [(''client_id'', cell (udger_client_regex D) row ''client_id''),
                (''regstring'', cell (udger_client_regex D) row ''regstring'')]"
  using assms
  by (simp add: client_join_def map_row_array cell_def join_dangling row_at_undefined)

lemma os_join_dangling:
  assumes "row_at (udger_os_list D) (cell (udger_os_regex D) row ''os_id'') = JUndefined"
  shows "os_join D (JArr row) =
           Inr [(''os_id'', cell (udger_os_regex D) row ''os_id''),
                (''regstring'', cell (udger_os_regex D) row ''regstring'')]"
  using assms
  by (simp add: os_join_def map_row_array cell_def join_dangling)

lemma deviceclass_join_dangling:
  assumes "row_at (udger_deviceclass_list D) (cell (udger_deviceclass_regex D) row ''deviceclass_id'') = JUndefined"
  shows "deviceclass_join D (JArr row) =
           Inr [(''deviceclass_id'', cell (udger_deviceclass_regex D) row ''deviceclass_id''),
                (''regstring'', cell (udger_deviceclass_regex D) row ''regstring'')]"
  using assms
  by (simp add: deviceclass_join_def map_row_array cell_def join_dangling)

lemma deviceclass_fallback_join_dangling:
  assumes "row_at (udger_deviceclass_list D) (cell (udger_client_class D) q ''deviceclass_id'') = JUndefined"
  shows "deviceclass_fallback_join D (JArr q) =
           Inr [(''deviceclass_id'', cell (udger_client_class D) q ''deviceclass_id'')]"
  using assms
  by (simp add: deviceclass_fallback_join_def map_row_array cell_def join_dangling)

lemma devicename_join_dangling:
  assumes "row_at (udger_devicename_brand D) (cell (udger_devicename_list D) qC ''brand_id'') = JUndefined"
  shows "devicename_join D (JArr qC) =
           Inr [(''marketname'', cell (udger_devicename_list D) qC ''marketname''),
                (''brand_id'', cell (udger_devicename_list D) qC ''brand_id'')]"
  using assms
  by (simp add: devicename_join_def map_row_array cell_def join_dangling)


subsection \<open>The fields a stage fills from a join without a row\<close>

lemma oget_absent: "k \<notin> fst ` set r \<Longrightarrow> oget r k = JUndefined"
  by (induction r) auto

lemma crawler_fill_category:
  "oget (rua (crawler_fill opts st r)) ''crawler_category'' = js_or (oget r ''crawler_classification'') (JStr [])"
  "oget (rua (crawler_fill opts st r)) ''crawler_category_code''
     = js_or (oget r ''crawler_classification_code'') (JStr [])"
  by (simp_all add: crawler_fill_def Let_def assign_or_empty_Cons oget_oset)

lemma client_fill_family:
  assumes "fst ` set r \<subseteq> {''client_id'', ''regstring''}"
  shows "all_empty (rua (client_fill opts e st r)) client_list_fields"
    and "oget (rua (client_fill opts e st r)) ''ua_family_info_url''
           = JStr ''https://udger.com/resources/ua-list/browser-detail?browser=''"
proof -
  have a: "oget r f = JUndefined" if "f \<noteq> ''client_id''" "f \<noteq> ''regstring''" for f
    using assms that by (intro oget_absent) auto
  show "all_empty (rua (client_fill opts e st r)) client_list_fields"
    by (simp add: all_empty_def client_list_fields_def client_fill_def Let_def assign_or_empty_Cons
        oget_oset a js_or_def)
  show "oget (rua (client_fill opts e st r)) ''ua_family_info_url''
           = JStr ''https://udger.com/resources/ua-list/browser-detail?browser=''"
    by (simp add: client_fill_def Let_def assign_or_empty_Cons oget_oset a js_or_def)
qed

lemma os_fields_absent:
  assumes "fst ` set r \<subseteq> {''os_id'', ''regstring''}"
  shows "all_empty (os_fields dst r) os_list_fields \<and>
         oget (os_fields dst r) ''os_info_url'' = JStr ''https://udger.com/resources/ua-list/os-detail?os=''"
proof -
  have a: "oget r f = JUndefined" if "f \<noteq> ''os_id''" "f \<noteq> ''regstring''" for f
    using assms that by (intro oget_absent) auto
  show ?thesis
    by (simp add: all_empty_def os_list_fields_def os_fields_values a js_or_def)
qed

lemma deviceclass_lines_absent:
  assumes "fst ` set r \<subseteq> {''deviceclass_id'', ''regstring''}"
  shows "all_empty (oset (assign_or_empty dst r deviceclass_lines) ''device_class_info_url'' v)
           deviceclass_list_fields"
proof -
  have a: "oget r f = JUndefined" if "f \<noteq> ''deviceclass_id''" "f \<noteq> ''regstring''" for f
    using assms that by (intro oget_absent) auto
  show ?thesis
    by (simp add: all_empty_def deviceclass_list_fields_def deviceclass_lines_def assign_or_empty_Cons
        oget_oset a js_or_def)
qed

lemma devicename_fill_absent:
  assumes "fst ` set rC \<subseteq> {''marketname'', ''brand_id''}"
  shows "all_empty (rua (devicename_fill st rC)) brand_fields \<and>
         oget (rua (devicename_fill st rC)) ''device_brand_info_url''
           = JStr ''https://udger.com/resources/ua-list/devices-brand-detail?brand=''"
proof -
  have a: "oget rC f = JUndefined" if "f \<noteq> ''marketname''" "f \<noteq> ''brand_id''" for f
    using assms that by (intro oget_absent) auto
  show ?thesis
    by (simp add: all_empty_def brand_fields_def devicename_fill_def Let_def assign_or_empty_Cons
        oget_oset a js_or_def)
qed


subsection \<open>The client/OS relation stage after an OS join without a row\<close>

lemma last_string_of_nat: "last (string_of_nat n) \<in> set ''0123456789''"
proof -
  have "n mod 10 < 10" by simp
  then have d: "digit_char (n mod 10) \<in> set ''0123456789''"
    unfolding digit_char_def by (intro nth_mem) simp
  show ?thesis
  proof (cases "n < 10")
    case True
    then show ?thesis using d by (subst string_of_nat.simps) simp
  next
    case False
    then show ?thesis using d by (subst string_of_nat.simps) simp
  qed
qed

lemma to_string_col:
  "to_string (col t k) = ''undefined'' \<or> last (to_string (col t k)) \<in> set ''0123456789''"
  using last_string_of_nat by (simp add: col_def string_of_int_def split: option.splits)

lemma os_relation_join_object:
  assumes "fst ` set r \<subseteq> {''os_id'', ''regstring''}"
  shows "os_relation_join D (JObj r) = Inr [(''os_id'', JUndefined)]"
proof -
  let ?k = "to_string (col (udger_client_os_relation D) ''os_id'')"
  have "?k \<noteq> ''os_id''" "?k \<noteq> ''regstring''"
    using to_string_col[of "udger_client_os_relation D" "''os_id''"] by auto
  then have "oget r ?k = JUndefined" using assms by (intro oget_absent) auto
  then show ?thesis
    by (simp add: os_relation_join_def map_row_def join_dangling row_at_undefined)
qed

lemma os_relation_keeps_empty:
  assumes "r_var st = JObj r" and "fst ` set r \<subseteq> {''os_id'', ''regstring''}"
      and "os_relation D st = Inr st'"
      and "all_empty (rua st) os_list_fields"
      and "oget (rua st) ''os_info_url'' = JStr ''https://udger.com/resources/ua-list/os-detail?os=''"
  shows "all_empty (rua st') os_list_fields \<and>
         oget (rua st') ''os_info_url'' = JStr ''https://udger.com/resources/ua-list/os-detail?os=''"
proof (cases "st' = st")
  case True
  then show ?thesis using assms(4,5) by simp
next
  case False
  then have "st' = os_relation_fill st [(''os_id'', JUndefined)]"
    using assms(3) os_relation_join_object[OF assms(2), of D]
    by (auto simp: os_relation_def Let_def assms(1) split: if_splits)
  then have "rua st' = os_fields (rua st) [(''os_id'', JUndefined)]"
    by (simp add: os_relation_fill_def Let_def)
  then show ?thesis using os_fields_absent[of "[(''os_id'', JUndefined)]" "rua st"] by simp
qed

subsection \<open>From a stage to the result\<close>

lemma all_empty_cong: "(\<And>k. k \<in> set ks \<Longrightarrow> oget a k = oget b k) \<Longrightarrow> all_empty a ks = all_empty b ks"
  by (auto simp: all_empty_def list_all_iff)

lemma deviceclass_loop_first:
  "find (\<lambda>row. re_match E (cell (udger_deviceclass_regex D) row ''regstring'') u \<noteq> None) rows = Some row \<Longrightarrow>
   deviceclass_loop E D opts u rows st = deviceclass_found D opts (JArr row) (st\<lparr>r_var := JArr row\<rparr>)"
  by (induction rows arbitrary: st) (auto split: if_splits)

lemma find_holds: "find P xs = Some x \<Longrightarrow> P x"
  by (induction xs) (auto split: if_splits)

text \<open>The OS fields of the result are those after the client/OS relation stage.\<close>

lemma os_fields_kept:
  assumes "deviceclass_loop E D opts u (data (udger_deviceclass_regex D)) st3 = Inr st4"
      and "deviceclass_fallback D opts st4 = Inr st5"
      and "devicename E D u st5 = Inr st6"
      and "k \<in> set os_field_names"
  shows "oget (rua st6) k = oget (rua st3) k"
  using deviceclass_loop_frame[OF assms(1), of k] deviceclass_fallback_frame[OF assms(2), of k]
    devicename_frame[OF assms(3), of k] os_names_not_device[OF assms(4)]
  by simp

lemma dangling_crawler_class:
  assumes "crawler_or_client E D opts u st0 = Inr st1"
      and "os_loop E D opts u (data (udger_os_regex D)) st1 = Inr st2"
      and "os_relation D st2 = Inr st3"
      and "deviceclass_loop E D opts u (data (udger_deviceclass_regex D)) st3 = Inr st4"
      and "deviceclass_fallback D opts st4 = Inr st5"
      and "devicename E D u st5 = Inr st6"
      and "find (\<lambda>row. cell (udger_crawler_list D) row ''ua_string'' = JStr u) (data (udger_crawler_list D)) = Some q"
      and "row_at (udger_crawler_class D) (cell (udger_crawler_list D) q ''class_id'') = JUndefined"
  shows "all_empty (rua st6) crawler_class_fields"
proof -
  from crawler_join_dangling[OF assms(8)] obtain r where
    r: "crawler_join D (JArr q) = Inr r" "oget r ''crawler_classification'' = JUndefined"
       "oget r ''crawler_classification_code'' = JUndefined"
    by blast
  have "st1 = crawler_fill opts st0 r"
    using assms(1) crawler_or_client_crawler[OF assms(7), of E opts st0] r(1) by (simp add: crawler_found_def)
  then have "all_empty (rua st1) crawler_class_fields"
    by (simp add: all_empty_def crawler_class_fields_def crawler_fill_category r js_or_def)
  moreover have "all_empty (rua st6) crawler_class_fields = all_empty (rua st1) crawler_class_fields"
    by (rule all_empty_cong, rule later_stages_frame[OF assms(2-6)])
       (auto simp: crawler_class_fields_def os_field_names_def deviceclass_field_names_def
          devicename_field_names_def)
  ultimately show ?thesis by simp
qed

lemma dangling_client_list:
  assumes "crawler_or_client E D opts u st0 = Inr st1"
      and "os_loop E D opts u (data (udger_os_regex D)) st1 = Inr st2"
      and "os_relation D st2 = Inr st3"
      and "deviceclass_loop E D opts u (data (udger_deviceclass_regex D)) st3 = Inr st4"
      and "deviceclass_fallback D opts st4 = Inr st5"
      and "devicename E D u st5 = Inr st6"
      and "find (\<lambda>row. cell (udger_crawler_list D) row ''ua_string'' = JStr u) (data (udger_crawler_list D)) = None"
      and "find (\<lambda>row. re_match E (cell (udger_client_regex D) row ''regstring'') u \<noteq> None)
             (data (udger_client_regex D)) = Some row"
      and "row_at (udger_client_list D) (cell (udger_client_regex D) row ''client_id'') = JUndefined"
  shows "all_empty (rua st6) client_list_fields \<and>
         oget (rua st6) ''ua_family_info_url''
           = JStr ''https://udger.com/resources/ua-list/browser-detail?browser=''"
proof -
  let ?r = "[(''client_id'', cell (udger_client_regex D) row ''client_id''),
             (''regstring'', cell (udger_client_regex D) row ''regstring'')]"
  from find_holds[OF assms(8)] obtain e where
    e: "re_match E (cell (udger_client_regex D) row ''regstring'') u = Some e" by auto
  have "st1 = client_fill opts e (st0\<lparr>r_var := JArr row\<rparr>) ?r"
    using assms(1,7) client_loop_first[OF assms(8) e, of opts st0] client_join_dangling[OF assms(9)]
    by (simp add: crawler_or_client_def findBy_def client_found_def)
  then have a: "all_empty (rua st1) client_list_fields"
    "oget (rua st1) ''ua_family_info_url'' = JStr ''https://udger.com/resources/ua-list/browser-detail?browser=''"
    using client_fill_family[of ?r opts e "st0\<lparr>r_var := JArr row\<rparr>"] by simp_all
  have "all_empty (rua st6) client_list_fields = all_empty (rua st1) client_list_fields"
    by (rule all_empty_cong, rule later_stages_frame[OF assms(2-6)])
       (auto simp: client_list_fields_def os_field_names_def deviceclass_field_names_def
          devicename_field_names_def)
  moreover have "oget (rua st6) ''ua_family_info_url'' = oget (rua st1) ''ua_family_info_url''"
    by (rule later_stages_frame[OF assms(2-6)])
       (simp_all add: os_field_names_def deviceclass_field_names_def devicename_field_names_def)
  ultimately show ?thesis using a by simp
qed

lemma dangling_os_list:
  assumes "os_loop E D opts u (data (udger_os_regex D)) st1 = Inr st2"
      and "os_relation D st2 = Inr st3"
      and "deviceclass_loop E D opts u (data (udger_deviceclass_regex D)) st3 = Inr st4"
      and "deviceclass_fallback D opts st4 = Inr st5"
      and "devicename E D u st5 = Inr st6"
      and "find (\<lambda>row. re_match E (cell (udger_os_regex D) row ''regstring'') u \<noteq> None)
             (data (udger_os_regex D)) = Some row"
      and "row_at (udger_os_list D) (cell (udger_os_regex D) row ''os_id'') = JUndefined"
  shows "all_empty (rua st6) os_list_fields \<and>
         oget (rua st6) ''os_info_url'' = JStr ''https://udger.com/resources/ua-list/os-detail?os=''"
proof -
  let ?r = "[(''os_id'', cell (udger_os_regex D) row ''os_id''),
             (''regstring'', cell (udger_os_regex D) row ''regstring'')]"
  have k: "fst ` set ?r \<subseteq> {''os_id'', ''regstring''}" by simp
  have "st2 = os_fill opts (st1\<lparr>r_var := JArr row\<rparr>) ?r"
    using assms(1) os_loop_first[OF assms(6), of opts st1] os_join_dangling[OF assms(7)]
    by (simp add: os_found_def)
  then have 2: "r_var st2 = JObj ?r" "rua st2 = os_fields (rua st1) ?r"
    by (simp_all add: os_fill_def Let_def)
  have "all_empty (rua st2) os_list_fields \<and>
        oget (rua st2) ''os_info_url'' = JStr ''https://udger.com/resources/ua-list/os-detail?os=''"
    using os_fields_absent[OF k, of "rua st1"] 2(2) by simp
  then have 3: "all_empty (rua st3) os_list_fields \<and>
        oget (rua st3) ''os_info_url'' = JStr ''https://udger.com/resources/ua-list/os-detail?os=''"
    using os_relation_keeps_empty[OF 2(1) k assms(2)] by simp
  have "all_empty (rua st6) os_list_fields = all_empty (rua st3) os_list_fields"
    by (rule all_empty_cong, rule os_fields_kept[OF assms(3-5)])
       (auto simp: os_list_fields_def os_field_names_def)
  moreover have "oget (rua st6) ''os_info_url'' = oget (rua st3) ''os_info_url''"
    by (rule os_fields_kept[OF assms(3-5)]) (simp add: os_field_names_def)
  ultimately show ?thesis using 3 by simp
qed


lemma dangling_os_relation:
  assumes "os_relation D st2 = Inr st3"
      and "deviceclass_loop E D opts u (data (udger_deviceclass_regex D)) st3 = Inr st4"
      and "deviceclass_fallback D opts st4 = Inr st5"
      and "devicename E D u st5 = Inr st6"
      and "loose_eq_num (os_id st2) 0" and "\<not> loose_eq_num (client_id st2) 0"
      and "find (\<lambda>row. cell (udger_client_os_relation D) row ''client_id''
                     = col (udger_client_os_relation D) ''client_id'')
             (data (udger_client_os_relation D)) = Some q"
      and "map_row (udger_client_os_relation D) (r_var st2) [''os_id''] [] = Inr r1"
      and "row_at (udger_os_list D) (oget r1 ''os_id'') = JUndefined"
  shows "all_empty (rua st6) os_list_fields \<and>
         oget (rua st6) ''os_info_url'' = JStr ''https://udger.com/resources/ua-list/os-detail?os=''"
proof -
  have a: "oget r1 f = JUndefined" if "f \<noteq> ''os_id''" for f
    using map_row_other[OF assms(8), of f] that by simp
  have "os_relation_join D (r_var st2) = Inr r1"
    using assms(8,9) by (simp add: os_relation_join_def join_dangling)
  then have "st3 = os_relation_fill st2 r1"
    using assms(1,5,6,7) by (simp add: os_relation_def findBy_def)
  then have "rua st3 = os_fields (rua st2) r1" by (simp add: os_relation_fill_def Let_def)
  then have 3: "all_empty (rua st3) os_list_fields \<and>
        oget (rua st3) ''os_info_url'' = JStr ''https://udger.com/resources/ua-list/os-detail?os=''"
    by (simp add: all_empty_def os_list_fields_def os_fields_values a js_or_def)
  have "all_empty (rua st6) os_list_fields = all_empty (rua st3) os_list_fields"
    by (rule all_empty_cong, rule os_fields_kept[OF assms(2-4)])
       (auto simp: os_list_fields_def os_field_names_def)
  moreover have "oget (rua st6) ''os_info_url'' = oget (rua st3) ''os_info_url''"
    by (rule os_fields_kept[OF assms(2-4)]) (simp add: os_field_names_def)
  ultimately show ?thesis using 3 by simp
qed

lemma deviceclass_fields_kept:
  assumes "devicename E D u st5 = Inr st6" and "k \<in> set deviceclass_field_names"
  shows "oget (rua st6) k = oget (rua st5) k"
  using devicename_frame[OF assms(1), of k] assms(2)
  by (auto simp: deviceclass_field_names_def devicename_field_names_def)

lemma dangling_deviceclass_list:
  assumes "deviceclass_loop E D opts u (data (udger_deviceclass_regex D)) st3 = Inr st4"
      and "deviceclass_fallback D opts st4 = Inr st5"
      and "devicename E D u st5 = Inr st6"
      and "find (\<lambda>row. re_match E (cell (udger_deviceclass_regex D) row ''regstring'') u \<noteq> None)
             (data (udger_deviceclass_regex D)) = Some row"
      and "row_at (udger_deviceclass_list D) (cell (udger_deviceclass_regex D) row ''deviceclass_id'') = JUndefined"
      and "\<not> loose_eq_num (cell (udger_deviceclass_regex D) row ''deviceclass_id'') 0"
  shows "all_empty (rua st6) deviceclass_list_fields"
proof -
  let ?r = "[(''deviceclass_id'', cell (udger_deviceclass_regex D) row ''deviceclass_id''),
             (''regstring'', cell (udger_deviceclass_regex D) row ''regstring'')]"
  have k: "fst ` set ?r \<subseteq> {''deviceclass_id'', ''regstring''}" by simp
  have 4: "st4 = deviceclass_fill opts (st3\<lparr>r_var := JArr row\<rparr>) ?r"
    using assms(1) deviceclass_loop_first[OF assms(4), of opts st3] deviceclass_join_dangling[OF assms(5)]
    by (simp add: deviceclass_found_def)
  then have a: "all_empty (rua st4) deviceclass_list_fields"
    using deviceclass_lines_absent[OF k] by (simp add: deviceclass_fill_def Let_def)
  have "deviceclass_id st4 = cell (udger_deviceclass_regex D) row ''deviceclass_id''"
    using 4 by (simp add: deviceclass_fill_def Let_def)
  then have "st5 = st4" using assms(2,6) by (simp add: deviceclass_fallback_def)
  moreover have "all_empty (rua st6) deviceclass_list_fields = all_empty (rua st5) deviceclass_list_fields"
    by (rule all_empty_cong, rule deviceclass_fields_kept[OF assms(3)])
       (auto simp: deviceclass_list_fields_def deviceclass_field_names_def)
  ultimately show ?thesis using a by simp
qed

lemma dangling_deviceclass_fallback:
  assumes "deviceclass_fallback D opts st4 = Inr st5"
      and "devicename E D u st5 = Inr st6"
      and "loose_eq_num (deviceclass_id st4) 0" and "\<not> loose_eq_num (client_class_id st4) (- 1)"
      and "find (\<lambda>row. cell (udger_client_class D) row ''id'' = client_class_id st4)
             (data (udger_client_class D)) = Some q"
      and "row_at (udger_deviceclass_list D) (cell (udger_client_class D) q ''deviceclass_id'') = JUndefined"
  shows "all_empty (rua st6) deviceclass_list_fields \<and>
         oget (rua st6) ''device_class_info_url''
           = JStr ''https://udger.com/resources/ua-list/device-detail?device=''"
proof -
  let ?r = "[(''deviceclass_id'', cell (udger_client_class D) q ''deviceclass_id'')]"
  have k: "fst ` set ?r \<subseteq> {''deviceclass_id'', ''regstring''}" by simp
  have "st5 = deviceclass_fallback_fill opts st4 ?r"
    using assms(1,3,4,5) deviceclass_fallback_join_dangling[OF assms(6)]
    by (simp add: deviceclass_fallback_def findBy_def)
  then have a: "all_empty (rua st5) deviceclass_list_fields"
    "oget (rua st5) ''device_class_info_url'' = JStr ''https://udger.com/resources/ua-list/device-detail?device=''"
    using deviceclass_lines_absent[OF k]
    by (simp_all add: deviceclass_fallback_fill_def Let_def oget_oset js_or_def)
  have "all_empty (rua st6) deviceclass_list_fields = all_empty (rua st5) deviceclass_list_fields"
    by (rule all_empty_cong, rule deviceclass_fields_kept[OF assms(2)])
       (auto simp: deviceclass_list_fields_def deviceclass_field_names_def)
  moreover have "oget (rua st6) ''device_class_info_url'' = oget (rua st5) ''device_class_info_url''"
    by (rule deviceclass_fields_kept[OF assms(2)]) (simp add: deviceclass_field_names_def)
  ultimately show ?thesis using a by simp
qed

lemma devicename_unfold:
  "devicename E D u st =
     (if truthy (oget (rua st) ''os_family_code'') \<and> truthy (devicename_row E D u st)
      then thenE (devicename_join D (devicename_row E D u st)) (\<lambda>rC. Inr (devicename_fill st rC))
      else Inr st)"
  by (simp add: devicename_def devicename_row_def Let_def)

lemma dangling_devicename_brand:
  assumes "devicename E D u st5 = Inr st6"
      and "truthy (oget (rua st5) ''os_family_code'')"
      and "devicename_row E D u st5 = JArr qC"
      and "row_at (udger_devicename_brand D) (cell (udger_devicename_list D) qC ''brand_id'') = JUndefined"
  shows "all_empty (rua st6) brand_fields \<and>
         oget (rua st6) ''device_brand_info_url''
           = JStr ''https://udger.com/resources/ua-list/devices-brand-detail?brand=''"
proof -
  let ?r = "[(''marketname'', cell (udger_devicename_list D) qC ''marketname''),
             (''brand_id'', cell (udger_devicename_list D) qC ''brand_id'')]"
  have k: "fst ` set ?r \<subseteq> {''marketname'', ''brand_id''}" by simp
  have "st6 = devicename_fill st5 ?r"
    using assms(1,2,3) devicename_join_dangling[OF assms(4)] by (simp add: devicename_unfold)
  then show ?thesis using devicename_fill_absent[OF k, of st5] by simp
qed


subsection \<open>The joins of parseIp\<close>

lemma oget_spread_in: "k \<in> fst ` set b \<Longrightarrow> oget (spread a b) k = oget (spread [] b) k"
  unfolding spread_def
proof (induction b arbitrary: a rule: rev_induct)
  case Nil
  then show ?case by simp
next
  case (snoc p b)
  show ?case
  proof (cases "fst p = k")
    case True
    then show ?thesis by (simp add: oget_oset)
  next
    case False
    then have "k \<in> fst ` set b" using snoc.prems by auto
    from snoc.IH[OF this] show ?thesis using False by (simp add: oget_oset)
  qed
qed

lemma oget_spread_nil: "distinct (map fst b) \<Longrightarrow> oget (spread [] b) k = oget b k"
  unfolding spread_def
proof (induction b rule: rev_induct)
  case Nil
  then show ?case by simp
next
  case (snoc p b)
  then have d: "distinct (map fst b)" "fst p \<notin> fst ` set b" by auto
  have "oget (b @ [p]) k = (if k \<in> fst ` set b then oget b k else if fst p = k then snd p else JUndefined)"
    by (cases p, induction b) (auto simp: rev_image_eqI)
  then show ?case using snoc.IH[OF d(1)] d(2) by (auto simp: oget_oset oget_absent)
qed

lemma fst_oset: "fst ` set (oset ob k v) = insert k (fst ` set ob)"
proof -
  have "set (map fst (oset ob k v)) = insert k (set (map fst ob))"
    by (auto simp: map_fst_oset)
  then show ?thesis by simp
qed

lemma read_keys_names:
  "read_keys t row keys acc = Inr m \<Longrightarrow> fst ` set m \<subseteq> fst ` set acc \<union> set keys"
proof (induction keys arbitrary: acc)
  case Nil
  then show ?case by simp
next
  case (Cons key keys)
  from Cons.prems obtain v where
    "read_keys t row keys (oset acc key v) = Inr m"
    by (auto simp: thenE_def split: sum.splits)
  from Cons.IH[OF this] show ?case by (auto simp: fst_oset)
qed

lemma rename_keys_names: "fst ` set (rename_keys ret rn) \<subseteq> fst ` set ret \<union> snd ` set rn"
proof (induction rn arbitrary: ret)
  case Nil
  then show ?case by simp
next
  case (Cons p rn)
  obtain k1 k2 where p: "p = (k1, k2)" by (cases p)
  let ?x = "odelete (oset ret k2 (oget ret k1)) k1"
  have "fst ` set ?x \<subseteq> fst ` set (oset ret k2 (oget ret k1))"
    by (auto simp: odelete_def)
  then have 1: "fst ` set ?x \<subseteq> insert k2 (fst ` set ret)"
    by (simp add: fst_oset)
  have 2: "fst ` set (rename_keys ?x rn) \<subseteq> fst ` set ?x \<union> snd ` set rn"
    by (rule Cons.IH)
  have 3: "rename_keys ret (p # rn) = rename_keys ?x rn" by (simp add: p)
  have 4: "snd ` set (p # rn) = insert k2 (snd ` set rn)" by (simp add: p)
  show ?case unfolding 3 4 using 1 2 by blast
qed

lemma map_row_names:
  "map_row t row keys rn = Inr m \<Longrightarrow> fst ` set m \<subseteq> set keys \<union> snd ` set rn"
proof (cases "truthy row")
  case True
  assume a: "map_row t row keys rn = Inr m"
  then obtain ret where r: "read_keys t row keys [] = Inr ret" "m = rename_keys ret rn"
    using True by (auto simp: map_row_def thenE_def split: sum.splits)
  have "fst ` set ret \<subseteq> set keys" using read_keys_names[OF r(1)] by simp
  then show ?thesis using rename_keys_names[of ret rn] r(2) by blast
next
  case False
  assume "map_row t row keys rn = Inr m"
  then show ?thesis using False by (simp add: map_row_def)
qed

lemma join_other:
  assumes "join r t fk keys rn = Inr r'" and "k \<notin> set keys" and "k \<notin> snd ` set rn"
  shows "oget r' k = oget r k"
proof -
  from assms(1) obtain m where m: "map_row t (row_at t fk) keys rn = Inr m" "r' = spread r m"
    by (auto simp: join_def thenE_def split: sum.splits)
  have "k \<notin> fst ` set m" using map_row_names[OF m(1)] assms(2,3) by auto
  then show ?thesis using m(2) by (simp add: oget_spread_other)
qed


text \<open>The row of udger_ip_list as \<open>map\<close> reads it.\<close>

lemma ip_join_array:
  "ip_join D (JArr q) =
     thenE (join [(''class_id'', cell (udger_ip_list D) q ''class_id''),
                  (''crawler_id'', cell (udger_ip_list D) q ''crawler_id''),
                  (''ip_last_seen'', cell (udger_ip_list D) q ''ip_last_seen''),
                  (''ip_hostname'', cell (udger_ip_list D) q ''ip_hostname''),
                  (''ip_country'', cell (udger_ip_list D) q ''ip_country''),
                  (''ip_city'', cell (udger_ip_list D) q ''ip_city''),
                  (''ip_country_code'', cell (udger_ip_list D) q ''ip_country_code'')]
              (udger_ip_class D) (cell (udger_ip_list D) q ''class_id'')
              [''ip_classification'', ''ip_classification_code''] []) (\<lambda>r2.
     thenE (join (odelete r2 ''class_id'') (udger_crawler_list D) (oget (odelete r2 ''class_id'') ''crawler_id'')
              [''id'', ''name'', ''ver'', ''ver_major'', ''class_id'', ''last_seen'',
               ''respect_robotstxt'', ''family'', ''family_code'', ''family_homepage'',
               ''family_icon'', ''vendor'', ''vendor_code'', ''vendor_homepage'']
              [(''id'', ''botid'')]) (\<lambda>r3.
     thenE (join (odelete r3 ''crawler_id'') (udger_crawler_class D) (oget (odelete r3 ''crawler_id'') ''class_id'')
              [''crawler_classification'', ''crawler_classification_code''] []) (\<lambda>r4.
     Inr (odelete r4 ''class_id''))))"
  by (simp add: ip_join_def map_row_array cell_def)

lemma ip_join_class_dangling:
  assumes "row_at (udger_ip_class D) (cell (udger_ip_list D) q ''class_id'') = JUndefined"
  shows "\<exists>r. ip_join D (JArr q) = Inr r \<and>
           oget r ''ip_classification'' = JUndefined \<and> oget r ''ip_classification_code'' = JUndefined"
proof -
  let ?r1 = "[(''class_id'', cell (udger_ip_list D) q ''class_id''),
              (''crawler_id'', cell (udger_ip_list D) q ''crawler_id''),
              (''ip_last_seen'', cell (udger_ip_list D) q ''ip_last_seen''),
              (''ip_hostname'', cell (udger_ip_list D) q ''ip_hostname''),
              (''ip_country'', cell (udger_ip_list D) q ''ip_country''),
              (''ip_city'', cell (udger_ip_list D) q ''ip_city''),
              (''ip_country_code'', cell (udger_ip_list D) q ''ip_country_code'')]"
  let ?ks = "[''id'', ''name'', ''ver'', ''ver_major'', ''class_id'', ''last_seen'',
               ''respect_robotstxt'', ''family'', ''family_code'', ''family_homepage'',
               ''family_icon'', ''vendor'', ''vendor_code'', ''vendor_homepage'']"
  obtain r3 where r3: "join (odelete ?r1 ''class_id'') (udger_crawler_list D)
      (oget (odelete ?r1 ''class_id'') ''crawler_id'') ?ks [(''id'', ''botid'')] = Inr r3"
    using join_ok by blast
  obtain r4 where r4: "join (odelete r3 ''crawler_id'') (udger_crawler_class D)
      (oget (odelete r3 ''crawler_id'') ''class_id'')
      [''crawler_classification'', ''crawler_classification_code''] [] = Inr r4"
    using join_ok by blast
  have e: "ip_join D (JArr q) = Inr (odelete r4 ''class_id'')"
    unfolding ip_join_array using assms r3 r4 by (simp add: join_dangling)
  have "oget r3 k = JUndefined" if "k = ''ip_classification'' \<or> k = ''ip_classification_code''" for k
    using join_other[OF r3, of k] that by (auto simp: oget_odelete)
  then have "oget r4 k = JUndefined" if "k = ''ip_classification'' \<or> k = ''ip_classification_code''" for k
    using join_other[OF r4, of k] that by (auto simp: oget_odelete)
  then show ?thesis using e by (simp add: oget_odelete)
qed

lemma ip_join_crawler_dangling:
  assumes "row_at (udger_crawler_list D) (cell (udger_ip_list D) q ''crawler_id'') = JUndefined"
  shows "\<exists>r. ip_join D (JArr q) = Inr r \<and>
           list_all (\<lambda>f. oget r f = JUndefined)
             [''name'', ''ver'', ''ver_major'', ''last_seen'', ''respect_robotstxt'', ''family'',
              ''family_code'', ''family_homepage'', ''family_icon'', ''vendor'', ''vendor_code'',
              ''vendor_homepage'', ''botid'', ''crawler_classification'', ''crawler_classification_code'']"
proof -
  let ?r1 = "[(''class_id'', cell (udger_ip_list D) q ''class_id''),
              (''crawler_id'', cell (udger_ip_list D) q ''crawler_id''),
              (''ip_last_seen'', cell (udger_ip_list D) q ''ip_last_seen''),
              (''ip_hostname'', cell (udger_ip_list D) q ''ip_hostname''),
              (''ip_country'', cell (udger_ip_list D) q ''ip_country''),
              (''ip_city'', cell (udger_ip_list D) q ''ip_city''),
              (''ip_country_code'', cell (udger_ip_list D) q ''ip_country_code'')]"
  obtain r2 where r2: "join ?r1 (udger_ip_class D) (cell (udger_ip_list D) q ''class_id'')
      [''ip_classification'', ''ip_classification_code''] [] = Inr r2"
    using join_ok by blast
  have o: "oget r2 k = oget ?r1 k" if "k \<noteq> ''ip_classification''" "k \<noteq> ''ip_classification_code''" for k
    using join_other[OF r2, of k] that by simp
  have c: "oget (odelete r2 ''class_id'') ''crawler_id'' = cell (udger_ip_list D) q ''crawler_id''"
    by (simp add: oget_odelete o)
  have e: "ip_join D (JArr q) = Inr (odelete (odelete (odelete r2 ''class_id'') ''crawler_id'') ''class_id'')"
    unfolding ip_join_array using assms r2 c by (simp add: join_dangling oget_odelete row_at_undefined)
  show ?thesis unfolding e by (simp add: oget_odelete o)
qed

lemma ip_join_crawler_class_dangling:
  assumes "row_at (udger_crawler_list D) (cell (udger_ip_list D) q ''crawler_id'') = JArr c"
      and "row_at (udger_crawler_class D) (cell (udger_crawler_list D) c ''class_id'') = JUndefined"
  shows "\<exists>r. ip_join D (JArr q) = Inr r \<and>
           oget r ''crawler_classification'' = JUndefined \<and>
           oget r ''crawler_classification_code'' = JUndefined"
proof -
  let ?r1 = "[(''class_id'', cell (udger_ip_list D) q ''class_id''),
              (''crawler_id'', cell (udger_ip_list D) q ''crawler_id''),
              (''ip_last_seen'', cell (udger_ip_list D) q ''ip_last_seen''),
              (''ip_hostname'', cell (udger_ip_list D) q ''ip_hostname''),
              (''ip_country'', cell (udger_ip_list D) q ''ip_country''),
              (''ip_city'', cell (udger_ip_list D) q ''ip_city''),
              (''ip_country_code'', cell (udger_ip_list D) q ''ip_country_code'')]"
  let ?ks = "[''id'', ''name'', ''ver'', ''ver_major'', ''class_id'', ''last_seen'',
               ''respect_robotstxt'', ''family'', ''family_code'', ''family_homepage'',
               ''family_icon'', ''vendor'', ''vendor_code'', ''vendor_homepage'']"
  obtain r2 where r2: "join ?r1 (udger_ip_class D) (cell (udger_ip_list D) q ''class_id'')
      [''ip_classification'', ''ip_classification_code''] [] = Inr r2"
    using join_ok by blast
  have o: "oget r2 k = oget ?r1 k" if "k \<noteq> ''ip_classification''" "k \<noteq> ''ip_classification_code''" for k
    using join_other[OF r2, of k] that by simp
  have c: "oget (odelete r2 ''class_id'') ''crawler_id'' = cell (udger_ip_list D) q ''crawler_id''"
    by (simp add: oget_odelete o)
  obtain r3 where r3: "join (odelete r2 ''class_id'') (udger_crawler_list D)
      (cell (udger_ip_list D) q ''crawler_id'') ?ks [(''id'', ''botid'')] = Inr r3"
    using join_ok by blast
  have "\<exists>m. map_row (udger_crawler_list D) (JArr c) ?ks [(''id'', ''botid'')] = Inr m \<and>
          oget m ''class_id'' = cell (udger_crawler_list D) c ''class_id'' \<and> ''class_id'' \<in> fst ` set m \<and>
          distinct (map fst m)"
    by (simp add: map_row_array odelete_def cell_def)
  then obtain m where m: "map_row (udger_crawler_list D) (JArr c) ?ks [(''id'', ''botid'')] = Inr m"
    "oget m ''class_id'' = cell (udger_crawler_list D) c ''class_id''" "''class_id'' \<in> fst ` set m"
    "distinct (map fst m)"
    by blast
  have "r3 = spread (odelete r2 ''class_id'') m"
    using r3 assms(1) m(1) by (simp add: join_def)
  then have i: "oget r3 ''class_id'' = cell (udger_crawler_list D) c ''class_id''"
    using m(2,3,4) oget_spread_in[of "''class_id''" m "odelete r2 ''class_id''"] oget_spread_nil[of m "''class_id''"]
    by simp
  have n: "oget r3 k = JUndefined" if "k = ''crawler_classification'' \<or> k = ''crawler_classification_code''" for k
    using join_other[OF r3, of k] that by (auto simp: oget_odelete o)
  have e: "ip_join D (JArr q) = Inr (odelete (odelete r3 ''crawler_id'') ''class_id'')"
    unfolding ip_join_array using assms(2) r2 r3 c i by (simp add: join_dangling oget_odelete)
  show ?thesis unfolding e using n by (simp add: oget_odelete)
qed

lemma datacenter_join_dangling:
  assumes "row_at (udger_datacenter_list D) (cell t q ''datacenter_id'') = JUndefined"
  shows "datacenter_join D t (JArr q) = Inr []"
  using assms by (simp add: datacenter_join_def map_row_array cell_def join_dangling odelete_def)


subsection \<open>The fields parseIp fills from a join without a row\<close>

lemma ip_udger_class:
  assumes "oget r ''ip_classification'' = JUndefined" and "oget r ''ip_classification_code'' = JUndefined"
  shows "all_empty (ip_udger x r) ip_class_fields"
  using assms
  by (simp add: all_empty_def ip_class_fields_def ip_udger_def Let_def assign_or_empty_Cons
      oget_oset js_or_def)

lemma ip_udger_category:
  assumes "oget r ''crawler_classification'' = JUndefined"
      and "oget r ''crawler_classification_code'' = JUndefined"
  shows "all_empty (ip_udger x r) crawler_class_fields"
  using assms
  by (simp add: all_empty_def crawler_class_fields_def ip_udger_def Let_def assign_or_empty_Cons
      oget_oset js_or_def)

lemma ip_udger_crawler:
  assumes "list_all (\<lambda>f. oget r f = JUndefined)
             [''name'', ''ver'', ''ver_major'', ''last_seen'', ''respect_robotstxt'', ''family'',
              ''family_code'', ''family_homepage'', ''family_icon'', ''vendor'', ''vendor_code'',
              ''vendor_homepage'', ''botid'', ''crawler_classification'', ''crawler_classification_code'']"
  shows "all_empty (ip_udger x r) ip_crawler_fields"
  using assms
  by (simp add: all_empty_def ip_crawler_fields_def ip_udger_def Let_def assign_or_empty_Cons
      oget_oset js_or_def)

lemma datacenter_fill_empty: "all_empty (fst (datacenter_fill opts st [])) datacenter_fields"
  by (simp add: all_empty_def datacenter_fields_def datacenter_fill_def Let_def assign_or_empty_Cons
      oget_oset js_or_def)

lemma datacenter_fill_other:
  "k \<notin> set datacenter_fields \<Longrightarrow> oget (fst (datacenter_fill opts st r)) k = oget (fst st) k"
  by (simp add: datacenter_fields_def datacenter_fill_def Let_def oget_assign_other)

lemma datacenter_other:
  assumes "datacenter E D opts v c st = Inr st2" and "k \<notin> set datacenter_fields"
  shows "oget (fst st2) k = oget (fst st) k"
proof -
  have f: "datacenter_found D opts t q st = Inr st2 \<Longrightarrow> ?thesis" for t q
    using datacenter_found_ok[of D opts t q st] assms(2) by (auto simp: datacenter_fill_other)
  show ?thesis using assms(1) f by (auto simp: datacenter_def Let_def split: if_splits)
qed

lemma ip_lookup_found:
  assumes "ip_lookup D opts c st = Inr st1"
      and "find (\<lambda>row. cell (udger_ip_list D) row ''ip'' = JStr c) (data (udger_ip_list D)) = Some q"
      and "ip_join D (JArr q) = Inr r"
  shows "fst st1 = ip_udger (fst st) r"
  using assms by (auto simp: ip_lookup_def findBy_def ip_found_def ip_fill_def Let_def)

lemma dangling_ip_class:
  assumes "ip_lookup D opts c st = Inr st1" and "datacenter E D opts v c st1 = Inr st2"
      and "find (\<lambda>row. cell (udger_ip_list D) row ''ip'' = JStr c) (data (udger_ip_list D)) = Some q"
      and "row_at (udger_ip_class D) (cell (udger_ip_list D) q ''class_id'') = JUndefined"
  shows "all_empty (fst st2) ip_class_fields"
proof -
  from ip_join_class_dangling[OF assms(4)] obtain r where
    r: "ip_join D (JArr q) = Inr r" "oget r ''ip_classification'' = JUndefined"
       "oget r ''ip_classification_code'' = JUndefined"
    by blast
  have "all_empty (fst st1) ip_class_fields"
    using ip_lookup_found[OF assms(1,3) r(1)] ip_udger_class[OF r(2,3)] by simp
  moreover have "all_empty (fst st2) ip_class_fields = all_empty (fst st1) ip_class_fields"
    by (rule all_empty_cong, rule datacenter_other[OF assms(2)])
       (auto simp: ip_class_fields_def datacenter_fields_def)
  ultimately show ?thesis by simp
qed

lemma dangling_ip_crawler:
  assumes "ip_lookup D opts c st = Inr st1" and "datacenter E D opts v c st1 = Inr st2"
      and "find (\<lambda>row. cell (udger_ip_list D) row ''ip'' = JStr c) (data (udger_ip_list D)) = Some q"
      and "row_at (udger_crawler_list D) (cell (udger_ip_list D) q ''crawler_id'') = JUndefined"
  shows "all_empty (fst st2) ip_crawler_fields"
proof -
  from ip_join_crawler_dangling[OF assms(4)] obtain r where
    r: "ip_join D (JArr q) = Inr r"
       "list_all (\<lambda>f. oget r f = JUndefined)
             [''name'', ''ver'', ''ver_major'', ''last_seen'', ''respect_robotstxt'', ''family'',
              ''family_code'', ''family_homepage'', ''family_icon'', ''vendor'', ''vendor_code'',
              ''vendor_homepage'', ''botid'', ''crawler_classification'', ''crawler_classification_code'']"
    by blast
  have "all_empty (fst st1) ip_crawler_fields"
    using ip_lookup_found[OF assms(1,3) r(1)] ip_udger_crawler[OF r(2)] by simp
  moreover have "all_empty (fst st2) ip_crawler_fields = all_empty (fst st1) ip_crawler_fields"
    by (rule all_empty_cong, rule datacenter_other[OF assms(2)])
       (auto simp: ip_crawler_fields_def datacenter_fields_def)
  ultimately show ?thesis by simp
qed

lemma dangling_ip_crawler_class:
  assumes "ip_lookup D opts c st = Inr st1" and "datacenter E D opts v c st1 = Inr st2"
      and "find (\<lambda>row. cell (udger_ip_list D) row ''ip'' = JStr c) (data (udger_ip_list D)) = Some q"
      and "row_at (udger_crawler_list D) (cell (udger_ip_list D) q ''crawler_id'') = JArr cr"
      and "row_at (udger_crawler_class D) (cell (udger_crawler_list D) cr ''class_id'') = JUndefined"
  shows "all_empty (fst st2) crawler_class_fields"
proof -
  from ip_join_crawler_class_dangling[OF assms(4,5)] obtain r where
    r: "ip_join D (JArr q) = Inr r" "oget r ''crawler_classification'' = JUndefined"
       "oget r ''crawler_classification_code'' = JUndefined"
    by blast
  have "all_empty (fst st1) crawler_class_fields"
    using ip_lookup_found[OF assms(1,3) r(1)] ip_udger_category[OF r(2,3)] by simp
  moreover have "all_empty (fst st2) crawler_class_fields = all_empty (fst st1) crawler_class_fields"
    by (rule all_empty_cong, rule datacenter_other[OF assms(2)])
       (auto simp: crawler_class_fields_def datacenter_fields_def)
  ultimately show ?thesis by simp
qed

lemma dangling_datacenter4:
  assumes "datacenter E D opts (JNum 4) c st1 = Inr st2"
      and "find (\<lambda>row. in_range (udger_datacenter_range D) row ''iplong_from'' ''iplong_to'' (ip2long E c))
             (data (udger_datacenter_range D)) = Some q"
      and "row_at (udger_datacenter_list D) (cell (udger_datacenter_range D) q ''datacenter_id'') = JUndefined"
  shows "all_empty (fst st2) datacenter_fields"
proof -
  have "st2 = datacenter_fill opts st1 []"
    using assms(1,2) datacenter_join_dangling[OF assms(3)]
    by (simp add: datacenter_def findBy_def datacenter_found_def)
  then show ?thesis by (simp add: datacenter_fill_empty)
qed

lemma dangling_datacenter6:
  assumes "datacenter E D opts (JNum 6) c st1 = Inr st2"
      and "find (in_range6 (udger_datacenter_range6 D) (ipInts E c)) (data (udger_datacenter_range6 D)) = Some q"
      and "row_at (udger_datacenter_list D) (cell (udger_datacenter_range6 D) q ''datacenter_id'') = JUndefined"
  shows "all_empty (fst st2) datacenter_fields"
proof -
  have "st2 = datacenter_fill opts st1 []"
    using assms(1,2) datacenter_join_dangling[OF assms(3)]
    by (simp add: datacenter_def findBy_def datacenter_found_def)
  then show ?thesis by (simp add: datacenter_fill_empty)
qed


subsection \<open>All joins of a run\<close>

lemma dangling_ua:
  assumes "u \<noteq> []"
  shows "\<exists>st1 st2 st3 st4 st5 res j.
        crawler_or_client E D opts u (ua_init (copy_obj ru) opts u) = Inr st1 \<and>
        os_loop E D opts u (data (udger_os_regex D)) st1 = Inr st2 \<and>
        os_relation D st2 = Inr st3 \<and>
        deviceclass_loop E D opts u (data (udger_deviceclass_regex D)) st3 = Inr st4 \<and>
        deviceclass_fallback D opts st4 = Inr st5 \<and>
        parseUa E D ru (Some u) opts = Inr (res, j) \<and>
        (\<forall>q. find (\<lambda>row. cell (udger_crawler_list D) row ''ua_string'' = JStr u)
                (data (udger_crawler_list D)) = Some q \<and>
              row_at (udger_crawler_class D) (cell (udger_crawler_list D) q ''class_id'') = JUndefined
           \<longrightarrow> list_all (\<lambda>k. oget res k = JStr [])
               [''crawler_category'', ''crawler_category_code'']) \<and>
        (\<forall>row. find (\<lambda>row. cell (udger_crawler_list D) row ''ua_string'' = JStr u)
                  (data (udger_crawler_list D)) = None \<and>
                find (\<lambda>row. re_match E (cell (udger_client_regex D) row ''regstring'') u \<noteq> None)
                  (data (udger_client_regex D)) = Some row \<and>
                row_at (udger_client_list D) (cell (udger_client_regex D) row ''client_id'') = JUndefined
           \<longrightarrow> list_all (\<lambda>k. oget res k = JStr [])
               [''ua_uptodate_current_version'', ''ua_family'', ''ua_family_code'',
                ''ua_family_homepage'', ''ua_family_vendor'', ''ua_family_vendor_code'',
                ''ua_family_vendor_homepage'', ''ua_family_icon'', ''ua_family_icon_big'',
                ''ua_engine''] \<and>
               oget res ''ua_family_info_url''
                 = JStr ''https://udger.com/resources/ua-list/browser-detail?browser='') \<and>
        (\<forall>row. find (\<lambda>row. re_match E (cell (udger_os_regex D) row ''regstring'') u \<noteq> None)
                  (data (udger_os_regex D)) = Some row \<and>
                row_at (udger_os_list D) (cell (udger_os_regex D) row ''os_id'') = JUndefined
           \<longrightarrow> list_all (\<lambda>k. oget res k = JStr [])
               [''os'', ''os_code'', ''os_homepage'', ''os_icon'', ''os_icon_big'',
                ''os_family'', ''os_family_code'', ''os_family_vendor'',
                ''os_family_vendor_code'', ''os_family_vendor_homepage''] \<and>
               oget res ''os_info_url'' = JStr ''https://udger.com/resources/ua-list/os-detail?os='') \<and>
        (\<forall>q r1. loose_eq_num (os_id st2) 0 \<and> \<not> loose_eq_num (client_id st2) 0 \<and>
                 find (\<lambda>row. cell (udger_client_os_relation D) row ''client_id''
                              = col (udger_client_os_relation D) ''client_id'')
                   (data (udger_client_os_relation D)) = Some q \<and>
                 map_row (udger_client_os_relation D) (r_var st2) [''os_id''] [] = Inr r1 \<and>
                 row_at (udger_os_list D) (oget r1 ''os_id'') = JUndefined
           \<longrightarrow> list_all (\<lambda>k. oget res k = JStr [])
               [''os'', ''os_code'', ''os_homepage'', ''os_icon'', ''os_icon_big'',
                ''os_family'', ''os_family_code'', ''os_family_vendor'',
                ''os_family_vendor_code'', ''os_family_vendor_homepage''] \<and>
               oget res ''os_info_url'' = JStr ''https://udger.com/resources/ua-list/os-detail?os='') \<and>
        (\<forall>row. find (\<lambda>row. re_match E (cell (udger_deviceclass_regex D) row ''regstring'') u \<noteq> None)
                  (data (udger_deviceclass_regex D)) = Some row \<and>
                row_at (udger_deviceclass_list D)
                  (cell (udger_deviceclass_regex D) row ''deviceclass_id'') = JUndefined \<and>
                \<not> loose_eq_num (cell (udger_deviceclass_regex D) row ''deviceclass_id'') 0
           \<longrightarrow> list_all (\<lambda>k. oget res k = JStr [])
               [''device_class'', ''device_class_code'', ''device_class_icon'',
                ''device_class_icon_big'']) \<and>
        (\<forall>q. loose_eq_num (deviceclass_id st4) 0 \<and> \<not> loose_eq_num (client_class_id st4) (- 1) \<and>
              find (\<lambda>row. cell (udger_client_class D) row ''id'' = client_class_id st4)
                (data (udger_client_class D)) = Some q \<and>
              row_at (udger_deviceclass_list D) (cell (udger_client_class D) q ''deviceclass_id'') = JUndefined
           \<longrightarrow> list_all (\<lambda>k. oget res k = JStr [])
               [''device_class'', ''device_class_code'', ''device_class_icon'',
                ''device_class_icon_big''] \<and>
               oget res ''device_class_info_url''
                 = JStr ''https://udger.com/resources/ua-list/device-detail?device='') \<and>
        (\<forall>qC. truthy (oget (rua st5) ''os_family_code'') \<and> devicename_row E D u st5 = JArr qC \<and>
               row_at (udger_devicename_brand D) (cell (udger_devicename_list D) qC ''brand_id'') = JUndefined
           \<longrightarrow> list_all (\<lambda>k. oget res k = JStr [])
               [''device_brand'', ''device_brand_code'', ''device_brand_homepage'',
                ''device_brand_icon'', ''device_brand_icon_big''] \<and>
               oget res ''device_brand_info_url''
                 = JStr ''https://udger.com/resources/ua-list/devices-brand-detail?brand='')"
proof -
  obtain st1 where 1: "crawler_or_client E D opts u (ua_init (copy_obj ru) opts u) = Inr st1"
    using crawler_or_client_ok by blast
  from parseUa_stages[OF assms 1] obtain st2 st3 st4 st5 st6 where
    s: "os_loop E D opts u (data (udger_os_regex D)) st1 = Inr st2"
       "os_relation D st2 = Inr st3"
       "deviceclass_loop E D opts u (data (udger_deviceclass_regex D)) st3 = Inr st4"
       "deviceclass_fallback D opts st4 = Inr st5"
       "devicename E D u st5 = Inr st6"
    and p: "parseUa E D ru (Some u) opts = Inr (rua st6, ruaJson st6)"
    by blast
  note j1 = dangling_crawler_class[OF 1 s, unfolded all_empty_def crawler_class_fields_def client_list_fields_def os_list_fields_def deviceclass_list_fields_def brand_fields_def ip_class_fields_def ip_crawler_fields_def datacenter_fields_def]
  note j2 = dangling_client_list[OF 1 s, unfolded all_empty_def crawler_class_fields_def client_list_fields_def os_list_fields_def deviceclass_list_fields_def brand_fields_def ip_class_fields_def ip_crawler_fields_def datacenter_fields_def]
  note j4 = dangling_os_list[OF s, unfolded all_empty_def crawler_class_fields_def client_list_fields_def os_list_fields_def deviceclass_list_fields_def brand_fields_def ip_class_fields_def ip_crawler_fields_def datacenter_fields_def]
  note j5 = dangling_os_relation[OF s(2-5), unfolded all_empty_def crawler_class_fields_def client_list_fields_def os_list_fields_def deviceclass_list_fields_def brand_fields_def ip_class_fields_def ip_crawler_fields_def datacenter_fields_def]
  note j6 = dangling_deviceclass_list[OF s(3-5), unfolded all_empty_def crawler_class_fields_def client_list_fields_def os_list_fields_def deviceclass_list_fields_def brand_fields_def ip_class_fields_def ip_crawler_fields_def datacenter_fields_def]
  note j7 = dangling_deviceclass_fallback[OF s(4,5), unfolded all_empty_def crawler_class_fields_def client_list_fields_def os_list_fields_def deviceclass_list_fields_def brand_fields_def ip_class_fields_def ip_crawler_fields_def datacenter_fields_def]
  note j8 = dangling_devicename_brand[OF s(5), unfolded all_empty_def crawler_class_fields_def client_list_fields_def os_list_fields_def deviceclass_list_fields_def brand_fields_def ip_class_fields_def ip_crawler_fields_def datacenter_fields_def]
  show ?thesis
    apply (rule exI[of _ st1], rule exI[of _ st2], rule exI[of _ st3], rule exI[of _ st4],
        rule exI[of _ st5], rule exI[of _ "rua st6"], rule exI[of _ "ruaJson st6"])
    apply (intro conjI allI impI)
    apply (rule 1)
    apply (rule s(1))
    apply (rule s(2))
    apply (rule s(3))
    apply (rule s(4))
    apply (rule p)
    apply (elim conjE, rule j1, assumption+)
    apply (elim conjE, rule j2[THEN conjunct1], assumption+)
    apply (elim conjE, rule j2[THEN conjunct2], assumption+)
    apply (elim conjE, rule j4[THEN conjunct1], assumption+)
    apply (elim conjE, rule j4[THEN conjunct2], assumption+)
    apply (elim conjE, rule j5[THEN conjunct1], assumption+)
    apply (elim conjE, rule j5[THEN conjunct2], assumption+)
    apply (elim conjE, rule j6, assumption+)
    apply (elim conjE, rule j7[THEN conjunct1], assumption+)
    apply (elim conjE, rule j7[THEN conjunct2], assumption+)
    apply (elim conjE, rule j8[THEN conjunct1], assumption+)
    apply (elim conjE, rule j8[THEN conjunct2], assumption+)
    done
qed

lemma dangling_ip:
  assumes "a \<noteq> []"
  shows "\<exists>res j.
        parseIp E D ri (Some a) opts = Inr (res, j) \<and>
        (\<forall>q. find (\<lambda>row. cell (udger_ip_list D) row ''ip'' = JStr (canonical E a))
                (data (udger_ip_list D)) = Some q \<and>
              row_at (udger_ip_class D) (cell (udger_ip_list D) q ''class_id'') = JUndefined
           \<longrightarrow> list_all (\<lambda>k. oget res k = JStr [])
               [''ip_classification'', ''ip_classification_code'']) \<and>
        (\<forall>q. find (\<lambda>row. cell (udger_ip_list D) row ''ip'' = JStr (canonical E a))
                (data (udger_ip_list D)) = Some q \<and>
              row_at (udger_crawler_list D) (cell (udger_ip_list D) q ''crawler_id'') = JUndefined
           \<longrightarrow> list_all (\<lambda>k. oget res k = JStr [])
               [''crawler_name'', ''crawler_ver'', ''crawler_ver_major'', ''crawler_family'',
                ''crawler_family_code'', ''crawler_family_homepage'',
                ''crawler_family_vendor'', ''crawler_family_vendor_code'',
                ''crawler_family_vendor_homepage'', ''crawler_family_icon'',
                ''crawler_last_seen'', ''crawler_category'', ''crawler_category_code'',
                ''crawler_respect_robotstxt'']) \<and>
        (\<forall>q cr. find (\<lambda>row. cell (udger_ip_list D) row ''ip'' = JStr (canonical E a))
                   (data (udger_ip_list D)) = Some q \<and>
                 row_at (udger_crawler_list D) (cell (udger_ip_list D) q ''crawler_id'') = JArr cr \<and>
                 row_at (udger_crawler_class D) (cell (udger_crawler_list D) cr ''class_id'') = JUndefined
           \<longrightarrow> list_all (\<lambda>k. oget res k = JStr [])
               [''crawler_category'', ''crawler_category_code'']) \<and>
        (\<forall>q. getIpVersion E a = JNum 4 \<and>
              find (\<lambda>row. in_range (udger_datacenter_range D) row ''iplong_from'' ''iplong_to''
                           (ip2long E (canonical E a)))
                (data (udger_datacenter_range D)) = Some q \<and>
              row_at (udger_datacenter_list D) (cell (udger_datacenter_range D) q ''datacenter_id'') = JUndefined
           \<longrightarrow> list_all (\<lambda>k. oget res k = JStr [])
               [''datacenter_name'', ''datacenter_name_code'', ''datacenter_homepage'']) \<and>
        (\<forall>q. getIpVersion E a = JNum 6 \<and>
              find (in_range6 (udger_datacenter_range6 D) (ipInts E (canonical E a)))
                (data (udger_datacenter_range6 D)) = Some q \<and>
              row_at (udger_datacenter_list D) (cell (udger_datacenter_range6 D) q ''datacenter_id'') = JUndefined
           \<longrightarrow> list_all (\<lambda>k. oget res k = JStr [])
               [''datacenter_name'', ''datacenter_name_code'', ''datacenter_homepage''])"
proof -
  from parseIp_run[OF assms, of D opts E ri] obtain st1 st2 where
    s: "ip_lookup D opts (canonical E a) (ip_init (copy_obj ri) opts a (getIpVersion E a)) = Inr st1"
       "datacenter E D opts (getIpVersion E a) (canonical E a) st1 = Inr st2"
    and p: "parseIp E D ri (Some a) opts = Inr st2"
    by blast
  note j1 = dangling_ip_class[OF s, unfolded all_empty_def crawler_class_fields_def client_list_fields_def os_list_fields_def deviceclass_list_fields_def brand_fields_def ip_class_fields_def ip_crawler_fields_def datacenter_fields_def]
  note j2 = dangling_ip_crawler[OF s, unfolded all_empty_def crawler_class_fields_def client_list_fields_def os_list_fields_def deviceclass_list_fields_def brand_fields_def ip_class_fields_def ip_crawler_fields_def datacenter_fields_def]
  note j3 = dangling_ip_crawler_class[OF s, unfolded all_empty_def crawler_class_fields_def client_list_fields_def os_list_fields_def deviceclass_list_fields_def brand_fields_def ip_class_fields_def ip_crawler_fields_def datacenter_fields_def]
  have j4: "list_all (\<lambda>k. oget (fst st2) k = JStr [])
      [''datacenter_name'', ''datacenter_name_code'', ''datacenter_homepage'']"
    if "getIpVersion E a = JNum 4"
       "find (\<lambda>row. in_range (udger_datacenter_range D) row ''iplong_from'' ''iplong_to''
                           (ip2long E (canonical E a)))
                (data (udger_datacenter_range D)) = Some q"
       "row_at (udger_datacenter_list D) (cell (udger_datacenter_range D) q ''datacenter_id'') = JUndefined"
    for q
    using dangling_datacenter4[OF _ that(2,3), of opts st1 st2] s(2) that(1)
    by (simp add: all_empty_def datacenter_fields_def)
  have j5: "list_all (\<lambda>k. oget (fst st2) k = JStr [])
      [''datacenter_name'', ''datacenter_name_code'', ''datacenter_homepage'']"
    if "getIpVersion E a = JNum 6"
       "find (in_range6 (udger_datacenter_range6 D) (ipInts E (canonical E a)))
                (data (udger_datacenter_range6 D)) = Some q"
       "row_at (udger_datacenter_list D) (cell (udger_datacenter_range6 D) q ''datacenter_id'') = JUndefined"
    for q
    using dangling_datacenter6[OF _ that(2,3), of opts st1 st2] s(2) that(1)
    by (simp add: all_empty_def datacenter_fields_def)
  show ?thesis
    apply (rule exI[of _ "fst st2"], rule exI[of _ "snd st2"])
    apply (intro conjI allI impI)
    apply (simp add: p)
    apply (elim conjE, rule j1, assumption+)
    apply (elim conjE, rule j2, assumption+)
    apply (elim conjE, rule j3, assumption+)
    apply (elim conjE, rule j4, assumption+)
    apply (elim conjE, rule j5, assumption+)
    done
qed

subsection \<open>Runs on datasets with dangling ids\<close>

lemma demo_dangling_kept:
  "udger_crawler_list demo_dangling = udger_crawler_list demo_data"
  "udger_client_regex demo_dangling = udger_client_regex demo_data"
  "udger_os_regex demo_dangling = udger_os_regex demo_data"
  "udger_client_class demo_dangling = udger_client_class demo_data"
  "udger_ip_list demo_dangling = udger_ip_list demo_data"
  "udger_datacenter_range demo_dangling = udger_datacenter_range demo_data"
  by (simp_all add: demo_dangling_def)

lemma row_at_no_rows: "data t = [] \<Longrightarrow> v = JNull \<or> (\<exists>n. v = JNum n) \<Longrightarrow> row_at t v = JUndefined"
  by (auto simp: row_at_def arr_at_def)

lemma demo_dangling_empty:
  "data (udger_crawler_class demo_dangling) = []" "data (udger_client_list demo_dangling) = []"
  "data (udger_os_list demo_dangling) = []" "data (udger_deviceclass_list demo_dangling) = []"
  "data (udger_ip_class demo_dangling) = []" "data (udger_datacenter_list demo_dangling) = []"
  by (simp_all add: demo_dangling_def)

lemma demo_googlebot_row:
  "find (\<lambda>row. cell (udger_crawler_list demo_dangling) row ''ua_string'' = JStr ua_googlebot)
     (data (udger_crawler_list demo_dangling)) = Some (data (udger_crawler_list demo_data) ! 0)"
  "cell (udger_crawler_list demo_dangling) (data (udger_crawler_list demo_data) ! 0) ''class_id'' = JNum 0"
  "ua_googlebot \<noteq> []"
  by (simp_all add: demo_dangling_kept demo_tables demo_strings cell_def col_def arr_at_def)

lemma demo_firefox_rows:
  "ua_firefox \<noteq> []"
  "find (\<lambda>row. cell (udger_crawler_list demo_dangling) row ''ua_string'' = JStr ua_firefox)
     (data (udger_crawler_list demo_dangling)) = None"
  "find (\<lambda>row. re_match demo_env (cell (udger_client_regex demo_dangling) row ''regstring'') ua_firefox \<noteq> None)
     (data (udger_client_regex demo_dangling)) = Some row_firefox"
  "cell (udger_client_regex demo_dangling) row_firefox ''client_id'' = JNum 0"
  "find (\<lambda>row. re_match demo_env (cell (udger_os_regex demo_dangling) row ''regstring'') ua_firefox \<noteq> None)
     (data (udger_os_regex demo_dangling)) = Some [JNum 0, JNum 20, JNum 0, JStr re_windows10, JNum 1]"
  "cell (udger_os_regex demo_dangling) [JNum 0, JNum 20, JNum 0, JStr re_windows10, JNum 1] ''os_id'' = JNum 0"
  "find (\<lambda>row. re_match demo_env (cell (udger_deviceclass_regex demo_dangling) row ''regstring'') ua_firefox \<noteq> None)
     (data (udger_deviceclass_regex demo_dangling)) = Some [JNull, JStr re_firefox, JNum 1]"
  "cell (udger_deviceclass_regex demo_dangling) [JNull, JStr re_firefox, JNum 1] ''deviceclass_id'' = JNull"
  by (simp_all add: demo_dangling_kept demo_tables demo_strings demo_matching cell_def col_def arr_at_def
      row_firefox_def demo_dangling_def)


lemma demo_ip_rows:
  "canonical demo_env ''66.249.64.73'' = ''66.249.64.73''" "getIpVersion demo_env ''66.249.64.73'' = JNum 4"
  "find (\<lambda>row. cell (udger_ip_list demo_dangling) row ''ip'' = JStr ''66.249.64.73'')
     (data (udger_ip_list demo_dangling)) = Some (data (udger_ip_list demo_data) ! 0)"
  "cell (udger_ip_list demo_dangling) (data (udger_ip_list demo_data) ! 0) ''class_id'' = JNum 0"
  "row_at (udger_crawler_list demo_dangling)
     (cell (udger_ip_list demo_dangling) (data (udger_ip_list demo_data) ! 0) ''crawler_id'')
     = JArr (data (udger_crawler_list demo_data) ! 0)"
  "find (\<lambda>row. in_range (udger_datacenter_range demo_dangling) row ''iplong_from'' ''iplong_to''
                (ip2long demo_env ''66.249.64.73''))
     (data (udger_datacenter_range demo_dangling))
     = Some [JNum 0, JStr ''66.249.64.0'', JStr ''66.249.95.255'', JNum 1123631104, JNum 1123639295]"
  "cell (udger_datacenter_range demo_dangling)
     [JNum 0, JStr ''66.249.64.0'', JStr ''66.249.95.255'', JNum 1123631104, JNum 1123639295]
     ''datacenter_id'' = JNum 0"
  by (simp_all add: canonical_def demo_env_def demo_dangling_kept demo_tables cell_def col_def arr_at_def
      row_at_def in_range_def js_le_def js_ge_def)

lemma demo_ip6_rows:
  "canonical demo_env ''::1'' = ''::1''" "getIpVersion demo_env ''::1'' = JNum 6"
  "find (\<lambda>row. cell (udger_ip_list demo_dangling) row ''ip'' = JStr ''::1'')
     (data (udger_ip_list demo_dangling)) = Some (data (udger_ip_list demo_data) ! 1)"
  "cell (udger_ip_list demo_dangling) (data (udger_ip_list demo_data) ! 1) ''crawler_id'' = JNull"
  "find (in_range6 (udger_datacenter_range6 demo_dangling) (ipInts demo_env ''::1''))
     (data (udger_datacenter_range6 demo_dangling))
     = Some (data (udger_datacenter_range6 demo_dangling) ! 0)"
  "cell (udger_datacenter_range6 demo_dangling) (data (udger_datacenter_range6 demo_dangling) ! 0)
     ''datacenter_id'' = JNull"
  by (simp_all add: canonical_def demo_env_def demo_dangling_kept demo_tables cell_def col_def arr_at_def
      packed_loopback6_def demo_dangling_def in_range6_def in_range_def js_le_def js_ge_def ipInt_def)


lemma demo_client_join_wget:
  "\<exists>r. client_join demo_data (JArr row_wget) = Inr r \<and> oget r ''class_id'' = JNum 4"
  by (simp add: client_join_def eval_row demo_tables row_wget_def)

lemma client_fill_class_id:
  "client_class_id (client_fill opts e st r) = oget r ''class_id''"
  "deviceclass_id (client_fill opts e st r) = deviceclass_id st"
  by (simp_all add: client_fill_def Let_def)

lemma demo_wget_state:
  assumes "crawler_or_client demo_env demo_data opts ua_wget (ua_init ru0 opts ua_wget) = Inr st1"
      and "os_loop demo_env demo_data opts ua_wget (data (udger_os_regex demo_data)) st1 = Inr st2"
      and "os_relation demo_data st2 = Inr st3"
      and "deviceclass_loop demo_env demo_data opts ua_wget (data (udger_deviceclass_regex demo_data)) st3 = Inr st4"
  shows "client_class_id st4 = JNum 4 \<and> deviceclass_id st4 = JNum 0"
proof -
  let ?st0 = "ua_init ru0 opts ua_wget"
  obtain r where r: "client_join demo_data (JArr row_wget) = Inr r" "oget r ''class_id'' = JNum 4"
    using demo_client_join_wget by blast
  have "st1 = client_fill opts [Some ''Wget''] (?st0\<lparr>r_var := JArr row_wget\<rparr>) r"
    using assms(1) demo_not_crawlers(2) client_loop_first[OF demo_client_rows(3,4), of opts ?st0] r(1)
    by (simp add: crawler_or_client_def findBy_def client_found_def)
  then have 1: "client_class_id st1 = JNum 4" "deviceclass_id st1 = JNum 0"
    by (simp_all add: client_fill_class_id r(2) ua_init_def)
  have 2: "client_class_id st2 = JNum 4" "deviceclass_id st2 = JNum 0"
    using os_loop_frame[OF assms(2), of "[]"] 1 by simp_all
  have 3: "client_class_id st3 = JNum 4" "deviceclass_id st3 = JNum 0"
    using os_relation_frame[OF assms(3), of "[]"] 2 by simp_all
  have "st4 = st3" using assms(4) by (simp add: demo_tables)
  then show ?thesis using 3 by simp
qed

lemma demo_wget_class:
  "find (\<lambda>row. cell (udger_client_class demo_data) row ''id'' = JNum 4) (data (udger_client_class demo_data))
     = Some [JNum 4, JStr ''Library'', JStr ''library'', JNull]"
  "row_at (udger_deviceclass_list demo_data)
     (cell (udger_client_class demo_data) [JNum 4, JStr ''Library'', JStr ''library'', JNull] ''deviceclass_id'')
     = JUndefined"
  "ua_wget \<noteq> []"
  by (simp_all add: demo_tables demo_strings cell_def col_def arr_at_def row_at_def)

lemma demo_msie_dangling:
  "ua_msie \<noteq> []"
  "find (\<lambda>row. cell (udger_crawler_list demo_dangling) row ''ua_string'' = JStr ua_msie)
     (data (udger_crawler_list demo_dangling)) = None"
  "find (\<lambda>row. re_match demo_env (cell (udger_client_regex demo_dangling) row ''regstring'') ua_msie \<noteq> None)
     (data (udger_client_regex demo_dangling)) = Some row_msie"
  "re_match demo_env (cell (udger_client_regex demo_dangling) row_msie ''regstring'') ua_msie
     = Some [Some ''MSIE 6.0'', Some ''6.0'']"
  "cell (udger_client_regex demo_dangling) row_msie ''client_id'' = JNum 1"
  "find (\<lambda>row. re_match demo_env (cell (udger_os_regex demo_dangling) row ''regstring'') ua_msie \<noteq> None)
     (data (udger_os_regex demo_dangling)) = None"
  "last (data (udger_os_regex demo_dangling)) = row_os_android"
  "data (udger_os_regex demo_dangling) \<noteq> []"
  "find (\<lambda>row. cell (udger_client_os_relation demo_dangling) row ''client_id''
                = col (udger_client_os_relation demo_dangling) ''client_id'')
     (data (udger_client_os_relation demo_dangling)) = Some [JNum 0, JNum 2]"
  "map_row (udger_client_os_relation demo_dangling) (JArr row_os_android) [''os_id''] []
     = Inr [(''os_id'', JNum 1)]"
  "row_at (udger_os_list demo_dangling) (oget [(''os_id'', JNum 1)] ''os_id'') = JUndefined"
  using demo_not_crawlers(3) demo_client_msie demo_os_none_msie demo_last_os_row
  by (simp_all add: demo_dangling_kept row_at_no_rows demo_dangling_empty)
     (simp_all add: demo_dangling_def demo_tables demo_strings cell_def col_def arr_at_def row_msie_def
        map_row_array row_os_android_def)

lemma demo_msie_state:
  assumes "crawler_or_client demo_env demo_dangling opts ua_msie (ua_init ru0 opts ua_msie) = Inr st1"
      and "os_loop demo_env demo_dangling opts ua_msie (data (udger_os_regex demo_dangling)) st1 = Inr st2"
  shows "os_id st2 = JNum 0 \<and> client_id st2 = JNum 1 \<and> r_var st2 = JArr row_os_android"
proof -
  let ?st0 = "ua_init ru0 opts ua_msie"
  let ?r = "[(''client_id'', cell (udger_client_regex demo_dangling) row_msie ''client_id''),
             (''regstring'', cell (udger_client_regex demo_dangling) row_msie ''regstring'')]"
  have d: "row_at (udger_client_list demo_dangling) (cell (udger_client_regex demo_dangling) row_msie ''client_id'')
             = JUndefined"
    by (simp add: demo_msie_dangling(5) row_at_no_rows demo_dangling_empty)
  have "st1 = client_fill opts [Some ''MSIE 6.0'', Some ''6.0''] (?st0\<lparr>r_var := JArr row_msie\<rparr>) ?r"
    using assms(1) demo_msie_dangling(2) client_loop_first[OF demo_msie_dangling(3,4), of opts ?st0]
      client_join_dangling[OF d]
    by (simp add: crawler_or_client_def findBy_def client_found_def)
  then have 1: "client_id st1 = JNum 1" "os_id st1 = JNum 0"
    by (simp_all add: client_fill_ids demo_msie_dangling(5) ua_init_def)
  have "st2 = st1\<lparr>r_var := JArr row_os_android\<rparr>"
    using assms(2) os_loop_none[OF demo_msie_dangling(6), of opts st1]
    by (simp add: demo_msie_dangling(7,8))
  then show ?thesis using 1 by simp
qed

lemma demo_devicename_rows:
  "ua_firefox \<noteq> []"
  "find (\<lambda>row. re_match demo_env (cell (udger_os_regex demo_devicename) row ''regstring'') ua_firefox \<noteq> None)
     (data (udger_os_regex demo_devicename)) = Some [JNum 0, JNum 20, JNum 0, JStr re_windows10, JNum 1]"
  "\<exists>r. os_join demo_devicename (JArr [JNum 0, JNum 20, JNum 0, JStr re_windows10, JNum 1]) = Inr r \<and>
       oget r ''os_id'' = JNum 4 \<and> oget r ''family_code'' = JStr ''windows'' \<and>
       oget r ''name_code'' = JStr ''windows_10''"
  "data (udger_deviceclass_regex demo_devicename) = []"
  "row_at (udger_devicename_brand demo_devicename)
     (cell (udger_devicename_list demo_devicename) [JNum 0, JNull, JStr ''40.0'', JStr ''Forty''] ''brand_id'')
     = JUndefined"
  by (simp_all add: demo_devicename_def demo_tables demo_strings demo_matching cell_def col_def arr_at_def
      os_join_def os_keys_def eval_row)

lemma demo_firefox_state:
  assumes "os_loop demo_env demo_devicename opts ua_firefox (data (udger_os_regex demo_devicename)) st1 = Inr st2"
      and "os_relation demo_devicename st2 = Inr st3"
      and "deviceclass_loop demo_env demo_devicename opts ua_firefox
             (data (udger_deviceclass_regex demo_devicename)) st3 = Inr st4"
      and "deviceclass_fallback demo_devicename opts st4 = Inr st5"
  shows "oget (rua st5) ''os_family_code'' = JStr ''windows'' \<and>
         oget (rua st5) ''os_code'' = JStr ''windows_10''"
proof -
  let ?row = "[JNum 0, JNum 20, JNum 0, JStr re_windows10, JNum 1]"
  obtain r where r: "os_join demo_devicename (JArr ?row) = Inr r" "oget r ''os_id'' = JNum 4"
    "oget r ''family_code'' = JStr ''windows''" "oget r ''name_code'' = JStr ''windows_10''"
    using demo_devicename_rows(3) by blast
  have "st2 = os_fill opts (st1\<lparr>r_var := JArr ?row\<rparr>) r"
    using assms(1) os_loop_first[OF demo_devicename_rows(2), of opts st1] r(1) by (simp add: os_found_def)
  then have 2: "oget (rua st2) ''os_family_code'' = JStr ''windows''"
    "oget (rua st2) ''os_code'' = JStr ''windows_10''" "os_id st2 = JNum 4"
    by (simp_all add: os_fill_def Let_def os_fields_values r js_or_def)
  have "st3 = st2" using assms(2) 2(3) by (simp add: os_relation_def loose_eq_num_def)
  moreover have "st4 = st3" using assms(3) by (simp add: demo_devicename_rows(4))
  moreover have "oget (rua st5) k = oget (rua st4) k" if "k \<notin> set deviceclass_field_names" for k
    using deviceclass_fallback_frame[OF assms(4) that] .
  ultimately show ?thesis using 2 by (simp add: deviceclass_field_names_def)
qed

lemma demo_firefox_devicename:
  assumes "oget (rua st5) ''os_family_code'' = JStr ''windows''"
      and "oget (rua st5) ''os_code'' = JStr ''windows_10''"
  shows "devicename_row demo_env demo_devicename ua_firefox st5
           = JArr [JNum 0, JNull, JStr ''40.0'', JStr ''Forty'']"
  using assms
  by (simp add: devicename_row_def Let_def filterBy_def findBy_def demo_devicename_def tbl_def
      cell_def col_def arr_at_def demo_matching demo_strings group1_def trim_def is_blank_def)

section \<open>The claim about foreign ids that name no row\<close>

text \<open>
  Claim C9. A foreign id that names no row raises no error: the lookup gives undefined,
  \<^verbatim>\<open>map\<close> gives the empty object, the join leaves \<^verbatim>\<open>r\<close> as it was, and
  \<^verbatim>\<open>parseUa\<close> and \<^verbatim>\<open>parseIp\<close> always return a result. In that result every field
  that the parser assigns as \<^verbatim>\<open>r[column] || ''\<close> from a column of the missing row is the
  empty string, whatever the default result held. This is stated for each join of
  \<^verbatim>\<open>parseUa\<close>, in the order of its stages \<open>st1\<close> to \<open>st5\<close> (the class of a
  crawler; the client of the first matching client regex; the OS of the first matching OS
  regex; the OS of the client/OS relation; the device class of the first matching device
  class regex; the device class of the client class; the brand of the device name), and
  for each join of \<^verbatim>\<open>parseIp\<close> (the class of the address; its crawler; the class of
  that crawler; the datacenter of an IPv4 and of an IPv6 range). For the device class
  found by regex the dangling id must not be loosely equal to 0, as \<^verbatim>\<open>null\<close> is not:
  otherwise the stage that follows fills the device class from the client class. That
  every dependent field is the empty string fails for the info-URL fields, which are a
  fixed URL prefix followed by the (empty) name.
\<close>

theorem dangling_join_defaults:
  "(row_at t fk = JUndefined \<longrightarrow>
      map_row t (row_at t fk) keys rn = Inr [] \<and> join r t fk keys rn = Inr r) \<and>
   (\<exists>res. parseUa E D ru v opts = Inr res) \<and>
   (\<exists>res. parseIp E D ri w opts = Inr res) \<and>
   (u \<noteq> [] \<longrightarrow>
     (\<exists>st1 st2 st3 st4 st5 res j.
        crawler_or_client E D opts u (ua_init (copy_obj ru) opts u) = Inr st1 \<and>
        os_loop E D opts u (data (udger_os_regex D)) st1 = Inr st2 \<and>
        os_relation D st2 = Inr st3 \<and>
        deviceclass_loop E D opts u (data (udger_deviceclass_regex D)) st3 = Inr st4 \<and>
        deviceclass_fallback D opts st4 = Inr st5 \<and>
        parseUa E D ru (Some u) opts = Inr (res, j) \<and>
        (\<forall>q. find (\<lambda>row. cell (udger_crawler_list D) row ''ua_string'' = JStr u)
                (data (udger_crawler_list D)) = Some q \<and>
              row_at (udger_crawler_class D) (cell (udger_crawler_list D) q ''class_id'') = JUndefined
           \<longrightarrow> list_all (\<lambda>k. oget res k = JStr [])
               [''crawler_category'', ''crawler_category_code'']) \<and>
        (\<forall>row. find (\<lambda>row. cell (udger_crawler_list D) row ''ua_string'' = JStr u)
                  (data (udger_crawler_list D)) = None \<and>
                find (\<lambda>row. re_match E (cell (udger_client_regex D) row ''regstring'') u \<noteq> None)
                  (data (udger_client_regex D)) = Some row \<and>
                row_at (udger_client_list D) (cell (udger_client_regex D) row ''client_id'') = JUndefined
           \<longrightarrow> list_all (\<lambda>k. oget res k = JStr [])
               [''ua_uptodate_current_version'', ''ua_family'', ''ua_family_code'',
                ''ua_family_homepage'', ''ua_family_vendor'', ''ua_family_vendor_code'',
                ''ua_family_vendor_homepage'', ''ua_family_icon'', ''ua_family_icon_big'',
                ''ua_engine''] \<and>
               oget res ''ua_family_info_url''
                 = JStr ''https://udger.com/resources/ua-list/browser-detail?browser='') \<and>
        (\<forall>row. find (\<lambda>row. re_match E (cell (udger_os_regex D) row ''regstring'') u \<noteq> None)
                  (data (udger_os_regex D)) = Some row \<and>
                row_at (udger_os_list D) (cell (udger_os_regex D) row ''os_id'') = JUndefined
           \<longrightarrow> list_all (\<lambda>k. oget res k = JStr [])
               [''os'', ''os_code'', ''os_homepage'', ''os_icon'', ''os_icon_big'',
                ''os_family'', ''os_family_code'', ''os_family_vendor'',
                ''os_family_vendor_code'', ''os_family_vendor_homepage''] \<and>
               oget res ''os_info_url'' = JStr ''https://udger.com/resources/ua-list/os-detail?os='') \<and>
        (\<forall>q r1. loose_eq_num (os_id st2) 0 \<and> \<not> loose_eq_num (client_id st2) 0 \<and>
                 find (\<lambda>row. cell (udger_client_os_relation D) row ''client_id''
                              = col (udger_client_os_relation D) ''client_id'')
                   (data (udger_client_os_relation D)) = Some q \<and>
                 map_row (udger_client_os_relation D) (r_var st2) [''os_id''] [] = Inr r1 \<and>
                 row_at (udger_os_list D) (oget r1 ''os_id'') = JUndefined
           \<longrightarrow> list_all (\<lambda>k. oget res k = JStr [])
               [''os'', ''os_code'', ''os_homepage'', ''os_icon'', ''os_icon_big'',
                ''os_family'', ''os_family_code'', ''os_family_vendor'',
                ''os_family_vendor_code'', ''os_family_vendor_homepage''] \<and>
               oget res ''os_info_url'' = JStr ''https://udger.com/resources/ua-list/os-detail?os='') \<and>
        (\<forall>row. find (\<lambda>row. re_match E (cell (udger_deviceclass_regex D) row ''regstring'') u \<noteq> None)
                  (data (udger_deviceclass_regex D)) = Some row \<and>
                row_at (udger_deviceclass_list D)
                  (cell (udger_deviceclass_regex D) row ''deviceclass_id'') = JUndefined \<and>
                \<not> loose_eq_num (cell (udger_deviceclass_regex D) row ''deviceclass_id'') 0
           \<longrightarrow> list_all (\<lambda>k. oget res k = JStr [])
               [''device_class'', ''device_class_code'', ''device_class_icon'',
                ''device_class_icon_big'']) \<and>
        (\<forall>q. loose_eq_num (deviceclass_id st4) 0 \<and> \<not> loose_eq_num (client_class_id st4) (- 1) \<and>
              find (\<lambda>row. cell (udger_client_class D) row ''id'' = client_class_id st4)
                (data (udger_client_class D)) = Some q \<and>
              row_at (udger_deviceclass_list D) (cell (udger_client_class D) q ''deviceclass_id'') = JUndefined
           \<longrightarrow> list_all (\<lambda>k. oget res k = JStr [])
               [''device_class'', ''device_class_code'', ''device_class_icon'',
                ''device_class_icon_big''] \<and>
               oget res ''device_class_info_url''
                 = JStr ''https://udger.com/resources/ua-list/device-detail?device='') \<and>
        (\<forall>qC. truthy (oget (rua st5) ''os_family_code'') \<and> devicename_row E D u st5 = JArr qC \<and>
               row_at (udger_devicename_brand D) (cell (udger_devicename_list D) qC ''brand_id'') = JUndefined
           \<longrightarrow> list_all (\<lambda>k. oget res k = JStr [])
               [''device_brand'', ''device_brand_code'', ''device_brand_homepage'',
                ''device_brand_icon'', ''device_brand_icon_big''] \<and>
               oget res ''device_brand_info_url''
                 = JStr ''https://udger.com/resources/ua-list/devices-brand-detail?brand=''))) \<and>
   (a \<noteq> [] \<longrightarrow>
     (\<exists>res j.
        parseIp E D ri (Some a) opts = Inr (res, j) \<and>
        (\<forall>q. find (\<lambda>row. cell (udger_ip_list D) row ''ip'' = JStr (canonical E a))
                (data (udger_ip_list D)) = Some q \<and>
              row_at (udger_ip_class D) (cell (udger_ip_list D) q ''class_id'') = JUndefined
           \<longrightarrow> list_all (\<lambda>k. oget res k = JStr [])
               [''ip_classification'', ''ip_classification_code'']) \<and>
        (\<forall>q. find (\<lambda>row. cell (udger_ip_list D) row ''ip'' = JStr (canonical E a))
                (data (udger_ip_list D)) = Some q \<and>
              row_at (udger_crawler_list D) (cell (udger_ip_list D) q ''crawler_id'') = JUndefined
           \<longrightarrow> list_all (\<lambda>k. oget res k = JStr [])
               [''crawler_name'', ''crawler_ver'', ''crawler_ver_major'', ''crawler_family'',
                ''crawler_family_code'', ''crawler_family_homepage'',
                ''crawler_family_vendor'', ''crawler_family_vendor_code'',
                ''crawler_family_vendor_homepage'', ''crawler_family_icon'',
                ''crawler_last_seen'', ''crawler_category'', ''crawler_category_code'',
                ''crawler_respect_robotstxt'']) \<and>
        (\<forall>q cr. find (\<lambda>row. cell (udger_ip_list D) row ''ip'' = JStr (canonical E a))
                   (data (udger_ip_list D)) = Some q \<and>
                 row_at (udger_crawler_list D) (cell (udger_ip_list D) q ''crawler_id'') = JArr cr \<and>
                 row_at (udger_crawler_class D) (cell (udger_crawler_list D) cr ''class_id'') = JUndefined
           \<longrightarrow> list_all (\<lambda>k. oget res k = JStr [])
               [''crawler_category'', ''crawler_category_code'']) \<and>
        (\<forall>q. getIpVersion E a = JNum 4 \<and>
              find (\<lambda>row. in_range (udger_datacenter_range D) row ''iplong_from'' ''iplong_to''
                           (ip2long E (canonical E a)))
                (data (udger_datacenter_range D)) = Some q \<and>
              row_at (udger_datacenter_list D) (cell (udger_datacenter_range D) q ''datacenter_id'') = JUndefined
           \<longrightarrow> list_all (\<lambda>k. oget res k = JStr [])
               [''datacenter_name'', ''datacenter_name_code'', ''datacenter_homepage'']) \<and>
        (\<forall>q. getIpVersion E a = JNum 6 \<and>
              find (in_range6 (udger_datacenter_range6 D) (ipInts E (canonical E a)))
                (data (udger_datacenter_range6 D)) = Some q \<and>
              row_at (udger_datacenter_list D) (cell (udger_datacenter_range6 D) q ''datacenter_id'') = JUndefined
           \<longrightarrow> list_all (\<lambda>k. oget res k = JStr [])
               [''datacenter_name'', ''datacenter_name_code'', ''datacenter_homepage''])))"
proof -
  have 1: "row_at t fk = JUndefined \<longrightarrow>
      map_row t (row_at t fk) keys rn = Inr [] \<and> join r t fk keys rn = Inr r"
    by (simp add: join_dangling map_row_missing)
  have 2: "\<exists>res. parseUa E D ru v opts = Inr res" using parseUa_ok by blast
  have 3: "\<exists>res. parseIp E D ri w opts = Inr res" using parseIp_ok by blast
  show ?thesis
    apply (intro conjI)
    apply (rule 1)
    apply (rule 2)
    apply (rule 3)
    apply (rule impI, erule dangling_ua)
    apply (rule impI, erule dangling_ip)
    done
qed

text \<open>
  Runs in which a join finds no row, one for each join above, with defaults that hold
  \<open>?\<close> in a field the stage assigns. On the dataset without lookup rows: the crawler
  Googlebot (crawler class); Firefox (client, OS and device class by regex); Internet
  Explorer (OS by the client/OS relation, which here finds the row for client 0 and reads
  the last OS regex row); the address \<open>66.249.64.73\<close> (IP class, class of its crawler,
  IPv4 datacenter) and \<open>::1\<close> (no crawler, IPv6 datacenter). On the small dataset: Wget,
  whose client class has no device class. On the dataset with a device name: Firefox,
  whose device has no brand.
\<close>

theorem dangling_join_defaults_witness:
  "row_at (udger_os_list demo_data) JNull = JUndefined \<and>
   map_row (udger_os_list demo_data) (row_at (udger_os_list demo_data) JNull) os_keys [(''id'', ''os_id'')]
     = Inr [] \<and>
   join [(''os_id'', JNull)] (udger_os_list demo_data) JNull os_keys [(''id'', ''os_id'')]
     = Inr [(''os_id'', JNull)] \<and>
   ua_googlebot \<noteq> [] \<and>
   find (\<lambda>row. cell (udger_crawler_list demo_dangling) row ''ua_string'' = JStr ua_googlebot)
     (data (udger_crawler_list demo_dangling)) = Some (data (udger_crawler_list demo_data) ! 0) \<and>
   row_at (udger_crawler_class demo_dangling)
     (cell (udger_crawler_list demo_dangling) (data (udger_crawler_list demo_data) ! 0) ''class_id'')
     = JUndefined \<and>
   (\<exists>res j. parseUa demo_env demo_dangling [(''crawler_category'', JStr ''?'')] (Some ua_googlebot) opts_classic
        = Inr (res, j) \<and>
      list_all (\<lambda>k. oget res k = JStr [])
          [''crawler_category'', ''crawler_category_code'']) \<and>
   ua_firefox \<noteq> [] \<and>
   find (\<lambda>row. cell (udger_crawler_list demo_dangling) row ''ua_string'' = JStr ua_firefox)
     (data (udger_crawler_list demo_dangling)) = None \<and>
   find (\<lambda>row. re_match demo_env (cell (udger_client_regex demo_dangling) row ''regstring'') ua_firefox \<noteq> None)
     (data (udger_client_regex demo_dangling)) = Some row_firefox \<and>
   row_at (udger_client_list demo_dangling) (cell (udger_client_regex demo_dangling) row_firefox ''client_id'')
     = JUndefined \<and>
   find (\<lambda>row. re_match demo_env (cell (udger_os_regex demo_dangling) row ''regstring'') ua_firefox \<noteq> None)
     (data (udger_os_regex demo_dangling)) = Some [JNum 0, JNum 20, JNum 0, JStr re_windows10, JNum 1] \<and>
   row_at (udger_os_list demo_dangling)
     (cell (udger_os_regex demo_dangling) [JNum 0, JNum 20, JNum 0, JStr re_windows10, JNum 1] ''os_id'')
     = JUndefined \<and>
   find (\<lambda>row. re_match demo_env (cell (udger_deviceclass_regex demo_dangling) row ''regstring'') ua_firefox \<noteq> None)
     (data (udger_deviceclass_regex demo_dangling)) = Some [JNull, JStr re_firefox, JNum 1] \<and>
   row_at (udger_deviceclass_list demo_dangling)
     (cell (udger_deviceclass_regex demo_dangling) [JNull, JStr re_firefox, JNum 1] ''deviceclass_id'')
     = JUndefined \<and>
   \<not> loose_eq_num (cell (udger_deviceclass_regex demo_dangling) [JNull, JStr re_firefox, JNum 1]
                      ''deviceclass_id'') 0 \<and>
   (\<exists>res j. parseUa demo_env demo_dangling
                [(''ua_family'', JStr ''?''), (''os'', JStr ''?''), (''device_class'', JStr ''?'')]
                (Some ua_firefox) opts_classic = Inr (res, j) \<and>
      list_all (\<lambda>k. oget res k = JStr [])
          [''ua_uptodate_current_version'', ''ua_family'', ''ua_family_code'',
           ''ua_family_homepage'', ''ua_family_vendor'', ''ua_family_vendor_code'',
           ''ua_family_vendor_homepage'', ''ua_family_icon'', ''ua_family_icon_big'',
           ''ua_engine''] \<and>
      oget res ''ua_family_info_url'' = JStr ''https://udger.com/resources/ua-list/browser-detail?browser='' \<and>
      list_all (\<lambda>k. oget res k = JStr [])
          [''os'', ''os_code'', ''os_homepage'', ''os_icon'', ''os_icon_big'', ''os_family'',
           ''os_family_code'', ''os_family_vendor'', ''os_family_vendor_code'',
           ''os_family_vendor_homepage''] \<and>
      oget res ''os_info_url'' = JStr ''https://udger.com/resources/ua-list/os-detail?os='' \<and>
      list_all (\<lambda>k. oget res k = JStr [])
          [''device_class'', ''device_class_code'', ''device_class_icon'',
           ''device_class_icon_big'']) \<and>
   ''66.249.64.73'' \<noteq> [] \<and>
   getIpVersion demo_env ''66.249.64.73'' = JNum 4 \<and>
   find (\<lambda>row. cell (udger_ip_list demo_dangling) row ''ip'' = JStr (canonical demo_env ''66.249.64.73''))
     (data (udger_ip_list demo_dangling)) = Some (data (udger_ip_list demo_data) ! 0) \<and>
   row_at (udger_ip_class demo_dangling)
     (cell (udger_ip_list demo_dangling) (data (udger_ip_list demo_data) ! 0) ''class_id'') = JUndefined \<and>
   row_at (udger_crawler_list demo_dangling)
     (cell (udger_ip_list demo_dangling) (data (udger_ip_list demo_data) ! 0) ''crawler_id'')
     = JArr (data (udger_crawler_list demo_data) ! 0) \<and>
   row_at (udger_crawler_class demo_dangling)
     (cell (udger_crawler_list demo_dangling) (data (udger_crawler_list demo_data) ! 0) ''class_id'')
     = JUndefined \<and>
   find (\<lambda>row. in_range (udger_datacenter_range demo_dangling) row ''iplong_from'' ''iplong_to''
                (ip2long demo_env (canonical demo_env ''66.249.64.73'')))
     (data (udger_datacenter_range demo_dangling))
     = Some [JNum 0, JStr ''66.249.64.0'', JStr ''66.249.95.255'', JNum 1123631104, JNum 1123639295] \<and>
   row_at (udger_datacenter_list demo_dangling)
     (cell (udger_datacenter_range demo_dangling)
        [JNum 0, JStr ''66.249.64.0'', JStr ''66.249.95.255'', JNum 1123631104, JNum 1123639295]
        ''datacenter_id'') = JUndefined \<and>
   (\<exists>res j. parseIp demo_env demo_dangling
                [(''ip_classification'', JStr ''?''), (''crawler_category'', JStr ''?''),
                 (''datacenter_name'', JStr ''?'')]
                (Some ''66.249.64.73'') opts_classic = Inr (res, j) \<and>
      list_all (\<lambda>k. oget res k = JStr [])
          [''ip_classification'', ''ip_classification_code''] \<and> list_all (\<lambda>k. oget res k = JStr [])
                                             [''crawler_category'',
                                              ''crawler_category_code''] \<and>
      list_all (\<lambda>k. oget res k = JStr [])
          [''datacenter_name'', ''datacenter_name_code'', ''datacenter_homepage'']) \<and>
   ''::1'' \<noteq> [] \<and>
   getIpVersion demo_env ''::1'' = JNum 6 \<and>
   find (\<lambda>row. cell (udger_ip_list demo_dangling) row ''ip'' = JStr (canonical demo_env ''::1''))
     (data (udger_ip_list demo_dangling)) = Some (data (udger_ip_list demo_data) ! 1) \<and>
   row_at (udger_crawler_list demo_dangling)
     (cell (udger_ip_list demo_dangling) (data (udger_ip_list demo_data) ! 1) ''crawler_id'') = JUndefined \<and>
   find (in_range6 (udger_datacenter_range6 demo_dangling) (ipInts demo_env (canonical demo_env ''::1'')))
     (data (udger_datacenter_range6 demo_dangling))
     = Some (data (udger_datacenter_range6 demo_dangling) ! 0) \<and>
   row_at (udger_datacenter_list demo_dangling)
     (cell (udger_datacenter_range6 demo_dangling) (data (udger_datacenter_range6 demo_dangling) ! 0)
        ''datacenter_id'') = JUndefined \<and>
   (\<exists>res j. parseIp demo_env demo_dangling
                [(''crawler_name'', JStr ''?''), (''datacenter_name'', JStr ''?'')]
                (Some ''::1'') opts_classic = Inr (res, j) \<and>
      list_all (\<lambda>k. oget res k = JStr [])
          [''crawler_name'', ''crawler_ver'', ''crawler_ver_major'', ''crawler_family'',
           ''crawler_family_code'', ''crawler_family_homepage'', ''crawler_family_vendor'',
           ''crawler_family_vendor_code'', ''crawler_family_vendor_homepage'',
           ''crawler_family_icon'', ''crawler_last_seen'', ''crawler_category'',
           ''crawler_category_code'', ''crawler_respect_robotstxt''] \<and> list_all (\<lambda>k. oget res k = JStr [])
                                               [''datacenter_name'',
                                                ''datacenter_name_code'',
                                                ''datacenter_homepage'']) \<and>
   ua_wget \<noteq> [] \<and>
   (\<exists>st1 st2 st3 st4 res j.
      crawler_or_client demo_env demo_data opts_classic ua_wget
        (ua_init (copy_obj [(''device_class'', JStr ''?'')]) opts_classic ua_wget) = Inr st1 \<and>
      os_loop demo_env demo_data opts_classic ua_wget (data (udger_os_regex demo_data)) st1 = Inr st2 \<and>
      os_relation demo_data st2 = Inr st3 \<and>
      deviceclass_loop demo_env demo_data opts_classic ua_wget (data (udger_deviceclass_regex demo_data)) st3
        = Inr st4 \<and>
      loose_eq_num (deviceclass_id st4) 0 \<and> \<not> loose_eq_num (client_class_id st4) (- 1) \<and>
      find (\<lambda>row. cell (udger_client_class demo_data) row ''id'' = client_class_id st4)
        (data (udger_client_class demo_data)) = Some [JNum 4, JStr ''Library'', JStr ''library'', JNull] \<and>
      row_at (udger_deviceclass_list demo_data)
        (cell (udger_client_class demo_data) [JNum 4, JStr ''Library'', JStr ''library'', JNull] ''deviceclass_id'')
        = JUndefined \<and>
      parseUa demo_env demo_data [(''device_class'', JStr ''?'')] (Some ua_wget) opts_classic = Inr (res, j) \<and>
      list_all (\<lambda>k. oget res k = JStr [])
          [''device_class'', ''device_class_code'', ''device_class_icon'',
           ''device_class_icon_big''] \<and>
      oget res ''device_class_info_url'' = JStr ''https://udger.com/resources/ua-list/device-detail?device='') \<and>
   ua_msie \<noteq> [] \<and>
   (\<exists>st1 st2 res j.
      crawler_or_client demo_env demo_dangling opts_classic ua_msie
        (ua_init (copy_obj [(''os'', JStr ''?'')]) opts_classic ua_msie) = Inr st1 \<and>
      os_loop demo_env demo_dangling opts_classic ua_msie (data (udger_os_regex demo_dangling)) st1 = Inr st2 \<and>
      loose_eq_num (os_id st2) 0 \<and> \<not> loose_eq_num (client_id st2) 0 \<and>
      find (\<lambda>row. cell (udger_client_os_relation demo_dangling) row ''client_id''
                    = col (udger_client_os_relation demo_dangling) ''client_id'')
        (data (udger_client_os_relation demo_dangling)) = Some [JNum 0, JNum 2] \<and>
      map_row (udger_client_os_relation demo_dangling) (r_var st2) [''os_id''] [] = Inr [(''os_id'', JNum 1)] \<and>
      row_at (udger_os_list demo_dangling) (oget [(''os_id'', JNum 1)] ''os_id'') = JUndefined \<and>
      parseUa demo_env demo_dangling [(''os'', JStr ''?'')] (Some ua_msie) opts_classic = Inr (res, j) \<and>
      list_all (\<lambda>k. oget res k = JStr [])
          [''os'', ''os_code'', ''os_homepage'', ''os_icon'', ''os_icon_big'', ''os_family'',
           ''os_family_code'', ''os_family_vendor'', ''os_family_vendor_code'',
           ''os_family_vendor_homepage''] \<and>
      oget res ''os_info_url'' = JStr ''https://udger.com/resources/ua-list/os-detail?os='') \<and>
   (\<exists>st1 st2 st3 st4 st5 res j.
      crawler_or_client demo_env demo_devicename opts_classic ua_firefox
        (ua_init (copy_obj [(''device_brand'', JStr ''?'')]) opts_classic ua_firefox) = Inr st1 \<and>
      os_loop demo_env demo_devicename opts_classic ua_firefox (data (udger_os_regex demo_devicename)) st1
        = Inr st2 \<and>
      os_relation demo_devicename st2 = Inr st3 \<and>
      deviceclass_loop demo_env demo_devicename opts_classic ua_firefox
        (data (udger_deviceclass_regex demo_devicename)) st3 = Inr st4 \<and>
      deviceclass_fallback demo_devicename opts_classic st4 = Inr st5 \<and>
      truthy (oget (rua st5) ''os_family_code'') \<and>
      devicename_row demo_env demo_devicename ua_firefox st5
        = JArr [JNum 0, JNull, JStr ''40.0'', JStr ''Forty''] \<and>
      row_at (udger_devicename_brand demo_devicename)
        (cell (udger_devicename_list demo_devicename) [JNum 0, JNull, JStr ''40.0'', JStr ''Forty''] ''brand_id'')
        = JUndefined \<and>
      parseUa demo_env demo_devicename [(''device_brand'', JStr ''?'')] (Some ua_firefox) opts_classic
        = Inr (res, j) \<and>
      list_all (\<lambda>k. oget res k = JStr [])
          [''device_brand'', ''device_brand_code'', ''device_brand_homepage'',
           ''device_brand_icon'', ''device_brand_icon_big''] \<and>
      oget res ''device_brand_info_url''
        = JStr ''https://udger.com/resources/ua-list/devices-brand-detail?brand='')"
proof -
  have b0: "row_at (udger_os_list demo_data) JNull = JUndefined" by (rule demo_beos_dangling(2))
  let ?ru1 = "[(''crawler_category'', JStr ''?'')]"
  let ?ru2 = "[(''ua_family'', JStr ''?''), (''os'', JStr ''?''), (''device_class'', JStr ''?'')]"
  note T1 = dangling_join_defaults[where t="udger_os_list demo_data" and fk=JNull and keys=os_keys
      and rn="[(''id'', ''os_id'')]" and r="[(''os_id'', JNull)]" and E=demo_env and D=demo_dangling
      and ru="?ru1" and v=None and opts=opts_classic and ri="[]" and w=None and u=ua_googlebot and a="''::1''"]
  note J0 = T1[THEN conjunct1, THEN mp, OF b0]
  have h1: "row_at (udger_crawler_class demo_dangling)
     (cell (udger_crawler_list demo_dangling) (data (udger_crawler_list demo_data) ! 0) ''class_id'')
     = JUndefined"
    by (simp add: demo_googlebot_row(2) row_at_no_rows demo_dangling_empty)
  note U1 = T1[THEN conjunct2, THEN conjunct2, THEN conjunct2, THEN conjunct1, THEN mp, OF demo_googlebot_row(3)]
  have b1: "\<exists>res j. parseUa demo_env demo_dangling ?ru1 (Some ua_googlebot) opts_classic = Inr (res, j) \<and>
      list_all (\<lambda>k. oget res k = JStr [])
          [''crawler_category'', ''crawler_category_code'']"
    using U1 demo_googlebot_row(1) h1 by (elim exE conjE) simp
  note T2 = dangling_join_defaults[where t="udger_os_list demo_data" and fk=JNull and keys=os_keys
      and rn="[(''id'', ''os_id'')]" and r="[(''os_id'', JNull)]" and E=demo_env and D=demo_dangling
      and ru="?ru2" and v=None and opts=opts_classic and ri="[]" and w=None and u=ua_firefox and a="''::1''"]
  have h2: "row_at (udger_client_list demo_dangling) (cell (udger_client_regex demo_dangling) row_firefox ''client_id'')
     = JUndefined"
    "row_at (udger_os_list demo_dangling)
     (cell (udger_os_regex demo_dangling) [JNum 0, JNum 20, JNum 0, JStr re_windows10, JNum 1] ''os_id'')
     = JUndefined"
    "row_at (udger_deviceclass_list demo_dangling)
     (cell (udger_deviceclass_regex demo_dangling) [JNull, JStr re_firefox, JNum 1] ''deviceclass_id'')
     = JUndefined"
    "\<not> loose_eq_num (cell (udger_deviceclass_regex demo_dangling) [JNull, JStr re_firefox, JNum 1]
                      ''deviceclass_id'') 0"
    by (simp_all add: demo_firefox_rows row_at_no_rows demo_dangling_empty loose_eq_num_def)
  note U2 = T2[THEN conjunct2, THEN conjunct2, THEN conjunct2, THEN conjunct1, THEN mp, OF demo_firefox_rows(1)]
  have b2: "\<exists>res j. parseUa demo_env demo_dangling ?ru2 (Some ua_firefox) opts_classic = Inr (res, j) \<and>
      list_all (\<lambda>k. oget res k = JStr [])
          [''ua_uptodate_current_version'', ''ua_family'', ''ua_family_code'',
           ''ua_family_homepage'', ''ua_family_vendor'', ''ua_family_vendor_code'',
           ''ua_family_vendor_homepage'', ''ua_family_icon'', ''ua_family_icon_big'',
           ''ua_engine''] \<and>
      oget res ''ua_family_info_url'' = JStr ''https://udger.com/resources/ua-list/browser-detail?browser='' \<and>
      list_all (\<lambda>k. oget res k = JStr [])
          [''os'', ''os_code'', ''os_homepage'', ''os_icon'', ''os_icon_big'', ''os_family'',
           ''os_family_code'', ''os_family_vendor'', ''os_family_vendor_code'',
           ''os_family_vendor_homepage''] \<and>
      oget res ''os_info_url'' = JStr ''https://udger.com/resources/ua-list/os-detail?os='' \<and>
      list_all (\<lambda>k. oget res k = JStr [])
          [''device_class'', ''device_class_code'', ''device_class_icon'',
           ''device_class_icon_big'']"
    using U2 demo_firefox_rows(2,3,5,7) h2 by (elim exE conjE) simp
  let ?ri5 = "[(''ip_classification'', JStr ''?''), (''crawler_category'', JStr ''?''),
               (''datacenter_name'', JStr ''?'')]"
  let ?ri6 = "[(''crawler_name'', JStr ''?''), (''datacenter_name'', JStr ''?'')]"
  note T5 = dangling_join_defaults[where t="udger_os_list demo_data" and fk=JNull and keys=os_keys
      and rn="[(''id'', ''os_id'')]" and r="[(''os_id'', JNull)]" and E=demo_env and D=demo_dangling
      and ru="[]" and v=None and opts=opts_classic and ri="?ri5" and w=None and u=ua_firefox
      and a="''66.249.64.73''"]
  have n5: "''66.249.64.73'' \<noteq> []" by simp
  have h5: "find (\<lambda>row. cell (udger_ip_list demo_dangling) row ''ip'' = JStr (canonical demo_env ''66.249.64.73''))
     (data (udger_ip_list demo_dangling)) = Some (data (udger_ip_list demo_data) ! 0)"
    "row_at (udger_ip_class demo_dangling)
     (cell (udger_ip_list demo_dangling) (data (udger_ip_list demo_data) ! 0) ''class_id'') = JUndefined"
    "find (\<lambda>row. in_range (udger_datacenter_range demo_dangling) row ''iplong_from'' ''iplong_to''
                (ip2long demo_env (canonical demo_env ''66.249.64.73'')))
     (data (udger_datacenter_range demo_dangling))
     = Some [JNum 0, JStr ''66.249.64.0'', JStr ''66.249.95.255'', JNum 1123631104, JNum 1123639295]"
    "row_at (udger_datacenter_list demo_dangling)
     (cell (udger_datacenter_range demo_dangling)
        [JNum 0, JStr ''66.249.64.0'', JStr ''66.249.95.255'', JNum 1123631104, JNum 1123639295]
        ''datacenter_id'') = JUndefined"
    by (simp_all add: demo_ip_rows row_at_no_rows demo_dangling_empty)
  note U5 = T5[THEN conjunct2, THEN conjunct2, THEN conjunct2, THEN conjunct2, THEN mp, OF n5]
  have b5: "\<exists>res j. parseIp demo_env demo_dangling ?ri5 (Some ''66.249.64.73'') opts_classic = Inr (res, j) \<and>
      list_all (\<lambda>k. oget res k = JStr [])
          [''ip_classification'', ''ip_classification_code''] \<and> list_all (\<lambda>k. oget res k = JStr [])
                                             [''crawler_category'',
                                              ''crawler_category_code''] \<and>
      list_all (\<lambda>k. oget res k = JStr [])
          [''datacenter_name'', ''datacenter_name_code'', ''datacenter_homepage'']"
    using U5 h5 demo_ip_rows(2,5) h1 by (elim exE conjE) simp
  note T6 = dangling_join_defaults[where t="udger_os_list demo_data" and fk=JNull and keys=os_keys
      and rn="[(''id'', ''os_id'')]" and r="[(''os_id'', JNull)]" and E=demo_env and D=demo_dangling
      and ru="[]" and v=None and opts=opts_classic and ri="?ri6" and w=None and u=ua_firefox
      and a="''::1''"]
  have n6: "''::1'' \<noteq> []" by simp
  have h6: "find (\<lambda>row. cell (udger_ip_list demo_dangling) row ''ip'' = JStr (canonical demo_env ''::1''))
     (data (udger_ip_list demo_dangling)) = Some (data (udger_ip_list demo_data) ! 1)"
    "row_at (udger_crawler_list demo_dangling)
     (cell (udger_ip_list demo_dangling) (data (udger_ip_list demo_data) ! 1) ''crawler_id'') = JUndefined"
    "find (in_range6 (udger_datacenter_range6 demo_dangling) (ipInts demo_env (canonical demo_env ''::1'')))
     (data (udger_datacenter_range6 demo_dangling))
     = Some (data (udger_datacenter_range6 demo_dangling) ! 0)"
    "row_at (udger_datacenter_list demo_dangling)
     (cell (udger_datacenter_range6 demo_dangling) (data (udger_datacenter_range6 demo_dangling) ! 0)
        ''datacenter_id'') = JUndefined"
    using demo_ip6_rows by (simp_all add: row_at_no_rows demo_dangling_empty row_at_def arr_at_def)
  note U6 = T6[THEN conjunct2, THEN conjunct2, THEN conjunct2, THEN conjunct2, THEN mp, OF n6]
  have b6: "\<exists>res j. parseIp demo_env demo_dangling ?ri6 (Some ''::1'') opts_classic = Inr (res, j) \<and>
      list_all (\<lambda>k. oget res k = JStr [])
          [''crawler_name'', ''crawler_ver'', ''crawler_ver_major'', ''crawler_family'',
           ''crawler_family_code'', ''crawler_family_homepage'', ''crawler_family_vendor'',
           ''crawler_family_vendor_code'', ''crawler_family_vendor_homepage'',
           ''crawler_family_icon'', ''crawler_last_seen'', ''crawler_category'',
           ''crawler_category_code'', ''crawler_respect_robotstxt''] \<and> list_all (\<lambda>k. oget res k = JStr [])
                                               [''datacenter_name'',
                                                ''datacenter_name_code'',
                                                ''datacenter_homepage'']"
    using U6 h6 demo_ip6_rows(2) by (elim exE conjE) simp
  let ?ru3 = "[(''device_class'', JStr ''?'')]"
  note T3 = dangling_join_defaults[where t="udger_os_list demo_data" and fk=JNull and keys=os_keys
      and rn="[(''id'', ''os_id'')]" and r="[(''os_id'', JNull)]" and E=demo_env and D=demo_data
      and ru="?ru3" and v=None and opts=opts_classic and ri="[]" and w=None and u=ua_wget and a="''::1''"]
  note U3 = T3[THEN conjunct2, THEN conjunct2, THEN conjunct2, THEN conjunct1, THEN mp, OF demo_wget_class(3)]
  have b3: "\<exists>st1 st2 st3 st4 res j.
      crawler_or_client demo_env demo_data opts_classic ua_wget
        (ua_init (copy_obj ?ru3) opts_classic ua_wget) = Inr st1 \<and>
      os_loop demo_env demo_data opts_classic ua_wget (data (udger_os_regex demo_data)) st1 = Inr st2 \<and>
      os_relation demo_data st2 = Inr st3 \<and>
      deviceclass_loop demo_env demo_data opts_classic ua_wget (data (udger_deviceclass_regex demo_data)) st3
        = Inr st4 \<and>
      loose_eq_num (deviceclass_id st4) 0 \<and> \<not> loose_eq_num (client_class_id st4) (- 1) \<and>
      find (\<lambda>row. cell (udger_client_class demo_data) row ''id'' = client_class_id st4)
        (data (udger_client_class demo_data)) = Some [JNum 4, JStr ''Library'', JStr ''library'', JNull] \<and>
      row_at (udger_deviceclass_list demo_data)
        (cell (udger_client_class demo_data) [JNum 4, JStr ''Library'', JStr ''library'', JNull] ''deviceclass_id'')
        = JUndefined \<and>
      parseUa demo_env demo_data ?ru3 (Some ua_wget) opts_classic = Inr (res, j) \<and>
      list_all (\<lambda>k. oget res k = JStr [])
          [''device_class'', ''device_class_code'', ''device_class_icon'',
           ''device_class_icon_big''] \<and>
      oget res ''device_class_info_url'' = JStr ''https://udger.com/resources/ua-list/device-detail?device=''"
    using U3
    apply (elim exE conjE)
    apply (frule (3) demo_wget_state)
    apply (simp add: demo_wget_class loose_eq_num_def)
    done
  let ?ru4 = "[(''os'', JStr ''?'')]"
  note T4 = dangling_join_defaults[where t="udger_os_list demo_data" and fk=JNull and keys=os_keys
      and rn="[(''id'', ''os_id'')]" and r="[(''os_id'', JNull)]" and E=demo_env and D=demo_dangling
      and ru="?ru4" and v=None and opts=opts_classic and ri="[]" and w=None and u=ua_msie and a="''::1''"]
  note U4 = T4[THEN conjunct2, THEN conjunct2, THEN conjunct2, THEN conjunct1, THEN mp, OF demo_msie_dangling(1)]
  have b4: "\<exists>st1 st2 res j.
      crawler_or_client demo_env demo_dangling opts_classic ua_msie
        (ua_init (copy_obj ?ru4) opts_classic ua_msie) = Inr st1 \<and>
      os_loop demo_env demo_dangling opts_classic ua_msie (data (udger_os_regex demo_dangling)) st1 = Inr st2 \<and>
      loose_eq_num (os_id st2) 0 \<and> \<not> loose_eq_num (client_id st2) 0 \<and>
      find (\<lambda>row. cell (udger_client_os_relation demo_dangling) row ''client_id''
                    = col (udger_client_os_relation demo_dangling) ''client_id'')
        (data (udger_client_os_relation demo_dangling)) = Some [JNum 0, JNum 2] \<and>
      map_row (udger_client_os_relation demo_dangling) (r_var st2) [''os_id''] [] = Inr [(''os_id'', JNum 1)] \<and>
      row_at (udger_os_list demo_dangling) (oget [(''os_id'', JNum 1)] ''os_id'') = JUndefined \<and>
      parseUa demo_env demo_dangling ?ru4 (Some ua_msie) opts_classic = Inr (res, j) \<and>
      list_all (\<lambda>k. oget res k = JStr [])
          [''os'', ''os_code'', ''os_homepage'', ''os_icon'', ''os_icon_big'', ''os_family'',
           ''os_family_code'', ''os_family_vendor'', ''os_family_vendor_code'',
           ''os_family_vendor_homepage''] \<and>
      oget res ''os_info_url'' = JStr ''https://udger.com/resources/ua-list/os-detail?os=''"
    using U4 demo_msie_dangling(11)
    apply (elim exE conjE)
    apply (frule (1) demo_msie_state)
    apply (simp add: demo_msie_dangling(9,10) loose_eq_num_def)
    done
  let ?ru7 = "[(''device_brand'', JStr ''?'')]"
  note T7 = dangling_join_defaults[where t="udger_os_list demo_data" and fk=JNull and keys=os_keys
      and rn="[(''id'', ''os_id'')]" and r="[(''os_id'', JNull)]" and E=demo_env and D=demo_devicename
      and ru="?ru7" and v=None and opts=opts_classic and ri="[]" and w=None and u=ua_firefox and a="''::1''"]
  note U7 = T7[THEN conjunct2, THEN conjunct2, THEN conjunct2, THEN conjunct1, THEN mp, OF demo_devicename_rows(1)]
  have b7: "\<exists>st1 st2 st3 st4 st5 res j.
      crawler_or_client demo_env demo_devicename opts_classic ua_firefox
        (ua_init (copy_obj ?ru7) opts_classic ua_firefox) = Inr st1 \<and>
      os_loop demo_env demo_devicename opts_classic ua_firefox (data (udger_os_regex demo_devicename)) st1
        = Inr st2 \<and>
      os_relation demo_devicename st2 = Inr st3 \<and>
      deviceclass_loop demo_env demo_devicename opts_classic ua_firefox
        (data (udger_deviceclass_regex demo_devicename)) st3 = Inr st4 \<and>
      deviceclass_fallback demo_devicename opts_classic st4 = Inr st5 \<and>
      truthy (oget (rua st5) ''os_family_code'') \<and>
      devicename_row demo_env demo_devicename ua_firefox st5
        = JArr [JNum 0, JNull, JStr ''40.0'', JStr ''Forty''] \<and>
      row_at (udger_devicename_brand demo_devicename)
        (cell (udger_devicename_list demo_devicename) [JNum 0, JNull, JStr ''40.0'', JStr ''Forty''] ''brand_id'')
        = JUndefined \<and>
      parseUa demo_env demo_devicename ?ru7 (Some ua_firefox) opts_classic = Inr (res, j) \<and>
      list_all (\<lambda>k. oget res k = JStr [])
          [''device_brand'', ''device_brand_code'', ''device_brand_homepage'',
           ''device_brand_icon'', ''device_brand_icon_big''] \<and>
      oget res ''device_brand_info_url''
        = JStr ''https://udger.com/resources/ua-list/devices-brand-detail?brand=''"
    using U7
    apply (elim exE conjE)
    apply (frule (3) demo_firefox_state)
    apply (erule conjE)
    apply (frule (1) demo_firefox_devicename)
    apply (simp add: demo_devicename_rows(5))
    done
  show ?thesis
    apply (intro conjI)
    apply (rule b0)
    apply (rule J0[THEN conjunct1])
    apply (rule J0[THEN conjunct2])
    apply (rule demo_googlebot_row(3))
    apply (rule demo_googlebot_row(1))
    apply (rule h1)
    apply (rule b1)
    apply (rule demo_firefox_rows(1))
    apply (rule demo_firefox_rows(2))
    apply (rule demo_firefox_rows(3))
    apply (rule h2(1))
    apply (rule demo_firefox_rows(5))
    apply (rule h2(2))
    apply (rule demo_firefox_rows(7))
    apply (rule h2(3))
    apply (rule h2(4))
    apply (rule b2)
    apply (rule n5)
    apply (rule demo_ip_rows(2))
    apply (rule h5(1))
    apply (rule h5(2))
    apply (rule demo_ip_rows(5))
    apply (rule h1)
    apply (rule h5(3))
    apply (rule h5(4))
    apply (rule b5)
    apply (rule n6)
    apply (rule demo_ip6_rows(2))
    apply (rule h6(1))
    apply (rule h6(2))
    apply (rule h6(3))
    apply (rule h6(4))
    apply (rule b6)
    apply (rule demo_wget_class(3))
    apply (rule b3)
    apply (rule demo_msie_dangling(1))
    apply (rule b4)
    apply (rule b7)
    done
qed

text \<open>
  The claim as stated fails: the OS regex row for BeOS has a dangling \<open>os_id\<close>, and the
  dependent field \<^verbatim>\<open>os_info_url\<close> of the result is the URL prefix, not the empty string.
\<close>

theorem dangling_join_defaults_counterexample:
  "cell (udger_os_regex demo_data) row_os_beos ''os_id'' = JNull \<and>
   row_at (udger_os_list demo_data) JNull = JUndefined \<and>
   udger_field (parseUa demo_env demo_data demo_default_ua (Some ua_beos) opts_classic) ''os_info_url''
     = Inr (JStr ''https://udger.com/resources/ua-list/os-detail?os='')"
  using demo_beos_os_fields demo_beos_dangling by (auto simp: udger_field_def)

section \<open>Calls of parse\<close>


lemma cacheWrite_returns:
  "0 \<le> cacheMaxRecords s \<Longrightarrow> \<exists>c. cacheWrite s key d = Some (s\<lparr>cache := c\<rparr>)"
proof (cases "cacheKeyExist s key")
  case True
  then have "cacheWrite s key d = Some (s\<lparr>cache := cache s\<rparr>)" by (simp add: cacheWrite_def)
  then show ?thesis by blast
next
  case False
  assume "0 \<le> cacheMaxRecords s"
  from evict_bounded[OF this] obtain c' where "evict (cacheMaxRecords s) (oset (cache s) key d) = Some c'"
    by blast
  then have "cacheWrite s key d = Some (s\<lparr>cache := c'\<rparr>)" using False by (simp add: cacheWrite_def)
  then show ?thesis by blast
qed

lemma build_ret_value:
  "\<exists>pu pi. parseUa E D (retUa s) (ua s) opts = Inr pu \<and> parseIp E D (retIp s) (ip s) opts = Inr pi \<and>
     build_ret E D s opts = Inr
       (if json opts then
          (if given (ua s) then [(''userAgent'', JObj (snd pu))] else []) @
          (if given (ip s) then [(''ipAddress'', JObj (snd pi))] else []) @
          (if full opts then [(''fromCache'', JBool False)] else [])
        else [(''user_agent'', JObj (fst pu)), (''ip_address'', JObj (fst pi)), (''from_cache'', JBool False)])"
proof -
  obtain pu where pu: "parseUa E D (retUa s) (ua s) opts = Inr pu" using parseUa_ok by blast
  obtain pi where pi: "parseIp E D (retIp s) (ip s) opts = Inr pi" using parseIp_ok by blast
  show ?thesis using pu pi by (auto simp: build_ret_def)
qed

lemma parseUa_not_given: "\<not> given v \<Longrightarrow> parseUa E D ru v opts = Inr (copy_obj ru, [])"
  by (auto simp: parseUa_def given_def Let_def split: option.splits)

lemma parseIp_not_given: "\<not> given v \<Longrightarrow> parseIp E D ri v opts = Inr (copy_obj ri, [])"
  by (auto simp: parseIp_def given_def Let_def split: option.splits)

text \<open>A call that is not answered from the cache.\<close>

lemma parse_miss:
  assumes "db s" and "\<not> (cacheEnable s \<and> cacheKeyExist s (keyCache s))"
      and "cacheEnable s \<longrightarrow> 0 \<le> cacheMaxRecords s"
  shows "\<exists>s' pu pi.
           parse E D s opts = Return (Some (Addr (fresh s)), s') \<and>
           parseUa E D (retUa s) (ua s) (opts_or_empty opts) = Inr pu \<and>
           parseIp E D (retIp s) (ip s) (opts_or_empty opts) = Inr pi \<and>
           store s' (Addr (fresh s)) =
             (if json (opts_or_empty opts) then
                (if given (ua s) then [(''userAgent'', JObj (snd pu))] else []) @
                (if given (ip s) then [(''ipAddress'', JObj (snd pi))] else []) @
                (if full (opts_or_empty opts) then [(''fromCache'', JBool False)] else [])
              else [(''user_agent'', JObj (fst pu)), (''ip_address'', JObj (fst pi)),
                    (''from_cache'', JBool False)]) \<and>
           (\<not> given (ua s) \<longrightarrow> fst pu = copy_obj (retUa s)) \<and>
           (\<not> given (ip s) \<longrightarrow> fst pi = copy_obj (retIp s)) \<and>
           (cacheEnable s \<and> int (length (cache s)) + 1 \<le> cacheMaxRecords s \<longrightarrow>
              s' = s\<lparr>cache := oset (cache s) (keyCache s) (Addr (fresh s)),
                      store := (store s)(Addr (fresh s) := store s' (Addr (fresh s))),
                      fresh := Suc (fresh s)\<rparr>)"
proof -
  let ?o = "opts_or_empty opts"
  from build_ret_value[of E D s ?o] obtain pu pi where
    p: "parseUa E D (retUa s) (ua s) ?o = Inr pu" "parseIp E D (retIp s) (ip s) ?o = Inr pi"
    and b: "build_ret E D s ?o = Inr
       (if json ?o then
          (if given (ua s) then [(''userAgent'', JObj (snd pu))] else []) @
          (if given (ip s) then [(''ipAddress'', JObj (snd pi))] else []) @
          (if full ?o then [(''fromCache'', JBool False)] else [])
        else [(''user_agent'', JObj (fst pu)), (''ip_address'', JObj (fst pi)), (''from_cache'', JBool False)])"
    (is "_ = Inr ?ret")
    by blast
  let ?a = "Addr (fresh s)"
  let ?s1 = "s\<lparr>store := (store s)(?a := ?ret), fresh := Suc (fresh s)\<rparr>"
  have d: "\<not> given (ua s) \<longrightarrow> fst pu = copy_obj (retUa s)" "\<not> given (ip s) \<longrightarrow> fst pi = copy_obj (retIp s)"
    using p by (auto simp: parseUa_not_given parseIp_not_given)
  show ?thesis
  proof (cases "cacheEnable s")
    case False
    then have "parse E D s opts = Return (Some ?a, ?s1)"
      using assms(1) b by (simp add: parse_def isCacheEnable_def alloc_def)
    then show ?thesis using p d False by auto
  next
    case True
    have n: "\<not> cacheKeyExist ?s1 (keyCache s)" using assms(2) True by (simp add: cacheKeyExist_def)
    show ?thesis
    proof (cases "int (length (cache s)) + 1 \<le> cacheMaxRecords s")
      case room: True
      then have "int (length (cache ?s1)) + 1 \<le> cacheMaxRecords ?s1" by simp
      from cacheWrite_room[OF n this]
      have c: "cacheWrite ?s1 (keyCache s) ?a = Some (?s1\<lparr>cache := oset (cache s) (keyCache s) ?a\<rparr>)"
        by simp
      have e: "parse E D s opts = Return (Some ?a, ?s1\<lparr>cache := oset (cache s) (keyCache s) ?a\<rparr>)"
        using assms(1,2) True b c by (simp add: parse_def isCacheEnable_def alloc_def)
      show ?thesis using e p d by auto
    next
      case False
      have m: "0 \<le> cacheMaxRecords ?s1" using assms(3) True by simp
      from cacheWrite_returns[OF m, of "keyCache s" ?a] obtain c where
        c: "cacheWrite ?s1 (keyCache s) ?a = Some (?s1\<lparr>cache := c\<rparr>)" by auto
      have e: "parse E D s opts = Return (Some ?a, ?s1\<lparr>cache := c\<rparr>)"
        using assms(1,2) True b c by (simp add: parse_def isCacheEnable_def alloc_def)
      show ?thesis using e p d False by auto
    qed
  qed
qed


subsection \<open>A user agent that nothing matches\<close>

lemma parseUa_unrecognized:
  assumes "u \<noteq> []"
    and "find (\<lambda>row. cell (udger_crawler_list D) row ''ua_string'' = JStr u) (data (udger_crawler_list D)) = None"
    and "find (\<lambda>row. re_match E (cell (udger_client_regex D) row ''regstring'') u \<noteq> None)
           (data (udger_client_regex D)) = None"
    and "find (\<lambda>row. re_match E (cell (udger_os_regex D) row ''regstring'') u \<noteq> None)
           (data (udger_os_regex D)) = None"
    and "find (\<lambda>row. re_match E (cell (udger_deviceclass_regex D) row ''regstring'') u \<noteq> None)
           (data (udger_deviceclass_regex D)) = None"
    and "\<not> truthy (oget (copy_obj ru) ''os_family_code'')"
  shows "parseUa E D ru (Some u) opts =
           Inr (rua (ua_init (copy_obj ru) opts u), ruaJson (ua_init (copy_obj ru) opts u))"
proof -
  let ?st = "ua_init (copy_obj ru) opts u"
  have f: "oget (rua ?st) ''os_family_code'' = oget (copy_obj ru) ''os_family_code''"
    by (simp add: ua_init_def oget_spread_other)
  have 1: "crawler_or_client E D opts u ?st
             = Inr (?st\<lparr>r_var := (if data (udger_client_regex D) = [] then r_var ?st
                                    else JArr (last (data (udger_client_regex D))))\<rparr>)"
    (is "_ = Inr ?s1")
    using assms(2) client_loop_none[OF assms(3)] by (simp add: crawler_or_client_def findBy_def)
  have 2: "os_loop E D opts u (data (udger_os_regex D)) ?s1
             = Inr (?s1\<lparr>r_var := (if data (udger_os_regex D) = [] then r_var ?s1
                                    else JArr (last (data (udger_os_regex D))))\<rparr>)"
    (is "_ = Inr ?s2")
    by (rule os_loop_none[OF assms(4)])
  have 3: "os_relation D ?s2 = Inr ?s2"
    by (rule os_relation_skipped) (simp add: ua_init_def)
  have 4: "deviceclass_loop E D opts u (data (udger_deviceclass_regex D)) ?s2
             = Inr (?s2\<lparr>r_var := (if data (udger_deviceclass_regex D) = [] then r_var ?s2
                                    else JArr (last (data (udger_deviceclass_regex D))))\<rparr>)"
    (is "_ = Inr ?s4")
    by (rule deviceclass_loop_none[OF assms(5)])
  have 5: "deviceclass_fallback D opts ?s4 = Inr ?s4"
    by (simp add: deviceclass_fallback_def ua_init_def loose_eq_num_def)
  have 6: "devicename E D u ?s4 = Inr ?s4"
    using assms(6) f by (simp add: devicename_def)
  have "ua_stages E D opts u ?st = Inr ?s4"
    unfolding ua_stages_def by (simp only: 1 2 3 4 5 6 thenE_Inr)
  then show ?thesis
    using assms(1) by (simp add: parseUa_def Let_def)
qed

lemma demo_unknown_finds:
  "find (\<lambda>row. cell (udger_crawler_list demo_data) row ''ua_string'' = JStr ''myUnknowUA'')
     (data (udger_crawler_list demo_data)) = None"
  "find (\<lambda>row. re_match demo_env (cell (udger_client_regex demo_data) row ''regstring'') ''myUnknowUA'' \<noteq> None)
     (data (udger_client_regex demo_data)) = None"
  "find (\<lambda>row. re_match demo_env (cell (udger_os_regex demo_data) row ''regstring'') ''myUnknowUA'' \<noteq> None)
     (data (udger_os_regex demo_data)) = None"
  "find (\<lambda>row. re_match demo_env (cell (udger_deviceclass_regex demo_data) row ''regstring'') ''myUnknowUA'' \<noteq> None)
     (data (udger_deviceclass_regex demo_data)) = None"
  by (simp_all add: demo_tables demo_strings demo_matching cell_def col_def arr_at_def)

lemma copy_demo_defaults:
  "copy_obj demo_default_ua = demo_default_ua" "copy_obj demo_default_ip = demo_default_ip"
  by (simp_all add: copy_obj_def demo_default_ua_def demo_default_ip_def)

lemma demo_unknown_json:
  "\<exists>flat. parseUa demo_env demo_data demo_default_ua (Some ''myUnknowUA'') \<lparr>json = True, full = False\<rparr>
      = Inr (flat, [(''ua'', JObj [(''string'', JStr ''myUnknowUA''), (''class'', JStr ''unrecognized'')])])"
  "\<exists>flat. parseUa demo_env demo_data demo_default_ua (Some ''myUnknowUA'') \<lparr>json = True, full = True\<rparr>
      = Inr (flat, [(''ua'', JObj [(''string'', JStr ''myUnknowUA''),
                                   (''class'', JObj [(''name'', JStr ''Unrecognized''),
                                                     (''code'', JStr ''unrecognized'')])])])"
proof -
  have "oget demo_default_ua ''os_family_code'' = JStr []" by (simp add: demo_default_ua_def)
  then have n: "\<not> truthy (oget (copy_obj demo_default_ua) ''os_family_code'')"
    by (simp add: copy_demo_defaults)
  have e: "(''myUnknowUA'' :: string) \<noteq> []" by simp
  note r = parseUa_unrecognized[OF e demo_unknown_finds n]
  show "\<exists>flat. parseUa demo_env demo_data demo_default_ua (Some ''myUnknowUA'') \<lparr>json = True, full = False\<rparr>
      = Inr (flat, [(''ua'', JObj [(''string'', JStr ''myUnknowUA''), (''class'', JStr ''unrecognized'')])])"
    by (simp add: r ua_init_def dotProp_set_def path_segments_def)
  show "\<exists>flat. parseUa demo_env demo_data demo_default_ua (Some ''myUnknowUA'') \<lparr>json = True, full = True\<rparr>
      = Inr (flat, [(''ua'', JObj [(''string'', JStr ''myUnknowUA''),
                                   (''class'', JObj [(''name'', JStr ''Unrecognized''),
                                                     (''code'', JStr ''unrecognized'')])])])"
    by (simp add: r ua_init_def dotProp_set_def path_segments_def)
qed

lemma demo_set_unknown:
  "set_input (constructor demo_default_ua demo_default_ip) (ObjectData [(''ua'', Some ''myUnknowUA'')])
     = Inr unknown_ua_set"
  "set_input (setCacheEnable (constructor demo_default_ua demo_default_ip) True)
     (ObjectData [(''ua'', Some ''myUnknowUA'')]) = Inr unknown_ua_cached"
  by (simp_all add: set_input_def constructor_def setCacheEnable_def unknown_ua_set_def
      unknown_ua_cached_def given_def copy_demo_defaults)

lemma unknown_ua_cached_fields:
  "db unknown_ua_cached" "cacheEnable unknown_ua_cached" "cache unknown_ua_cached = []"
  "keyCache unknown_ua_cached = ''myUnknowUA''" "cacheMaxRecords unknown_ua_cached = 4000"
  "ua unknown_ua_cached = Some ''myUnknowUA''" "ip unknown_ua_cached = None"
  "retUa unknown_ua_cached = demo_default_ua" "retIp unknown_ua_cached = demo_default_ip"
  "fresh unknown_ua_cached = 0" "store unknown_ua_cached = (\<lambda>a. [])"
  by (simp_all add: unknown_ua_cached_def unknown_ua_set_def constructor_def)

lemma unknown_ua_set_fields:
  "db unknown_ua_set" "\<not> cacheEnable unknown_ua_set"
  "ua unknown_ua_set = Some ''myUnknowUA''" "ip unknown_ua_set = None"
  "retUa unknown_ua_set = demo_default_ua" "retIp unknown_ua_set = demo_default_ip"
  "fresh unknown_ua_set = 0"
  by (simp_all add: unknown_ua_set_def constructor_def)

lemma unknown_not_cached: "\<not> cacheKeyExist unknown_ua_cached ''myUnknowUA''"
  by (simp add: cacheKeyExist_def cache_get_def unknown_ua_cached_fields object_prototype_names_def)

lemma demo_parse_compact:
  "parse demo_env demo_data unknown_ua_cached (Some \<lparr>json = True, full = False\<rparr>)
     = Return (Some (Addr 0), compact_cached)"
proof -
  let ?s = unknown_ua_cached
  have h: "db ?s" "\<not> (cacheEnable ?s \<and> cacheKeyExist ?s (keyCache ?s))"
    "cacheEnable ?s \<longrightarrow> 0 \<le> cacheMaxRecords ?s"
    using unknown_not_cached by (simp_all add: unknown_ua_cached_fields)
  from parse_miss[OF h, of demo_env demo_data "Some \<lparr>json = True, full = False\<rparr>"] obtain s' pu pi where
    1: "parse demo_env demo_data ?s (Some \<lparr>json = True, full = False\<rparr>) = Return (Some (Addr (fresh ?s)), s')"
    and 2: "parseUa demo_env demo_data (retUa ?s) (ua ?s) (opts_or_empty (Some \<lparr>json = True, full = False\<rparr>)) = Inr pu"
    and 3: "store s' (Addr (fresh ?s)) =
             (if json (opts_or_empty (Some \<lparr>json = True, full = False\<rparr>)) then
                (if given (ua ?s) then [(''userAgent'', JObj (snd pu))] else []) @
                (if given (ip ?s) then [(''ipAddress'', JObj (snd pi))] else []) @
                (if full (opts_or_empty (Some \<lparr>json = True, full = False\<rparr>)) then [(''fromCache'', JBool False)] else [])
              else [(''user_agent'', JObj (fst pu)), (''ip_address'', JObj (fst pi)),
                    (''from_cache'', JBool False)])"
    and 4: "cacheEnable ?s \<and> int (length (cache ?s)) + 1 \<le> cacheMaxRecords ?s \<longrightarrow>
              s' = ?s\<lparr>cache := oset (cache ?s) (keyCache ?s) (Addr (fresh ?s)),
                      store := (store ?s)(Addr (fresh ?s) := store s' (Addr (fresh ?s))),
                      fresh := Suc (fresh ?s)\<rparr>"
    by blast
  have 5: "parseUa demo_env demo_data demo_default_ua (Some ''myUnknowUA'') \<lparr>json = True, full = False\<rparr> = Inr pu"
    using 2 by (simp add: unknown_ua_cached_fields opts_or_empty_def)
  have 6: "snd pu = [(''ua'', JObj [(''string'', JStr ''myUnknowUA''), (''class'', JStr ''unrecognized'')])]"
    using demo_unknown_json(1) 5 by auto
  have "store s' (Addr 0) = [(''userAgent'', JObj (snd pu))]"
    using 3 by (simp add: unknown_ua_cached_fields opts_or_empty_def given_def)
  then have 7: "store s' (Addr 0) = unknown_ua_compact" by (simp add: 6 unknown_ua_compact_def)
  have "s' = ?s\<lparr>cache := [(''myUnknowUA'', Addr 0)],
                 store := (\<lambda>a. [])(Addr 0 := store s' (Addr 0)), fresh := Suc 0\<rparr>"
    using 4 by (simp add: unknown_ua_cached_fields)
  then have "s' = compact_cached" by (simp add: 7 compact_cached_def)
  then show ?thesis using 1 by (simp add: unknown_ua_cached_fields)
qed

lemma demo_parse_full:
  "parse demo_env demo_data unknown_ua_cached (Some \<lparr>json = True, full = True\<rparr>)
     = Return (Some (Addr 0), full_cached)"
proof -
  let ?s = unknown_ua_cached
  have h: "db ?s" "\<not> (cacheEnable ?s \<and> cacheKeyExist ?s (keyCache ?s))"
    "cacheEnable ?s \<longrightarrow> 0 \<le> cacheMaxRecords ?s"
    using unknown_not_cached by (simp_all add: unknown_ua_cached_fields)
  from parse_miss[OF h, of demo_env demo_data "Some \<lparr>json = True, full = True\<rparr>"] obtain s' pu pi where
    1: "parse demo_env demo_data ?s (Some \<lparr>json = True, full = True\<rparr>) = Return (Some (Addr (fresh ?s)), s')"
    and 2: "parseUa demo_env demo_data (retUa ?s) (ua ?s) (opts_or_empty (Some \<lparr>json = True, full = True\<rparr>)) = Inr pu"
    and 3: "store s' (Addr (fresh ?s)) =
             (if json (opts_or_empty (Some \<lparr>json = True, full = True\<rparr>)) then
                (if given (ua ?s) then [(''userAgent'', JObj (snd pu))] else []) @
                (if given (ip ?s) then [(''ipAddress'', JObj (snd pi))] else []) @
                (if full (opts_or_empty (Some \<lparr>json = True, full = True\<rparr>)) then [(''fromCache'', JBool False)] else [])
              else [(''user_agent'', JObj (fst pu)), (''ip_address'', JObj (fst pi)),
                    (''from_cache'', JBool False)])"
    and 4: "cacheEnable ?s \<and> int (length (cache ?s)) + 1 \<le> cacheMaxRecords ?s \<longrightarrow>
              s' = ?s\<lparr>cache := oset (cache ?s) (keyCache ?s) (Addr (fresh ?s)),
                      store := (store ?s)(Addr (fresh ?s) := store s' (Addr (fresh ?s))),
                      fresh := Suc (fresh ?s)\<rparr>"
    by blast
  have 5: "parseUa demo_env demo_data demo_default_ua (Some ''myUnknowUA'') \<lparr>json = True, full = True\<rparr> = Inr pu"
    using 2 by (simp add: unknown_ua_cached_fields opts_or_empty_def)
  have 6: "snd pu = [(''ua'', JObj [(''string'', JStr ''myUnknowUA''), (''class'', JObj [(''name'', JStr ''Unrecognized''), (''code'', JStr ''unrecognized'')])])]"
    using demo_unknown_json(2) 5 by auto
  have "store s' (Addr 0) = [(''userAgent'', JObj (snd pu)), (''fromCache'', JBool False)]"
    using 3 by (simp add: unknown_ua_cached_fields opts_or_empty_def given_def)
  then have 7: "store s' (Addr 0) = unknown_ua_full" by (simp add: 6 unknown_ua_full_def)
  have "s' = ?s\<lparr>cache := [(''myUnknowUA'', Addr 0)],
                 store := (\<lambda>a. [])(Addr 0 := store s' (Addr 0)), fresh := Suc 0\<rparr>"
    using 4 by (simp add: unknown_ua_cached_fields)
  then have "s' = full_cached" by (simp add: 7 full_cached_def)
  then show ?thesis using 1 by (simp add: unknown_ua_cached_fields)
qed

subsection \<open>cacheRead\<close>

lemma cacheRead_hit:
  "cache_get (cache s) key = Some a \<Longrightarrow>
   cacheRead s key opts = Inr (Some a, s\<lparr>store := (store s)(a :=
     (case opts of
        None \<Rightarrow> oset (store s a) ''from_cache'' (JBool True)
      | Some op \<Rightarrow> if json op then (if full op then oset (store s a) ''fromCache'' (JBool True) else store s a)
                   else oset (store s a) ''from_cache'' (JBool True)))\<rparr>)"
  by (simp add: cacheRead_def set_flag_def split: option.splits)

lemma cacheRead_keeps_true:
  "cacheRead s key opts = Inr (x, s') \<Longrightarrow> oget (store s a) f = JBool True \<Longrightarrow>
   oget (store s' a) f = JBool True"
  by (auto simp: cacheRead_def set_flag_def Let_def oget_oset split: option.splits if_splits)

lemma parse_hit:
  "db s \<Longrightarrow> cacheEnable s \<Longrightarrow> cache_get (cache s) (keyCache s) = Some a \<Longrightarrow>
   cacheRead s (keyCache s) opts = Inr res \<Longrightarrow> parse E D s opts = Return res"
  by (simp add: parse_def isCacheEnable_def cacheKeyExist_def)

section \<open>The claims about parse and the cache flag\<close>

text \<open>
  Claim C4. The result of \<^verbatim>\<open>parse\<close> does not always hold a user-agent section, an IP
  section and a cache flag. What holds for a call with the dataset available that is not
  answered from the cache (and whose cache write returns: the cache is off or its capacity
  is not negative): the call returns a new object; in the flat shape it has exactly the
  properties \<^verbatim>\<open>user_agent\<close>, \<^verbatim>\<open>ip_address\<close> and \<^verbatim>\<open>from_cache = false\<close>, and a
  section whose input was not set is the copy of the default; in the nested shape it has
  \<^verbatim>\<open>userAgent\<close> only when a user agent was set, \<^verbatim>\<open>ipAddress\<close> only when an address
  was set, and \<^verbatim>\<open>fromCache = false\<close> only with the option \<^verbatim>\<open>full\<close>.
\<close>

theorem parse_result_sections:
  assumes "db s" and "\<not> (cacheEnable s \<and> cacheKeyExist s (keyCache s))"
      and "cacheEnable s \<longrightarrow> 0 \<le> cacheMaxRecords s"
  shows "\<exists>a s' pu pi.
           parse E D s opts = Return (Some a, s') \<and>
           parseUa E D (retUa s) (ua s) (opts_or_empty opts) = Inr pu \<and>
           parseIp E D (retIp s) (ip s) (opts_or_empty opts) = Inr pi \<and>
           store s' a =
             (if json (opts_or_empty opts) then
                (if given (ua s) then [(''userAgent'', JObj (snd pu))] else []) @
                (if given (ip s) then [(''ipAddress'', JObj (snd pi))] else []) @
                (if full (opts_or_empty opts) then [(''fromCache'', JBool False)] else [])
              else [(''user_agent'', JObj (fst pu)), (''ip_address'', JObj (fst pi)),
                    (''from_cache'', JBool False)]) \<and>
           (\<not> given (ua s) \<longrightarrow> fst pu = copy_obj (retUa s)) \<and>
           (\<not> given (ip s) \<longrightarrow> fst pi = copy_obj (retIp s))"
  using parse_miss[OF assms, of E D opts] by blast

text \<open>
  The parser with the cache on after \<^verbatim>\<open>set({ ua: 'myUnknowUA' })\<close>, called as
  \<^verbatim>\<open>parse()\<close>: the flat result has the three properties, and its IP section is the
  default.
\<close>

theorem parse_result_sections_witness:
  "db unknown_ua_cached \<and> cacheEnable unknown_ua_cached \<and>
   \<not> cacheKeyExist unknown_ua_cached (keyCache unknown_ua_cached) \<and>
   0 \<le> cacheMaxRecords unknown_ua_cached \<and>
   (\<exists>a s' pu. parse demo_env demo_data unknown_ua_cached None = Return (Some a, s') \<and>
      parseUa demo_env demo_data demo_default_ua (Some ''myUnknowUA'') \<lparr>json = False, full = False\<rparr> = Inr pu \<and>
      store s' a = [(''user_agent'', JObj (fst pu)), (''ip_address'', JObj demo_default_ip),
                    (''from_cache'', JBool False)])"
proof -
  let ?s = unknown_ua_cached
  have h: "db ?s" "\<not> (cacheEnable ?s \<and> cacheKeyExist ?s (keyCache ?s))"
    "cacheEnable ?s \<longrightarrow> 0 \<le> cacheMaxRecords ?s"
    using unknown_not_cached by (simp_all add: unknown_ua_cached_fields)
  from parse_result_sections[OF h, of demo_env demo_data None] obtain a s' pu pi where
    1: "parse demo_env demo_data ?s None = Return (Some a, s')"
    and 2: "parseUa demo_env demo_data (retUa ?s) (ua ?s) (opts_or_empty None) = Inr pu"
    and 3: "store s' a =
             (if json (opts_or_empty None) then
                (if given (ua ?s) then [(''userAgent'', JObj (snd pu))] else []) @
                (if given (ip ?s) then [(''ipAddress'', JObj (snd pi))] else []) @
                (if full (opts_or_empty None) then [(''fromCache'', JBool False)] else [])
              else [(''user_agent'', JObj (fst pu)), (''ip_address'', JObj (fst pi)),
                    (''from_cache'', JBool False)])"
    and 4: "\<not> given (ip ?s) \<longrightarrow> fst pi = copy_obj (retIp ?s)"
    by blast
  have 5: "parseUa demo_env demo_data demo_default_ua (Some ''myUnknowUA'') \<lparr>json = False, full = False\<rparr> = Inr pu"
    using 2 by (simp add: unknown_ua_cached_fields opts_or_empty_def)
  have 6: "fst pi = demo_default_ip"
    using 4 by (simp add: unknown_ua_cached_fields given_def copy_demo_defaults)
  have 7: "store s' a = [(''user_agent'', JObj (fst pu)), (''ip_address'', JObj demo_default_ip),
                    (''from_cache'', JBool False)]"
    using 3 by (simp add: opts_or_empty_def 6)
  have 8: "cacheEnable ?s" "\<not> cacheKeyExist ?s (keyCache ?s)" "0 \<le> cacheMaxRecords ?s"
    using unknown_not_cached by (simp_all add: unknown_ua_cached_fields)
  show ?thesis using h(1) 8 1 5 7 by blast
qed

text \<open>
  The claim as stated fails in the nested shape. The request of the repository's own test,
  \<^verbatim>\<open>set({ ua: 'myUnknowUA' })\<close> then \<^verbatim>\<open>parse({ json: true, full: true })\<close>, returns an
  object with \<^verbatim>\<open>userAgent\<close> and \<^verbatim>\<open>fromCache\<close> and no IP section; with
  \<^verbatim>\<open>{ json: true }\<close> it has no flag either; and on a new parser with nothing set the
  result is the empty object.
\<close>

theorem parse_result_sections_counterexample:
  "set_input (constructor demo_default_ua demo_default_ip) (ObjectData [(''ua'', Some ''myUnknowUA'')])
     = Inr unknown_ua_set \<and>
   result_keys (parse demo_env demo_data unknown_ua_set (Some \<lparr>json = True, full = True\<rparr>))
     = Some [''userAgent'', ''fromCache''] \<and>
   result_keys (parse demo_env demo_data unknown_ua_set (Some \<lparr>json = True, full = False\<rparr>))
     = Some [''userAgent''] \<and>
   result_keys (parse demo_env demo_data (constructor demo_default_ua demo_default_ip)
                  (Some \<lparr>json = True, full = False\<rparr>)) = Some []"
proof -
  have k: "result_keys (parse demo_env demo_data s (Some \<lparr>json = True, full = b\<rparr>))
             = Some ((if given (ua s) then [''userAgent''] else []) @
                     (if given (ip s) then [''ipAddress''] else []) @
                     (if b then [''fromCache''] else []))"
    if "db s" "\<not> cacheEnable s" for s b
  proof -
    have h: "db s" "\<not> (cacheEnable s \<and> cacheKeyExist s (keyCache s))"
      "cacheEnable s \<longrightarrow> 0 \<le> cacheMaxRecords s"
      using that by simp_all
    from parse_miss[OF h, of demo_env demo_data "Some \<lparr>json = True, full = b\<rparr>"] obtain s' pu pi where
      1: "parse demo_env demo_data s (Some \<lparr>json = True, full = b\<rparr>) = Return (Some (Addr (fresh s)), s')"
      and 3: "store s' (Addr (fresh s)) =
             (if json (opts_or_empty (Some \<lparr>json = True, full = b\<rparr>)) then
                (if given (ua s) then [(''userAgent'', JObj (snd pu))] else []) @
                (if given (ip s) then [(''ipAddress'', JObj (snd pi))] else []) @
                (if full (opts_or_empty (Some \<lparr>json = True, full = b\<rparr>)) then [(''fromCache'', JBool False)] else [])
              else [(''user_agent'', JObj (fst pu)), (''ip_address'', JObj (fst pi)),
                    (''from_cache'', JBool False)])"
      by blast
    show ?thesis using 3 by (simp add: result_keys_def 1 opts_or_empty_def)
  qed
  have c: "db (constructor demo_default_ua demo_default_ip)"
    "\<not> cacheEnable (constructor demo_default_ua demo_default_ip)"
    "ua (constructor demo_default_ua demo_default_ip) = None"
    "ip (constructor demo_default_ua demo_default_ip) = None"
    by (simp_all add: constructor_def)
  show ?thesis
    by (simp add: demo_set_unknown k unknown_ua_set_fields c given_def)
qed

text \<open>
  Claim C10. On a cache hit \<^verbatim>\<open>cacheRead\<close> returns the very object the cache refers
  to, and so does \<^verbatim>\<open>parse\<close>. The flag it sets on that object depends on the options of
  the reading call: \<^verbatim>\<open>from_cache\<close> without options or without \<^verbatim>\<open>json\<close>,
  \<^verbatim>\<open>fromCache\<close> with \<^verbatim>\<open>json\<close> and \<^verbatim>\<open>full\<close>, and no flag at all with
  \<^verbatim>\<open>json\<close> alone, a call that changes nothing. No other object and no cache entry
  changes, and a property of the object that is true stays true under every later
  \<^verbatim>\<open>cacheRead\<close>.
\<close>

theorem cacheRead_flags_stored_object:
  assumes "cache_get (cache s) key = Some a"
  shows "\<exists>s'. cacheRead s key opts = Inr (Some a, s') \<and>
           cache s' = cache s \<and>
           (\<forall>b. b \<noteq> a \<longrightarrow> store s' b = store s b) \<and>
           store s' a =
             (case opts of
                None \<Rightarrow> oset (store s a) ''from_cache'' (JBool True)
              | Some op \<Rightarrow>
                  if json op then (if full op then oset (store s a) ''fromCache'' (JBool True) else store s a)
                  else oset (store s a) ''from_cache'' (JBool True)) \<and>
           (case opts of Some op \<Rightarrow> json op \<and> \<not> full op \<longrightarrow> s' = s | None \<Rightarrow> True) \<and>
           (db s \<and> cacheEnable s \<and> key = keyCache s \<longrightarrow> parse E D s opts = Return (Some a, s')) \<and>
           (\<forall>f k p x s''. oget (store s' a) f = JBool True \<and> cacheRead s' k p = Inr (x, s'')
              \<longrightarrow> oget (store s'' a) f = JBool True)"
proof -
  let ?v = "case opts of
                None \<Rightarrow> oset (store s a) ''from_cache'' (JBool True)
              | Some op \<Rightarrow>
                  if json op then (if full op then oset (store s a) ''fromCache'' (JBool True) else store s a)
                  else oset (store s a) ''from_cache'' (JBool True)"
  let ?s' = "s\<lparr>store := (store s)(a := ?v)\<rparr>"
  have 1: "cacheRead s key opts = Inr (Some a, ?s')" using assms by (rule cacheRead_hit)
  have 2: "cache ?s' = cache s" "\<forall>b. b \<noteq> a \<longrightarrow> store ?s' b = store s b" "store ?s' a = ?v"
    by simp_all
  have 3: "case opts of Some op \<Rightarrow> json op \<and> \<not> full op \<longrightarrow> ?s' = s | None \<Rightarrow> True"
    by (simp split: option.splits)
  have 4: "db s \<and> cacheEnable s \<and> key = keyCache s \<longrightarrow> parse E D s opts = Return (Some a, ?s')"
    using parse_hit[of s a opts "(Some a, ?s')" E D] assms 1 by auto
  have 5: "\<forall>f k p x s''. oget (store ?s' a) f = JBool True \<and> cacheRead ?s' k p = Inr (x, s'')
              \<longrightarrow> oget (store s'' a) f = JBool True"
    using cacheRead_keeps_true by blast
  show ?thesis using 1 2 3 4 5 by blast
qed

text \<open>
  The request \<^verbatim>\<open>set({ ua: 'myUnknowUA' })\<close> with the cache on: the first
  \<^verbatim>\<open>parse({ json: true, full: true })\<close> builds and caches the result with
  \<^verbatim>\<open>fromCache = false\<close>; the second returns the same object, now with
  \<^verbatim>\<open>fromCache = true\<close>.
\<close>

theorem cacheRead_flags_stored_object_witness:
  "parse demo_env demo_data unknown_ua_cached (Some \<lparr>json = True, full = True\<rparr>)
     = Return (Some (Addr 0), full_cached) \<and>
   oget (store full_cached (Addr 0)) ''fromCache'' = JBool False \<and>
   cache_get (cache full_cached) ''myUnknowUA'' = Some (Addr 0) \<and>
   (\<exists>s'. parse demo_env demo_data full_cached (Some \<lparr>json = True, full = True\<rparr>)
            = Return (Some (Addr 0), s') \<and>
          cache s' = cache full_cached \<and>
          oget (store s' (Addr 0)) ''fromCache'' = JBool True \<and>
          oget (store s' (Addr 0)) ''userAgent'' = oget (store full_cached (Addr 0)) ''userAgent'')"
proof -
  have f: "db full_cached" "cacheEnable full_cached" "keyCache full_cached = ''myUnknowUA''"
    "cache full_cached = [(''myUnknowUA'', Addr 0)]" "store full_cached (Addr 0) = unknown_ua_full"
    by (simp_all add: full_cached_def unknown_ua_cached_fields)
  have g: "cache_get (cache full_cached) ''myUnknowUA'' = Some (Addr 0)"
    by (simp add: f cache_get_def)
  from cacheRead_flags_stored_object[OF g, of "Some \<lparr>json = True, full = True\<rparr>" demo_env demo_data]
  obtain s' where
    1: "cache s' = cache full_cached"
    and 2: "store s' (Addr 0) =
             (case Some \<lparr>json = True, full = True\<rparr> of
                None \<Rightarrow> oset (store full_cached (Addr 0)) ''from_cache'' (JBool True)
              | Some op \<Rightarrow>
                  if json op then (if full op then oset (store full_cached (Addr 0)) ''fromCache'' (JBool True)
                                   else store full_cached (Addr 0))
                  else oset (store full_cached (Addr 0)) ''from_cache'' (JBool True))"
    and 3: "db full_cached \<and> cacheEnable full_cached \<and> ''myUnknowUA'' = keyCache full_cached \<longrightarrow>
            parse demo_env demo_data full_cached (Some \<lparr>json = True, full = True\<rparr>) = Return (Some (Addr 0), s')"
    by blast
  have 4: "parse demo_env demo_data full_cached (Some \<lparr>json = True, full = True\<rparr>) = Return (Some (Addr 0), s')"
    using 3 by (simp add: f)
  have 5: "oget (store s' (Addr 0)) ''fromCache'' = JBool True"
    "oget (store s' (Addr 0)) ''userAgent'' = oget (store full_cached (Addr 0)) ''userAgent''"
    using 2 by (simp_all add: oget_oset)
  have 6: "oget (store full_cached (Addr 0)) ''fromCache'' = JBool False"
    by (simp add: f unknown_ua_full_def)
  show ?thesis using demo_parse_full g 1 4 5 6 by blast
qed

text \<open>
  The claim as stated fails for the compact nested shape. With the cache on, the first
  \<^verbatim>\<open>parse({ json: true })\<close> of the same request caches its result; the second call
  is a cache hit that returns the same object and leaves the parser as it was: the object
  carries no flag of either name.
\<close>

theorem cacheRead_flags_stored_object_counterexample:
  "parse demo_env demo_data unknown_ua_cached (Some \<lparr>json = True, full = False\<rparr>)
     = Return (Some (Addr 0), compact_cached) \<and>
   cacheKeyExist compact_cached (keyCache compact_cached) \<and>
   cacheRead compact_cached (keyCache compact_cached) (Some \<lparr>json = True, full = False\<rparr>)
     = Inr (Some (Addr 0), compact_cached) \<and>
   parse demo_env demo_data compact_cached (Some \<lparr>json = True, full = False\<rparr>)
     = Return (Some (Addr 0), compact_cached) \<and>
   map fst (store compact_cached (Addr 0)) = [''userAgent'']"
proof -
  have f: "db compact_cached" "cacheEnable compact_cached" "keyCache compact_cached = ''myUnknowUA''"
    "cache compact_cached = [(''myUnknowUA'', Addr 0)]" "store compact_cached (Addr 0) = unknown_ua_compact"
    by (simp_all add: compact_cached_def unknown_ua_cached_fields)
  have g: "cache_get (cache compact_cached) (keyCache compact_cached) = Some (Addr 0)"
    by (simp add: f cache_get_def)
  have r: "cacheRead compact_cached (keyCache compact_cached) (Some \<lparr>json = True, full = False\<rparr>)
     = Inr (Some (Addr 0), compact_cached)"
    using cacheRead_hit[OF g, of "Some \<lparr>json = True, full = False\<rparr>"] by simp
  have p: "parse demo_env demo_data compact_cached (Some \<lparr>json = True, full = False\<rparr>)
     = Return (Some (Addr 0), compact_cached)"
    using parse_hit[OF f(1,2) g r] .
  have k: "map fst (store compact_cached (Addr 0)) = [''userAgent'']"
    by (simp add: f unknown_ua_compact_def)
  show ?thesis using demo_parse_compact g r p k by (simp add: cacheKeyExist_def)
qed

end
